theory Spec2Isabelle
  imports Complex_Main
begin

section \<open>Values that arrive in a request\<close>

text \<open>
  Request bodies are parsed JSON, so a field of a body is any JSON value or is absent.
  An absent field (\<^verbatim>\<open>undefined\<close>) is \<open>None\<close>. Numbers are kept to the integers that a
  double holds exactly and prints in full, those below \<open>2 ^ 53\<close> in magnitude; fractions
  and larger numbers are left out, and so are nested arrays and objects: no operation below
  looks inside one.
\<close>

datatype json = JNull | JBool bool | JNum int | JStr string

type_synonym jsval = "json option"

type_synonym body = "string \<rightharpoonup> json"

text \<open>JavaScript truthiness, as used by \<^verbatim>\<open>!x\<close>, \<^verbatim>\<open>x && y\<close>, \<^verbatim>\<open>x || y\<close> and \<^verbatim>\<open>x ? a : b\<close>.\<close>

fun truthy :: "jsval \<Rightarrow> bool" where
  "truthy None = False"
| "truthy (Some JNull) = False"
| "truthy (Some (JBool b)) = b"
| "truthy (Some (JNum n)) = (n \<noteq> 0)"
| "truthy (Some (JStr s)) = (s \<noteq> [])"

text \<open>
  Decimal rendering of a number, as a template literal or \<^verbatim>\<open>toString()\<close> gives it for
  an integer below \<open>10 ^ 21\<close> in magnitude (from there on JavaScript prints an exponent).
\<close>

definition digit_char :: "nat \<Rightarrow> char" where
  "digit_char n = char_of (48 + n)"

fun string_of_nat :: "nat \<Rightarrow> string" where
  "string_of_nat n =
     (if n < 10 then [digit_char n]
      else string_of_nat (n div 10) @ [digit_char (n mod 10)])"

declare string_of_nat.simps [simp del]

definition string_of_int :: "int \<Rightarrow> string" where
  "string_of_int i = (if i < 0 then CHR ''-'' # string_of_nat (nat (- i)) else string_of_nat (nat i))"

fun toString :: "json \<Rightarrow> string" where
  "toString JNull = ''null''"
| "toString (JBool b) = (if b then ''true'' else ''false'')"
| "toString (JNum n) = string_of_int n"
| "toString (JStr s) = s"

text \<open>\<^verbatim>\<open>s.slice(-6)\<close>: the last six characters, the whole string when it is shorter.\<close>

definition slice_last6 :: "string \<Rightarrow> string" where
  "slice_last6 s = drop (length s - 6) s"

section \<open>Rows of the database\<close>

text \<open>
  The tables of the migration that the operations below read or write. Identifiers are
  text, timestamps are milliseconds since the epoch (what \<^verbatim>\<open>getTime()\<close> returns), prices
  are idealised reals; the amount of a payment is a real or \<^verbatim>\<open>NaN\<close>, which is \<open>None\<close>.
  Field names carry the table's initial because the same column name
  occurs in several tables.
\<close>

type_synonym uuid = string
type_synonym timestamp = int

datatype Role = Role_user | Role_admin
datatype Profession = student | professional
datatype EnrollmentStatus = pending_payment | enrolled | completed
datatype PaymentStatus = pending_verification | verified | failed | refunded

record user_row =
  u_id :: uuid
  u_full_name :: string
  u_email :: string
  u_password :: string
  u_phone :: "string option"
  u_profession :: "Profession option"
  u_college :: "string option"
  u_company :: "string option"
  u_role :: Role
  u_is_admin :: bool
  u_created_at :: timestamp
  u_updated_at :: timestamp

record training_row =
  t_id :: uuid
  t_title :: string
  t_price :: real
  t_is_active :: bool

record enrollment_row =
  e_id :: uuid
  e_user_id :: uuid
  e_training_id :: uuid
  e_status :: EnrollmentStatus
  e_created_at :: timestamp
  e_updated_at :: timestamp

record payment_row =
  p_id :: uuid
  p_user_id :: uuid
  p_training_id :: uuid
  p_amount :: "real option"
  p_payment_method :: string
  p_transaction_reference :: "string option"
  p_status :: PaymentStatus
  p_created_at :: timestamp
  p_updated_at :: timestamp

record db =
  users :: "user_row list"
  training_programs :: "training_row list"
  enrollments :: "enrollment_row list"
  payments :: "payment_row list"

section \<open>Errors and asynchronous database code\<close>

text \<open>
  Every \<^verbatim>\<open>throw new Error(message)\<close> of the services is a constructor, named after its
  message; the errors of the Prisma client are named after their code.

  \<^item> \<open>PaymentNotFound\<close>: "Payment not found or access denied"
  \<^item> \<open>PaymentNotPending\<close>: "Payment is not in pending verification status"
  \<^item> \<open>PaymentSessionExpired\<close>: "Payment session expired. Please retry payment."
  \<^item> \<open>InvalidPaymentStatus\<close>: "Invalid payment status"
  \<^item> \<open>InvalidStatus\<close>: "Invalid status"
  \<^item> \<open>EnrollmentNotFound\<close>: "Enrollment not found or access denied"
  \<^item> \<open>EnrollmentNotPending\<close>: "Enrollment is not in pending payment status"
  \<^item> \<open>NoEnrollmentFound\<close>: "No enrollment found for this training program"
  \<^item> \<open>PaymentFieldsRequired\<close>: "Training ID, amount, and payment method are required"
  \<^item> \<open>QRCodeFailed\<close>: "Failed to generate QR code"
  \<^item> \<open>TrainingIdRequired\<close>: "Training ID is required"
  \<^item> \<open>TrainingNotActive\<close>: "Training program not found or not active"
  \<^item> \<open>AlreadyEnrolled\<close>: "Already enrolled in this training program"
  \<^item> \<open>InvalidProfession\<close>: "Profession must be either "student" or "professional""
  \<^item> \<open>SignupFieldsRequired\<close>: "Full name, email, and password are required"
  \<^item> \<open>InvalidEmailFormat\<close>: "Invalid email format"
  \<^item> \<open>EmailAlreadyExists\<close>: "Email already exists"
  \<^item> \<open>TokenGenerationFailed\<close>: "Token generation failed"
  \<^item> \<open>P2002\<close>: unique constraint violated; \<open>P2003\<close>: foreign key violated;
    \<open>P2025\<close>: the record to update does not exist;
    \<open>P1017\<close>: the server has closed the connection
  \<^item> \<open>PrismaValidation\<close>: the data handed to the client has the wrong type for its column
  \<^item> \<open>TypeError\<close>: a property of \<^verbatim>\<open>null\<close> was read, or a non-string was hashed
\<close>

datatype error =
    PaymentNotFound | PaymentNotPending | PaymentSessionExpired | InvalidPaymentStatus
  | InvalidStatus | EnrollmentNotFound | EnrollmentNotPending | NoEnrollmentFound
  | PaymentFieldsRequired | QRCodeFailed
  | TrainingIdRequired | TrainingNotActive | AlreadyEnrolled | InvalidProfession
  | SignupFieldsRequired | InvalidEmailFormat | EmailAlreadyExists | TokenGenerationFailed
  | P2002 | P2003 | P2025 | P1017 | PrismaValidation | TypeError

text \<open>
  An asynchronous function that talks to the database takes the database and returns the
  database it leaves behind with either the error it threw or its result. A write made
  before a throw stays, unless the code ran inside \<^verbatim>\<open>prisma.$transaction\<close>, which puts
  the database back as it was.
\<close>

type_synonym 'a prisma = "db \<Rightarrow> db \<times> (error + 'a)"

definition resolve :: "'a \<Rightarrow> 'a prisma" where
  "resolve x d = (d, Inr x)"

definition throw :: "error \<Rightarrow> 'a prisma" where
  "throw e d = (d, Inl e)"

definition await :: "'a prisma \<Rightarrow> ('a \<Rightarrow> 'b prisma) \<Rightarrow> 'b prisma" where
  "await m k d = (case m d of (d', Inl e) \<Rightarrow> (d', Inl e) | (d', Inr x) \<Rightarrow> k x d')"

definition catch :: "'a prisma \<Rightarrow> (error \<Rightarrow> 'a prisma) \<Rightarrow> 'a prisma" where
  "catch m h d = (case m d of (d', Inl e) \<Rightarrow> h e d' | (d', Inr x) \<Rightarrow> (d', Inr x))"

definition transaction :: "'a prisma \<Rightarrow> 'a prisma" where
  "transaction m d = (case m d of (d', Inl e) \<Rightarrow> (d, Inl e) | (d', Inr x) \<Rightarrow> (d', Inr x))"

text \<open>
  The database may refuse a statement for a reason outside the tables: the connection has
  closed, a lock has timed out. \<open>fault\<close> is the error the client then throws, \<open>None\<close>
  when the statement is executed; a refused statement writes nothing. The statements
  inside \<^verbatim>\<open>prisma.$transaction\<close> take their fault as an argument, since there a
  refusal after an earlier write is what the transaction is for.
\<close>

definition statement :: "error option \<Rightarrow> 'a prisma \<Rightarrow> 'a prisma" where
  "statement fault m = (case fault of Some e \<Rightarrow> throw e | None \<Rightarrow> m)"

text \<open>Data for a nullable text column: a string or \<^verbatim>\<open>null\<close>, anything else is refused.\<close>

fun nullable_text :: "json \<Rightarrow> error + string option" where
  "nullable_text JNull = Inr None"
| "nullable_text (JStr s) = Inr (Some s)"
| "nullable_text _ = Inl PrismaValidation"

section \<open>Payments: the member's operations\<close>

definition FIVE_MINUTES :: int where
  "FIVE_MINUTES = 5 * 60 * 1000"

text \<open>
  \<^verbatim>\<open>prisma.payment.update({ where: { id }, data })\<close>. The client stamps \<open>updated_at\<close>
  on every update; \<open>data\<close> is applied after the stamp.
\<close>

definition payment_update :: "timestamp \<Rightarrow> uuid \<Rightarrow> (payment_row \<Rightarrow> payment_row) \<Rightarrow> payment_row prisma" where
  "payment_update now pid data d =
     (case find (\<lambda>p. p_id p = pid) (payments d) of
        None \<Rightarrow> (d, Inl P2025)
      | Some p \<Rightarrow>
          (d\<lparr>payments := map (\<lambda>q. if p_id q = pid then data (q\<lparr>p_updated_at := now\<rparr>) else q) (payments d)\<rparr>,
           Inr (data (p\<lparr>p_updated_at := now\<rparr>))))"

definition payment_findFirst :: "(payment_row \<Rightarrow> bool) \<Rightarrow> (payment_row option) prisma" where
  "payment_findFirst cond d = (d, Inr (find cond (payments d)))"

definition trainingProgram_findFirst :: "(training_row \<Rightarrow> bool) \<Rightarrow> (training_row option) prisma" where
  "trainingProgram_findFirst cond d = (d, Inr (find cond (training_programs d)))"

record confirm_result =
  cr_id :: uuid
  cr_status :: PaymentStatus
  cr_transaction_reference :: "string option"

text \<open>
  \<^verbatim>\<open>confirmPayment(userId, userRole, paymentId, transactionReference)\<close> of the user
  service. \<open>now\<close> is what \<^verbatim>\<open>Date.now()\<close> reads during the call.
\<close>

definition confirmPayment :: "timestamp \<Rightarrow> uuid \<Rightarrow> uuid \<Rightarrow> jsval \<Rightarrow> confirm_result prisma" where
  "confirmPayment now userId paymentId transactionReference =
     await (payment_findFirst (\<lambda>p. p_id p = paymentId \<and> p_user_id p = userId)) (\<lambda>found.
       case found of
         None \<Rightarrow> throw PaymentNotFound
       | Some payment \<Rightarrow>
           if p_status payment \<noteq> pending_verification then throw PaymentNotPending
           else if now - p_created_at payment \<ge> FIVE_MINUTES then
             await (payment_update now paymentId (\<lambda>p. p\<lparr>p_status := failed\<rparr>))
               (\<lambda>_. throw PaymentSessionExpired)
           else
             (case nullable_text (if truthy transactionReference then the transactionReference else JNull) of
                Inl e \<Rightarrow> throw e
              | Inr reference \<Rightarrow>
                  await (payment_update now paymentId
                           (\<lambda>p. p\<lparr>p_transaction_reference := reference, p_updated_at := now\<rparr>))
                    (\<lambda>updatedPayment. resolve
                       \<lparr>cr_id = p_id updatedPayment,
                        cr_status = p_status updatedPayment,
                        cr_transaction_reference = p_transaction_reference updatedPayment\<rparr>)))"

record status_result =
  sr_id :: uuid
  sr_status :: PaymentStatus
  sr_amount :: "real option"
  sr_training_title :: string
  sr_transaction_reference :: "string option"
  sr_created_at :: timestamp
  sr_is_expired :: bool

text \<open>
  \<^verbatim>\<open>getPaymentStatus(userId, userRole, paymentId)\<close>. The payment is read with its training
  program included; the title is taken from it only when the response is built, after
  the lazy expiry has been written.
\<close>

definition getPaymentStatus :: "timestamp \<Rightarrow> uuid \<Rightarrow> uuid \<Rightarrow> status_result prisma" where
  "getPaymentStatus now userId paymentId =
     await (payment_findFirst (\<lambda>p. p_id p = paymentId \<and> p_user_id p = userId)) (\<lambda>found.
       case found of
         None \<Rightarrow> throw PaymentNotFound
       | Some payment \<Rightarrow>
           await (trainingProgram_findFirst (\<lambda>t. t_id t = p_training_id payment)) (\<lambda>training_program.
           let sessionAge = now - p_created_at payment in
           await
             (if p_status payment = pending_verification \<and> sessionAge \<ge> FIVE_MINUTES
              then await (payment_update now paymentId (\<lambda>p. p\<lparr>p_status := failed\<rparr>)) (\<lambda>_. resolve failed)
              else resolve (p_status payment))
             (\<lambda>status.
                case training_program of
                  None \<Rightarrow> throw TypeError
                | Some t \<Rightarrow> resolve
                    \<lparr>sr_id = p_id payment,
                     sr_status = status,
                     sr_amount = p_amount payment,
                     sr_training_title = t_title t,
                     sr_transaction_reference = p_transaction_reference payment,
                     sr_created_at = p_created_at payment,
                     sr_is_expired = (sessionAge \<ge> FIVE_MINUTES \<and> p_status payment = pending_verification)\<rparr>)))"

text \<open>
  The database after \<^verbatim>\<open>prisma.payment.update({ where: { id }, data: { status: 'failed' } })\<close>
  has run at time \<open>now\<close>: the lazy expiry that the member's operations perform.
\<close>

definition expire :: "timestamp \<Rightarrow> uuid \<Rightarrow> db \<Rightarrow> db" where
  "expire now pid d = d\<lparr>payments := map (\<lambda>q. if p_id q = pid then q\<lparr>p_updated_at := now, p_status := failed\<rparr> else q) (payments d)\<rparr>"

section \<open>Payments: initiating a payment session\<close>

text \<open>
  What the member's operations take from outside the repository: two environment variables,
  the number formatting of the runtime, the serialisation of \<^verbatim>\<open>URLSearchParams\<close>, the
  \<^verbatim>\<open>qrcode\<close> library (\<open>None\<close> when it throws) and \<^verbatim>\<open>parseFloat\<close> (\<open>None\<close> for
  \<^verbatim>\<open>NaN\<close>).
\<close>

record env =
  COMPANY_UPI_ID :: "string option"
  COMPANY_NAME :: "string option"
  number_toString :: "real \<Rightarrow> string"
  URLSearchParams_toString :: "(string \<times> string) list \<Rightarrow> string"
  QRCode_toDataURL :: "string \<Rightarrow> string option"
  parseFloat :: "json \<Rightarrow> real option"

text \<open>\<^verbatim>\<open>process.env.X || fallback\<close> and \<^verbatim>\<open>price || 0\<close>.\<close>

definition env_or :: "string option \<Rightarrow> string \<Rightarrow> string" where
  "env_or v fallback = (case v of None \<Rightarrow> fallback | Some s \<Rightarrow> if s = [] then fallback else s)"

definition or_zero :: "real \<Rightarrow> real" where
  "or_zero x = (if x = 0 then 0 else x)"

definition generateUpiLink :: "env \<Rightarrow> string \<Rightarrow> string \<Rightarrow> real \<Rightarrow> string \<Rightarrow> string \<Rightarrow> string" where
  "generateUpiLink ev upiId merchantName amount transactionNote transactionRef =
     ''upi://pay?'' @ URLSearchParams_toString ev
        [(''pa'', upiId), (''pn'', merchantName), (''am'', number_toString ev amount),
         (''tn'', transactionNote), (''tr'', transactionRef)]"

definition generateQRCode :: "env \<Rightarrow> string \<Rightarrow> string prisma" where
  "generateQRCode ev text = (case QRCode_toDataURL ev text of None \<Rightarrow> throw QRCodeFailed | Some url \<Rightarrow> resolve url)"

text \<open>
  \<^verbatim>\<open>prisma.payment.create({ data })\<close>: the primary key and the two foreign keys of the
  migration are checked, the new row goes to the end of the table. \<open>new_id\<close> is the
  identifier the client generates for the row.
\<close>

definition payment_create :: "timestamp \<Rightarrow> uuid \<Rightarrow> uuid \<Rightarrow> uuid \<Rightarrow> real option \<Rightarrow> string \<Rightarrow> string option \<Rightarrow> payment_row prisma" where
  "payment_create now new_id userId trainingId amount method reference d =
     (if new_id \<in> p_id ` set (payments d) then (d, Inl P2002)
      else if userId \<notin> u_id ` set (users d) \<or> trainingId \<notin> t_id ` set (training_programs d)
      then (d, Inl P2003)
      else
        let payment = \<lparr>p_id = new_id, p_user_id = userId, p_training_id = trainingId, p_amount = amount,
                        p_payment_method = method, p_transaction_reference = reference,
                        p_status = pending_verification, p_created_at = now, p_updated_at = now\<rparr>
        in (d\<lparr>payments := payments d @ [payment]\<rparr>, Inr payment))"

definition enrollment_findFirst :: "(enrollment_row \<Rightarrow> bool) \<Rightarrow> (enrollment_row option) prisma" where
  "enrollment_findFirst cond d = (d, Inr (find cond (enrollments d)))"

record payment_session =
  ps_payment_id :: uuid
  ps_enrollment_id :: uuid
  ps_training_title :: string
  ps_amount :: real
  ps_upi_link :: string
  ps_qr_code :: string
  ps_payment_reference :: string
  ps_expires_at :: timestamp
  ps_timer_duration :: int

text \<open>\<^verbatim>\<open>`TXN-${Date.now()}-${enrollmentId.slice(-6)}`\<close>\<close>

definition txn_reference :: "timestamp \<Rightarrow> uuid \<Rightarrow> string" where
  "txn_reference now enrollmentId = ''TXN-'' @ string_of_int now @ ''-'' @ slice_last6 enrollmentId"

text \<open>
  \<^verbatim>\<open>initiatePaymentForEnrollment(userId, userRole, enrollmentId)\<close>. The enrollment is read
  with its training program included, so a missing program shows when its price or title
  is read. \<open>now\<close> is the clock during the call, read by every \<^verbatim>\<open>Date.now()\<close> of the
  call and by the database for \<open>created_at\<close>; \<^verbatim>\<open>expires_at\<close> is kept as a timestamp.
  \<^verbatim>\<open>Math.floor((FIVE_MINUTES - sessionAge) / 1000)\<close> is \<open>div\<close> on the integers.
\<close>

definition initiatePaymentForEnrollment :: "env \<Rightarrow> timestamp \<Rightarrow> uuid \<Rightarrow> uuid \<Rightarrow> uuid \<Rightarrow> payment_session prisma" where
  "initiatePaymentForEnrollment ev now new_id userId enrollmentId =
     await (enrollment_findFirst (\<lambda>e. e_id e = enrollmentId \<and> e_user_id e = userId)) (\<lambda>found.
       case found of
         None \<Rightarrow> throw EnrollmentNotFound
       | Some enrollment \<Rightarrow>
           if e_status enrollment \<noteq> pending_payment then throw EnrollmentNotPending
           else
           await (trainingProgram_findFirst (\<lambda>t. t_id t = e_training_id enrollment)) (\<lambda>training_program.
           await (payment_findFirst (\<lambda>p. p_user_id p = userId \<and> p_training_id p = e_training_id enrollment
                                        \<and> p_status p = pending_verification)) (\<lambda>existingPayment.
           let sessionAge = (case existingPayment of None \<Rightarrow> 0 | Some p \<Rightarrow> now - p_created_at p) in
           if existingPayment \<noteq> None \<and> \<not> sessionAge \<ge> FIVE_MINUTES then
             (case training_program of
                None \<Rightarrow> throw TypeError
              | Some t \<Rightarrow>
                  let upiLink = generateUpiLink ev
                        (env_or (COMPANY_UPI_ID ev) ''qthink@paytm'')
                        (env_or (COMPANY_NAME ev) ''QThink Solutions'')
                        (or_zero (t_price t))
                        (''Payment for '' @ t_title t)
                        (txn_reference now enrollmentId)
                  in await (generateQRCode ev upiLink) (\<lambda>qrCodeDataUrl.
                     resolve
                       \<lparr>ps_payment_id = p_id (the existingPayment),
                        ps_enrollment_id = enrollmentId,
                        ps_training_title = t_title t,
                        ps_amount = or_zero (t_price t),
                        ps_upi_link = upiLink,
                        ps_qr_code = qrCodeDataUrl,
                        ps_payment_reference = txn_reference now enrollmentId,
                        ps_expires_at = p_created_at (the existingPayment) + FIVE_MINUTES,
                        ps_timer_duration = max 0 ((FIVE_MINUTES - sessionAge) div 1000)\<rparr>))
           else
             await (case existingPayment of
                      None \<Rightarrow> resolve ()
                    | Some p \<Rightarrow> await (payment_update now (p_id p) (\<lambda>q. q\<lparr>p_status := failed\<rparr>)) (\<lambda>_. resolve ()))
               (\<lambda>_.
             let paymentReference = txn_reference now enrollmentId in
             case training_program of
               None \<Rightarrow> throw TypeError
             | Some t \<Rightarrow>
                 await (payment_create now new_id userId (e_training_id enrollment)
                          (Some (or_zero (t_price t))) ''UPI'' None) (\<lambda>payment.
                 let upiLink = generateUpiLink ev
                        (env_or (COMPANY_UPI_ID ev) ''qthink@paytm'')
                        (env_or (COMPANY_NAME ev) ''QThink Solutions'')
                        (or_zero (t_price t))
                        (''Payment for '' @ t_title t)
                        paymentReference
                 in await (generateQRCode ev upiLink) (\<lambda>qrCodeDataUrl.
                    resolve
                      \<lparr>ps_payment_id = p_id payment,
                       ps_enrollment_id = enrollmentId,
                       ps_training_title = t_title t,
                       ps_amount = or_zero (t_price t),
                       ps_upi_link = upiLink,
                       ps_qr_code = qrCodeDataUrl,
                       ps_payment_reference = paymentReference,
                       ps_expires_at = now + 5 * 60 * 1000,
                       ps_timer_duration = 300\<rparr>))))))"

text \<open>Data for a required text column, and for a value used as an identifier in a query.\<close>

fun required_text :: "jsval \<Rightarrow> error + string" where
  "required_text (Some (JStr s)) = Inr s"
| "required_text _ = Inl PrismaValidation"

fun optional_text :: "jsval \<Rightarrow> error + string option" where
  "optional_text None = Inr None"
| "optional_text (Some v) = nullable_text v"

definition lift :: "error + 'a \<Rightarrow> 'a prisma" where
  "lift r = (case r of Inl e \<Rightarrow> throw e | Inr x \<Rightarrow> resolve x)"

definition enrollment_findUnique :: "uuid \<Rightarrow> uuid \<Rightarrow> (enrollment_row option) prisma" where
  "enrollment_findUnique userId trainingId d =
     (d, Inr (find (\<lambda>e. e_user_id e = userId \<and> e_training_id e = trainingId) (enrollments d)))"

text \<open>
  \<^verbatim>\<open>createPayment(userId, userRole, paymentData)\<close>: a member records a payment for a
  training the member has an enrollment for. The amount is stored as \<^verbatim>\<open>parseFloat\<close> gives
  it, \<^verbatim>\<open>NaN\<close> included. The response is the created row.
\<close>

definition createPayment :: "env \<Rightarrow> timestamp \<Rightarrow> uuid \<Rightarrow> uuid \<Rightarrow> body \<Rightarrow> payment_row prisma" where
  "createPayment ev now new_id userId paymentData =
     (let training_id = paymentData ''training_id'';
          amount = paymentData ''amount'';
          payment_method = paymentData ''payment_method'';
          transaction_reference = paymentData ''transaction_reference''
      in if \<not> truthy training_id \<or> \<not> truthy amount \<or> \<not> truthy payment_method
         then throw PaymentFieldsRequired
         else
           await (lift (required_text training_id)) (\<lambda>tid.
           await (enrollment_findUnique userId tid) (\<lambda>enrollment.
             case enrollment of
               None \<Rightarrow> throw NoEnrollmentFound
             | Some _ \<Rightarrow>
                 await (lift (required_text payment_method)) (\<lambda>method.
                 await (lift (optional_text transaction_reference)) (\<lambda>reference.
                   payment_create now new_id userId tid (parseFloat ev (the amount)) method reference)))))"

section \<open>The administrator's status updates\<close>

text \<open>\<^verbatim>\<open>[...].includes(status)\<close> for a list of strings: strict equality with one of them.\<close>

fun array_includes :: "string list \<Rightarrow> jsval \<Rightarrow> bool" where
  "array_includes xs (Some (JStr s)) = (s \<in> set xs)"
| "array_includes xs _ = False"

text \<open>The text of a status as the enum of the schema.\<close>

definition PaymentStatus_of :: "string \<Rightarrow> PaymentStatus option" where
  "PaymentStatus_of s =
     (if s = ''pending_verification'' then Some pending_verification
      else if s = ''verified'' then Some verified
      else if s = ''failed'' then Some failed
      else if s = ''refunded'' then Some refunded
      else None)"

definition EnrollmentStatus_of :: "string \<Rightarrow> EnrollmentStatus option" where
  "EnrollmentStatus_of s =
     (if s = ''pending_payment'' then Some pending_payment
      else if s = ''enrolled'' then Some enrolled
      else if s = ''completed'' then Some completed
      else None)"

definition enrollment_update :: "timestamp \<Rightarrow> uuid \<Rightarrow> (enrollment_row \<Rightarrow> enrollment_row) \<Rightarrow> enrollment_row prisma" where
  "enrollment_update now eid data d =
     (case find (\<lambda>e. e_id e = eid) (enrollments d) of
        None \<Rightarrow> (d, Inl P2025)
      | Some e \<Rightarrow>
          (d\<lparr>enrollments := map (\<lambda>x. if e_id x = eid then data (x\<lparr>e_updated_at := now\<rparr>) else x) (enrollments d)\<rparr>,
           Inr (data (e\<lparr>e_updated_at := now\<rparr>))))"

text \<open>
  \<^verbatim>\<open>tx.enrollment.updateMany({ where, data })\<close>, a statement of a transaction: refused with
  \<open>fault\<close>, or every row that meets \<open>cond\<close> is stamped and written and their number is
  returned.
\<close>

definition enrollment_updateMany :: "error option \<Rightarrow> timestamp \<Rightarrow> (enrollment_row \<Rightarrow> bool) \<Rightarrow> (enrollment_row \<Rightarrow> enrollment_row) \<Rightarrow> nat prisma" where
  "enrollment_updateMany fault now cond data d =
     (case fault of
        Some e \<Rightarrow> (d, Inl e)
      | None \<Rightarrow>
          (d\<lparr>enrollments := map (\<lambda>x. if cond x then data (x\<lparr>e_updated_at := now\<rparr>) else x) (enrollments d)\<rparr>,
           Inr (length (filter cond (enrollments d)))))"

text \<open>
  \<^verbatim>\<open>updateEnrollmentStatus(adminId, adminRole, enrollmentId, status)\<close> of the admin
  service; the response is the updated row. The administrator's identity is only logged.
\<close>

definition updateEnrollmentStatus :: "timestamp \<Rightarrow> uuid \<Rightarrow> jsval \<Rightarrow> enrollment_row prisma" where
  "updateEnrollmentStatus now enrollmentId status =
     (if \<not> array_includes [''pending_payment'', ''enrolled'', ''completed''] status then throw InvalidStatus
      else
        await (lift (case EnrollmentStatus_of (toString (the status)) of
                       None \<Rightarrow> Inl PrismaValidation | Some s \<Rightarrow> Inr s)) (\<lambda>s.
          enrollment_update now enrollmentId (\<lambda>e. e\<lparr>e_status := s\<rparr>)))"

text \<open>
  The callback that \<^verbatim>\<open>updatePaymentStatus\<close> hands to \<^verbatim>\<open>prisma.$transaction\<close>:
  \<^verbatim>\<open>tx.payment.update\<close>, then \<^verbatim>\<open>tx.enrollment.updateMany\<close> for the enrollments of the
  same user and training when the status is \<open>verified\<close> or \<open>failed\<close>. \<open>payment_fault\<close>
  and \<open>enrollment_fault\<close> say whether the database refuses the first or the second
  statement. On its own the callback keeps the payment write when the second statement
  throws.
\<close>

definition updatePaymentStatus_tx :: "timestamp \<Rightarrow> error option \<Rightarrow> error option \<Rightarrow> uuid \<Rightarrow> jsval \<Rightarrow> payment_row prisma" where
  "updatePaymentStatus_tx now payment_fault enrollment_fault paymentId status =
     await (lift (case PaymentStatus_of (toString (the status)) of
                    None \<Rightarrow> Inl PrismaValidation | Some s \<Rightarrow> Inr s)) (\<lambda>s.
     await (statement payment_fault (payment_update now paymentId (\<lambda>p. p\<lparr>p_status := s\<rparr>))) (\<lambda>payment.
     await
       (if status = Some (JStr ''verified'') then
          enrollment_updateMany enrollment_fault now
            (\<lambda>e. e_user_id e = p_user_id payment \<and> e_training_id e = p_training_id payment
                  \<and> e_status e = pending_payment)
            (\<lambda>e. e\<lparr>e_status := enrolled\<rparr>)
        else if status = Some (JStr ''failed'') then
          enrollment_updateMany enrollment_fault now
            (\<lambda>e. e_user_id e = p_user_id payment \<and> e_training_id e = p_training_id payment
                  \<and> e_status e = enrolled)
            (\<lambda>e. e\<lparr>e_status := pending_payment\<rparr>)
        else resolve 0)
       (\<lambda>_. resolve payment)))"

text \<open>
  \<^verbatim>\<open>updatePaymentStatus(adminId, adminRole, paymentId, status)\<close> of the admin service:
  the payment and the enrollments of the same user and training are written inside one
  \<^verbatim>\<open>prisma.$transaction\<close>. The response is the updated payment row.
\<close>

definition updatePaymentStatus :: "timestamp \<Rightarrow> error option \<Rightarrow> error option \<Rightarrow> uuid \<Rightarrow> jsval \<Rightarrow> payment_row prisma" where
  "updatePaymentStatus now payment_fault enrollment_fault paymentId status =
     (if \<not> array_includes [''pending_verification'', ''verified'', ''failed'', ''refunded''] status
      then throw InvalidPaymentStatus
      else transaction (updatePaymentStatus_tx now payment_fault enrollment_fault paymentId status))"

text \<open>
  The database after the administrator has set payment \<open>p\<close> to \<open>verified\<close> at time
  \<open>now\<close>: the payment row and the pending enrollments of the same user and training.
\<close>

definition verify :: "timestamp \<Rightarrow> payment_row \<Rightarrow> db \<Rightarrow> db" where
  "verify now p d =
     d\<lparr>payments := map (\<lambda>q. if p_id q = p_id p then q\<lparr>p_updated_at := now, p_status := verified\<rparr> else q)
                       (payments d),
       enrollments := map (\<lambda>e. if e_user_id e = p_user_id p \<and> e_training_id e = p_training_id p
                                   \<and> e_status e = pending_payment
                                then e\<lparr>e_updated_at := now, e_status := enrolled\<rparr> else e)
                          (enrollments d)\<rparr>"

section \<open>Accounts: profile update and signup\<close>

text \<open>
  The \<^verbatim>\<open>data\<close> object of \<^verbatim>\<open>prisma.user.update\<close> is a list of keys with JSON values. The
  client checks every value against the type of its column before it talks to the
  database. Only the columns that the services write are listed. With an empty \<^verbatim>\<open>data\<close>
  object the client writes nothing, not even \<open>updated_at\<close>, and returns the row as it is.
\<close>

definition Profession_of :: "json \<Rightarrow> error + Profession option" where
  "Profession_of v =
     (case v of
        JNull \<Rightarrow> Inr None
      | JStr s \<Rightarrow> if s = ''student'' then Inr (Some student)
                  else if s = ''professional'' then Inr (Some professional)
                  else Inl PrismaValidation
      | _ \<Rightarrow> Inl PrismaValidation)"

definition user_set :: "string \<Rightarrow> json \<Rightarrow> error + (user_row \<Rightarrow> user_row)" where
  "user_set k v =
     (if k = ''full_name'' then
        (case required_text (Some v) of Inl e \<Rightarrow> Inl e | Inr s \<Rightarrow> Inr (\<lambda>u. u\<lparr>u_full_name := s\<rparr>))
      else if k = ''phone'' then
        (case nullable_text v of Inl e \<Rightarrow> Inl e | Inr s \<Rightarrow> Inr (\<lambda>u. u\<lparr>u_phone := s\<rparr>))
      else if k = ''profession'' then
        (case Profession_of v of Inl e \<Rightarrow> Inl e | Inr p \<Rightarrow> Inr (\<lambda>u. u\<lparr>u_profession := p\<rparr>))
      else if k = ''college'' then
        (case nullable_text v of Inl e \<Rightarrow> Inl e | Inr s \<Rightarrow> Inr (\<lambda>u. u\<lparr>u_college := s\<rparr>))
      else if k = ''company'' then
        (case nullable_text v of Inl e \<Rightarrow> Inl e | Inr s \<Rightarrow> Inr (\<lambda>u. u\<lparr>u_company := s\<rparr>))
      else if k = ''role'' then
        (if v = JStr ''user'' then Inr (\<lambda>u. u\<lparr>u_role := Role_user\<rparr>)
         else if v = JStr ''admin'' then Inr (\<lambda>u. u\<lparr>u_role := Role_admin\<rparr>)
         else Inl PrismaValidation)
      else if k = ''is_admin'' then
        (case v of JBool b \<Rightarrow> Inr (\<lambda>u. u\<lparr>u_is_admin := b\<rparr>) | _ \<Rightarrow> Inl PrismaValidation)
      else Inl PrismaValidation)"

fun user_data :: "(string \<times> json) list \<Rightarrow> error + (user_row \<Rightarrow> user_row)" where
  "user_data [] = Inr (\<lambda>u. u)"
| "user_data ((k, v) # kvs) =
     (case user_set k v of
        Inl e \<Rightarrow> Inl e
      | Inr f \<Rightarrow> (case user_data kvs of Inl e \<Rightarrow> Inl e | Inr g \<Rightarrow> Inr (\<lambda>u. g (f u))))"

definition user_update :: "timestamp \<Rightarrow> uuid \<Rightarrow> (string \<times> json) list \<Rightarrow> user_row prisma" where
  "user_update now uid data d =
     (case user_data data of
        Inl e \<Rightarrow> (d, Inl e)
      | Inr f \<Rightarrow>
          (case find (\<lambda>u. u_id u = uid) (users d) of
             None \<Rightarrow> (d, Inl P2025)
           | Some u \<Rightarrow>
               if data = [] then (d, Inr u)
               else
                 (d\<lparr>users := map (\<lambda>x. if u_id x = uid then f (x\<lparr>u_updated_at := now\<rparr>) else x) (users d)\<rparr>,
                  Inr (f (u\<lparr>u_updated_at := now\<rparr>)))))"

text \<open>A key of the data object that is left out when its value is \<^verbatim>\<open>undefined\<close>.\<close>

definition data_field :: "string \<Rightarrow> jsval \<Rightarrow> (string \<times> json) list" where
  "data_field k v = (case v of None \<Rightarrow> [] | Some x \<Rightarrow> [(k, x)])"

text \<open>
  \<^verbatim>\<open>updateUserProfile(userId, userRole, updateData)\<close> of the user service. The response is
  the updated row without its password.
\<close>

definition updateUserProfile :: "timestamp \<Rightarrow> uuid \<Rightarrow> body \<Rightarrow> user_row prisma" where
  "updateUserProfile now userId updateData =
     (let full_name = updateData ''full_name'';
          phone = updateData ''phone'';
          profession = updateData ''profession'';
          college = updateData ''college'';
          company = updateData ''company''
      in if truthy profession \<and> \<not> array_includes [''student'', ''professional''] profession
         then throw InvalidProfession
         else
           let updateFields =
                 data_field ''full_name'' full_name
               @ data_field ''phone'' (if phone = None then None
                                  else Some (if truthy phone then JStr (toString (the phone)) else JNull))
               @ data_field ''profession'' profession
               @ data_field ''college'' college
               @ data_field ''company'' company
           in user_update now userId updateFields)"

text \<open>
  The controller \<^verbatim>\<open>updateProfile\<close> behind \<^verbatim>\<open>PUT /api/user/profile\<close>: the fields of the
  request body that are in \<open>allowedFields\<close> are handed to the service, for the user of
  the token.
\<close>

definition allowedFields :: "string list" where
  "allowedFields = [''full_name'', ''phone'', ''profession'', ''college'', ''company'']"

definition updateProfile :: "timestamp \<Rightarrow> uuid \<Rightarrow> body \<Rightarrow> user_row prisma" where
  "updateProfile now userId req_body = updateUserProfile now userId (req_body |` set allowedFields)"

text \<open>
  The test of \<^verbatim>\<open>/^[^\s@]+@[^\s@]+\.[^\s@]+$/\<close>: no white space, exactly one \<open>@\<close> with
  something before it, and after it a dot that is neither first nor last.
\<close>

definition is_space :: "char \<Rightarrow> bool" where
  "is_space c = (c \<in> set [CHR '' '', CHR 0x09, CHR 0x0A, CHR 0x0B, CHR 0x0C, CHR 0x0D, CHR 0xA0])"

definition emailRegex_test :: "string \<Rightarrow> bool" where
  "emailRegex_test s =
     (let local_part = takeWhile (\<lambda>c. c \<noteq> CHR ''@'') s;
          rest = dropWhile (\<lambda>c. c \<noteq> CHR ''@'') s
      in local_part \<noteq> [] \<and> rest \<noteq> [] \<and> \<not> list_ex is_space s
         \<and> CHR ''@'' \<notin> set (tl rest)
         \<and> CHR ''.'' \<in> set (butlast (tl (tl rest))))"

record auth_env =
  bcrypt_hash :: "string \<Rightarrow> string"
  jwt_sign :: "uuid \<Rightarrow> Role \<Rightarrow> string \<Rightarrow> bool \<Rightarrow> int \<Rightarrow> string option"

text \<open>
  \<^verbatim>\<open>generateToken\<close> of the JWT utility: every failure, also one of the signing library
  (\<open>None\<close>), is rethrown as "Token generation failed".
\<close>

definition generateToken :: "auth_env \<Rightarrow> timestamp \<Rightarrow> user_row \<Rightarrow> string prisma" where
  "generateToken av now user =
     (if u_id user = [] \<or> u_email user = [] then throw TokenGenerationFailed
      else case jwt_sign av (u_id user) (u_role user) (u_email user) (u_is_admin user) (now div 1000) of
             None \<Rightarrow> throw TokenGenerationFailed
           | Some token \<Rightarrow> resolve token)"

definition user_findUnique_email :: "string \<Rightarrow> (user_row option) prisma" where
  "user_findUnique_email e d = (d, Inr (find (\<lambda>u. u_email u = e) (users d)))"

text \<open>
  \<^verbatim>\<open>prisma.user.create({ data })\<close>: the primary key and the unique index on the email are
  checked; the identifier and both timestamps are set by the client and the database.
\<close>

definition user_create :: "timestamp \<Rightarrow> uuid \<Rightarrow> user_row \<Rightarrow> user_row prisma" where
  "user_create now new_id data d =
     (if new_id \<in> u_id ` set (users d) \<or> u_email data \<in> u_email ` set (users d) then (d, Inl P2002)
      else
        let user = data\<lparr>u_id := new_id, u_created_at := now, u_updated_at := now\<rparr>
        in (d\<lparr>users := users d @ [user]\<rparr>, Inr user))"

text \<open>
  \<^verbatim>\<open>userSignup(userData)\<close> of the auth service, called by the controller behind
  \<^verbatim>\<open>POST /api/signup\<close> with the seven fields it takes from the request body. The result
  is the created row (the response leaves its password out) and the token.
\<close>

definition userSignup :: "auth_env \<Rightarrow> timestamp \<Rightarrow> uuid \<Rightarrow> body \<Rightarrow> (user_row \<times> string) prisma" where
  "userSignup av now new_id userData =
     catch
       (let full_name = userData ''full_name'';
            email = userData ''email'';
            phone = userData ''phone'';
            profession = userData ''profession'';
            college = userData ''college'';
            company = userData ''company'';
            password = userData ''password''
        in if \<not> truthy full_name \<or> \<not> truthy email \<or> \<not> truthy password then throw SignupFieldsRequired
           else if \<not> emailRegex_test (toString (the email)) then throw InvalidEmailFormat
           else if truthy profession \<and> \<not> array_includes [''student'', ''professional''] profession
           then throw InvalidProfession
           else
             await (lift (required_text email)) (\<lambda>e.
             await (user_findUnique_email e) (\<lambda>existingUser.
               case existingUser of
                 Some _ \<Rightarrow> throw EmailAlreadyExists
               | None \<Rightarrow>
                   await (lift (case password of Some (JStr pw) \<Rightarrow> Inr (bcrypt_hash av pw) | _ \<Rightarrow> Inl TypeError))
                     (\<lambda>password_hash.
                   await (lift (required_text full_name)) (\<lambda>name.
                   await (lift (Profession_of (if truthy profession then the profession else JNull))) (\<lambda>prof.
                   await (lift (optional_text college)) (\<lambda>coll.
                   await (lift (optional_text company)) (\<lambda>comp.
                   await (user_create now new_id
                            \<lparr>u_id = new_id, u_full_name = name, u_email = e, u_password = password_hash,
                             u_phone = (if truthy phone then Some (toString (the phone)) else None),
                             u_profession = prof, u_college = coll, u_company = comp,
                             u_role = Role_user, u_is_admin = False,
                             u_created_at = now, u_updated_at = now\<rparr>) (\<lambda>user.
                   await (generateToken av now user) (\<lambda>token.
                     resolve (user, token)))))))))))
       (\<lambda>error. if error = P2002 then throw EmailAlreadyExists else throw error)"

text \<open>
  The controller \<^verbatim>\<open>userSignup\<close>: it takes \<open>full_name\<close>, \<open>email\<close>, \<open>phone\<close>,
  \<open>profession\<close>, \<open>college\<close>, \<open>company\<close> and \<open>password\<close> from the request body and hands
  them, and nothing else, to the service.
\<close>

definition signupFields :: "string list" where
  "signupFields = [''full_name'', ''email'', ''phone'', ''profession'', ''college'', ''company'', ''password'']"

definition signup :: "auth_env \<Rightarrow> timestamp \<Rightarrow> uuid \<Rightarrow> body \<Rightarrow> (user_row \<times> string) prisma" where
  "signup av now new_id req_body = userSignup av now new_id (req_body |` set signupFields)"

section \<open>Enrollments: the member's operations\<close>

text \<open>
  \<^verbatim>\<open>prisma.enrollment.create({ data })\<close>: the primary key, the unique index on
  \<open>(user_id, training_id)\<close> and the two foreign keys of the migration are checked.
\<close>

definition enrollment_create :: "timestamp \<Rightarrow> uuid \<Rightarrow> uuid \<Rightarrow> uuid \<Rightarrow> enrollment_row prisma" where
  "enrollment_create now new_id userId trainingId d =
     (if new_id \<in> e_id ` set (enrollments d)
         \<or> (userId, trainingId) \<in> (\<lambda>e. (e_user_id e, e_training_id e)) ` set (enrollments d)
      then (d, Inl P2002)
      else if userId \<notin> u_id ` set (users d) \<or> trainingId \<notin> t_id ` set (training_programs d)
      then (d, Inl P2003)
      else
        let enrollment = \<lparr>e_id = new_id, e_user_id = userId, e_training_id = trainingId,
                           e_status = pending_payment, e_created_at = now, e_updated_at = now\<rparr>
        in (d\<lparr>enrollments := enrollments d @ [enrollment]\<rparr>, Inr enrollment))"

text \<open>
  \<^verbatim>\<open>createEnrollment(userId, userRole, trainingId)\<close> of the user service. The response is
  the enrollment with some columns of its training program.
\<close>

definition createEnrollment :: "timestamp \<Rightarrow> uuid \<Rightarrow> uuid \<Rightarrow> jsval \<Rightarrow> enrollment_row prisma" where
  "createEnrollment now new_id userId trainingId =
     catch
       (if \<not> truthy trainingId then throw TrainingIdRequired
        else
          await (lift (required_text trainingId)) (\<lambda>tid.
          await (trainingProgram_findFirst (\<lambda>t. t_id t = tid \<and> t_is_active t)) (\<lambda>training.
            case training of
              None \<Rightarrow> throw TrainingNotActive
            | Some _ \<Rightarrow>
                await (enrollment_findUnique userId tid) (\<lambda>existingEnrollment.
                  case existingEnrollment of
                    Some _ \<Rightarrow> throw AlreadyEnrolled
                  | None \<Rightarrow> enrollment_create now new_id userId tid))))
       (\<lambda>error. if error = P2002 then throw AlreadyEnrolled else throw error)"

text \<open>
  \<^verbatim>\<open>createEnrollmentWithDetails(userId, userRole, trainingId, profileData)\<close>, the service
  behind \<^verbatim>\<open>POST /api/user/enrollments\<close>. An enrollment that exists and still waits for
  its payment is returned again, after the profile has been updated.
\<close>

definition createEnrollmentWithDetails :: "timestamp \<Rightarrow> uuid \<Rightarrow> uuid \<Rightarrow> jsval \<Rightarrow> body \<Rightarrow> enrollment_row prisma" where
  "createEnrollmentWithDetails now new_id userId trainingId profileData =
     catch
       (if \<not> truthy trainingId then throw TrainingIdRequired
        else
          await (lift (required_text trainingId)) (\<lambda>tid.
          await (trainingProgram_findFirst (\<lambda>t. t_id t = tid \<and> t_is_active t)) (\<lambda>training.
            case training of
              None \<Rightarrow> throw TrainingNotActive
            | Some _ \<Rightarrow>
                await (enrollment_findUnique userId tid) (\<lambda>existingEnrollment.
                  case existingEnrollment of
                    Some existing \<Rightarrow>
                      if e_status existing = pending_payment then
                        await (user_update now userId
                                 (data_field ''full_name'' (profileData ''full_name'')
                                  @ data_field ''phone'' (profileData ''phone'')))
                          (\<lambda>_. resolve existing)
                      else throw AlreadyEnrolled
                  | None \<Rightarrow>
                      transaction
                        (await (user_update now userId
                                  (data_field ''full_name'' (profileData ''full_name'')
                                   @ data_field ''phone'' (profileData ''phone'')))
                           (\<lambda>_. enrollment_create now new_id userId tid))))))
       (\<lambda>error. if error = P2002 then throw AlreadyEnrolled else throw error)"

section \<open>Requests\<close>

text \<open>
  The operations above as requests that reach the server one after the other, each with
  the identifier the client would generate for a new row, and the payment status update
  with the faults of its two statements. \<open>handle\<close> gives the database a request leaves
  behind, whether it succeeds or throws.
\<close>

datatype request =
    Signup uuid body
  | UpdateProfile uuid body
  | CreateEnrollment uuid uuid jsval
  | CreateEnrollmentWithDetails uuid uuid jsval body
  | InitiatePayment uuid uuid uuid
  | ConfirmPayment uuid uuid jsval
  | GetPaymentStatus uuid uuid
  | CreatePayment uuid uuid body
  | UpdateEnrollmentStatus uuid jsval
  | UpdatePaymentStatus "error option" "error option" uuid jsval

fun handle :: "env \<Rightarrow> auth_env \<Rightarrow> timestamp \<Rightarrow> request \<Rightarrow> db \<Rightarrow> db" where
  "handle ev av now (Signup new_id b) d = fst (signup av now new_id b d)"
| "handle ev av now (UpdateProfile userId b) d = fst (updateProfile now userId b d)"
| "handle ev av now (CreateEnrollment new_id userId trainingId) d =
     fst (createEnrollment now new_id userId trainingId d)"
| "handle ev av now (CreateEnrollmentWithDetails new_id userId trainingId profileData) d =
     fst (createEnrollmentWithDetails now new_id userId trainingId profileData d)"
| "handle ev av now (InitiatePayment new_id userId enrollmentId) d =
     fst (initiatePaymentForEnrollment ev now new_id userId enrollmentId d)"
| "handle ev av now (ConfirmPayment userId paymentId reference) d =
     fst (confirmPayment now userId paymentId reference d)"
| "handle ev av now (GetPaymentStatus userId paymentId) d = fst (getPaymentStatus now userId paymentId d)"
| "handle ev av now (CreatePayment new_id userId b) d = fst (createPayment ev now new_id userId b d)"
| "handle ev av now (UpdateEnrollmentStatus enrollmentId status) d =
     fst (updateEnrollmentStatus now enrollmentId status d)"
| "handle ev av now (UpdatePaymentStatus payment_fault enrollment_fault paymentId status) d =
     fst (updatePaymentStatus now payment_fault enrollment_fault paymentId status d)"

text \<open>The unique index on \<open>(user_id, training_id)\<close> as a property of the table.\<close>

definition unique_enrollments :: "db \<Rightarrow> bool" where
  "unique_enrollments d = distinct (map (\<lambda>e. (e_user_id e, e_training_id e)) (enrollments d))"

section \<open>Relations between the database before and after an operation\<close>

text \<open>
  \<open>preserves R m\<close>: whatever database \<open>m\<close> starts from, the database it leaves behind is
  related to it by \<open>R\<close>, whether \<open>m\<close> returns or throws.
\<close>

definition preserves :: "(db \<Rightarrow> db \<Rightarrow> bool) \<Rightarrow> 'a prisma \<Rightarrow> bool" where
  "preserves R m = (\<forall>d. R d (fst (m d)))"

text \<open>Every enrollment row that is \<open>completed\<close> is still in the table, unchanged.\<close>

definition completed_kept :: "db \<Rightarrow> db \<Rightarrow> bool" where
  "completed_kept d d' = (\<forall>e \<in> set (enrollments d). e_status e = completed \<longrightarrow> e \<in> set (enrollments d'))"

text \<open>The unique index on \<open>(user_id, training_id)\<close> still holds if it held before.\<close>

definition keeps_unique :: "db \<Rightarrow> db \<Rightarrow> bool" where
  "keeps_unique d d' = (unique_enrollments d \<longrightarrow> unique_enrollments d')"

text \<open>
  What a profile update of user \<open>uid\<close> may not touch in a row of the users table: the
  role, the administrator flag, the identifier, the email, the password and the creation
  time of every row, and all of a row that belongs to somebody else.
\<close>

definition protected :: "uuid \<Rightarrow> user_row \<Rightarrow> user_row \<Rightarrow> bool" where
  "protected uid u u' =
     (u_role u' = u_role u \<and> u_is_admin u' = u_is_admin u \<and> u_id u' = u_id u
      \<and> u_email u' = u_email u \<and> u_password u' = u_password u \<and> u_created_at u' = u_created_at u
      \<and> (u_id u \<noteq> uid \<longrightarrow> u' = u))"

definition accounts_protected :: "uuid \<Rightarrow> db \<Rightarrow> db \<Rightarrow> bool" where
  "accounts_protected uid d d' = list_all2 (protected uid) (users d) (users d')"

text \<open>The users table has only grown, and only by plain members.\<close>

definition members_added :: "db \<Rightarrow> db \<Rightarrow> bool" where
  "members_added d d' =
     (\<exists>new. users d' = users d @ new \<and> list_all (\<lambda>u. u_role u = Role_user \<and> u_is_admin u = False) new)"

text \<open>The value an operation returned, \<open>None\<close> when it threw.\<close>

definition result_of :: "db \<times> (error + 'a) \<Rightarrow> 'a option" where
  "result_of r = (case snd r of Inl _ \<Rightarrow> None | Inr x \<Rightarrow> Some x)"

section \<open>A small database to run the operations on\<close>

definition demo_user :: user_row where
  "demo_user = \<lparr>u_id = ''u1'', u_full_name = ''Asha Rao'', u_email = ''asha@example.org'',
     u_password = ''bcrypt-hash'', u_phone = None, u_profession = Some student, u_college = None,
     u_company = None, u_role = Role_user, u_is_admin = False, u_created_at = 100, u_updated_at = 100\<rparr>"

definition demo_training :: training_row where
  "demo_training = \<lparr>t_id = ''t1'', t_title = ''Proof engineering'', t_price = 499, t_is_active = True\<rparr>"

definition demo_enrollment :: enrollment_row where
  "demo_enrollment = \<lparr>e_id = ''enrollment-000001'', e_user_id = ''u1'', e_training_id = ''t1'',
     e_status = pending_payment, e_created_at = 500, e_updated_at = 500\<rparr>"

definition demo_payment :: payment_row where
  "demo_payment = \<lparr>p_id = ''p1'', p_user_id = ''u1'', p_training_id = ''t1'', p_amount = Some 499,
     p_payment_method = ''UPI'', p_transaction_reference = Some ''UTR123'',
     p_status = pending_verification, p_created_at = 1000, p_updated_at = 1000\<rparr>"

definition demo_db :: db where
  "demo_db = \<lparr>users = [demo_user], training_programs = [demo_training],
     enrollments = [demo_enrollment], payments = [demo_payment]\<rparr>"

text \<open>The same database later: the payment was verified and the training completed.\<close>

definition demo_completed_db :: db where
  "demo_completed_db = demo_db
     \<lparr>enrollments := [demo_enrollment\<lparr>e_status := completed\<rparr>],
      payments := [demo_payment\<lparr>p_status := verified\<rparr>]\<rparr>"

text \<open>
  The first database after the member has recorded two more payments for the same
  training with \<open>createPayment\<close>, at 2000 and at 390000: three pending payments, of
  which only the last is younger than five minutes at 400000.
\<close>

definition demo_backlog_db :: db where
  "demo_backlog_db = demo_db
     \<lparr>payments := [demo_payment,
                   demo_payment\<lparr>p_id := ''p2'', p_created_at := 2000, p_updated_at := 2000\<rparr>,
                   demo_payment\<lparr>p_id := ''p3'', p_created_at := 390000, p_updated_at := 390000\<rparr>]\<rparr>"

definition demo_env :: env where
  "demo_env = \<lparr>COMPANY_UPI_ID = None, COMPANY_NAME = None,
     number_toString = (\<lambda>_. ''499''),
     URLSearchParams_toString = (\<lambda>kvs. concat (map (\<lambda>(k, v). k @ ''='' @ v @ ''&'') kvs)),
     QRCode_toDataURL = (\<lambda>s. Some (''data:image/png;base64,'' @ s)),
     parseFloat = (\<lambda>_. None)\<rparr>"

definition demo_auth_env :: auth_env where
  "demo_auth_env = \<lparr>bcrypt_hash = (\<lambda>pw. ''bcrypt:'' @ pw),
     jwt_sign = (\<lambda>uid r e a iat. Some (''jwt:'' @ uid))\<rparr>"

text \<open>A signup body that asks for the administrator role.\<close>

definition demo_signup_body :: body where
  "demo_signup_body = [''full_name'' \<mapsto> JStr ''Mallory'', ''email'' \<mapsto> JStr ''m@example.org'',
     ''password'' \<mapsto> JStr ''Secret123'', ''role'' \<mapsto> JStr ''admin'', ''is_admin'' \<mapsto> JBool True]"

text \<open>A profile update body that asks for the administrator role.\<close>

definition demo_profile_body :: body where
  "demo_profile_body = [''full_name'' \<mapsto> JStr ''Asha R'', ''role'' \<mapsto> JStr ''admin'',
     ''is_admin'' \<mapsto> JBool True]"

text \<open>The details a member sends along with an enrollment.\<close>

definition demo_details :: body where
  "demo_details = [''full_name'' \<mapsto> JStr ''Asha Rao'', ''phone'' \<mapsto> JStr ''9876543210'']"

text \<open>
  The row that \<open>initiatePaymentForEnrollment\<close> creates at time \<open>now\<close> under the
  identifier \<open>n\<close>, for a user and a training with its price.
\<close>

definition upi_payment :: "timestamp \<Rightarrow> uuid \<Rightarrow> uuid \<Rightarrow> uuid \<Rightarrow> real \<Rightarrow> payment_row" where
  "upi_payment now n uid tid price =
     \<lparr>p_id = n, p_user_id = uid, p_training_id = tid, p_amount = Some (or_zero price),
      p_payment_method = ''UPI'', p_transaction_reference = None,
      p_status = pending_verification, p_created_at = now, p_updated_at = now\<rparr>"

text \<open>
  The answer of \<open>initiatePaymentForEnrollment\<close> for an existing payment \<open>p\<close> that is still
  inside its window, and for a payment \<open>p\<close> that the call has just created.
\<close>

definition session_for :: "env \<Rightarrow> timestamp \<Rightarrow> uuid \<Rightarrow> training_row \<Rightarrow> payment_row \<Rightarrow> string \<Rightarrow> payment_session" where
  "session_for ev now enrollmentId t p qr =
     \<lparr>ps_payment_id = p_id p,
      ps_enrollment_id = enrollmentId,
      ps_training_title = t_title t,
      ps_amount = or_zero (t_price t),
      ps_upi_link = generateUpiLink ev (env_or (COMPANY_UPI_ID ev) ''qthink@paytm'')
                      (env_or (COMPANY_NAME ev) ''QThink Solutions'') (or_zero (t_price t))
                      (''Payment for '' @ t_title t) (txn_reference now enrollmentId),
      ps_qr_code = qr,
      ps_payment_reference = txn_reference now enrollmentId,
      ps_expires_at = p_created_at p + FIVE_MINUTES,
      ps_timer_duration = max 0 ((FIVE_MINUTES - (now - p_created_at p)) div 1000)\<rparr>"

section \<open>Properties of the member's payment operations\<close>

lemma find_payment_by_id:
  "find (\<lambda>p. p_id p = pid \<and> p_user_id p = uid) ps = Some p \<Longrightarrow> \<exists>q. find (\<lambda>p. p_id p = pid) ps = Some q"
  by (induction ps) (auto split: if_splits)

lemma confirmPayment_found:
  assumes "find (\<lambda>p. p_id p = pid \<and> p_user_id p = uid) (payments d) = Some p"
  shows "confirmPayment now uid pid ref d =
    (if p_status p \<noteq> pending_verification then (d, Inl PaymentNotPending)
     else if now - p_created_at p \<ge> FIVE_MINUTES then (expire now pid d, Inl PaymentSessionExpired)
     else (case nullable_text (if truthy ref then the ref else JNull) of
        Inl e \<Rightarrow> (d, Inl e)
      | Inr r \<Rightarrow>
       (d\<lparr>payments := map (\<lambda>q. if p_id q = pid then q\<lparr>p_transaction_reference := r, p_updated_at := now\<rparr> else q) (payments d)\<rparr>,
        Inr \<lparr>cr_id = pid, cr_status = p_status (the (find (\<lambda>p. p_id p = pid) (payments d))), cr_transaction_reference = r\<rparr>)))"
proof -
  obtain q where q: "find (\<lambda>p. p_id p = pid) (payments d) = Some q"
    using find_payment_by_id [OF assms] by blast
  then have "p_id q = pid" by (auto simp: find_Some_iff)
  with q assms show ?thesis
    by (simp add: confirmPayment_def await_def payment_findFirst_def throw_def resolve_def
        payment_update_def expire_def split: sum.splits)
qed

lemma expire_status_aux:
  assumes "q \<in> set (map (\<lambda>x. if p_id x = pid then x\<lparr>p_updated_at := now, p_status := failed\<rparr> else x) ps)"
    and "p_id q = pid"
  shows "p_status q = failed"
proof -
  from assms(1) obtain x where x: "q = (if p_id x = pid then x\<lparr>p_updated_at := now, p_status := failed\<rparr> else x)"
    unfolding set_map by (rule imageE)
  show ?thesis
  proof (cases "p_id x = pid")
    case True
    with x show ?thesis by simp
  next
    case False
    with x have "q = x" by simp
    with False assms(2) show ?thesis by simp
  qed
qed

lemma expire_status:
  "\<forall>q \<in> set (payments (expire now pid d)). p_id q = pid \<longrightarrow> p_status q = failed"
proof (intro ballI impI)
  fix q assume "q \<in> set (payments (expire now pid d))" and id: "p_id q = pid"
  then have "q \<in> set (map (\<lambda>x. if p_id x = pid then x\<lparr>p_updated_at := now, p_status := failed\<rparr> else x) (payments d))"
    by (simp add: expire_def)
  from expire_status_aux [OF this id] show "p_status q = failed" .
qed

lemma nullable_text_reference:
  "ref = None \<or> ref = Some (JStr s) \<Longrightarrow>
   nullable_text (if truthy ref then the ref else JNull) = Inr (if truthy ref then Some s else None)"
  by auto

lemma confirmPayment_only_in_window:
  assumes "find (\<lambda>p. p_id p = pid \<and> p_user_id p = uid) (payments d) = Some p"
    and "snd (confirmPayment now uid pid ref d) = Inr r"
  shows "p_status p = pending_verification \<and> now - p_created_at p < FIVE_MINUTES"
  using assms(2) by (simp add: confirmPayment_found [OF assms(1)] split: if_splits)

lemma confirmPayment_in_window:
  assumes "find (\<lambda>p. p_id p = pid \<and> p_user_id p = uid) (payments d) = Some p"
    and "p_status p = pending_verification" and "now - p_created_at p < FIVE_MINUTES"
    and ref: "ref = None \<or> ref = Some (JStr s)"
  shows "confirmPayment now uid pid ref d =
       (d\<lparr>payments := map (\<lambda>q. if p_id q = pid then q\<lparr>p_transaction_reference := (if truthy ref then Some s else None), p_updated_at := now\<rparr> else q) (payments d)\<rparr>,
        Inr \<lparr>cr_id = pid, cr_status = p_status (the (find (\<lambda>p. p_id p = pid) (payments d))),
             cr_transaction_reference = (if truthy ref then Some s else None)\<rparr>)"
  using assms(2,3) by (simp only: confirmPayment_found [OF assms(1)] nullable_text_reference [OF ref]) simp

lemma confirmPayment_expired:
  assumes "find (\<lambda>p. p_id p = pid \<and> p_user_id p = uid) (payments d) = Some p"
    and "p_status p = pending_verification" and "now - p_created_at p \<ge> FIVE_MINUTES"
  shows "confirmPayment now uid pid ref d = (expire now pid d, Inl PaymentSessionExpired)"
  using assms(2,3) by (simp add: confirmPayment_found [OF assms(1)])

lemma map_status_reference:
  "map p_status (map (\<lambda>q. if c q then q\<lparr>p_transaction_reference := r, p_updated_at := t\<rparr> else q) ps) = map p_status ps"
  by (induction ps) auto

text \<open>
  C6. Member confirmation of a payment that the member owns succeeds only while the payment
  is \<open>pending_verification\<close> (the spec's awaiting verification) and less than
  \<open>FIVE_MINUTES\<close> old. In that case, for a reference that is absent or a string, it
  stores the reference (an empty one as \<open>None\<close>) and no payment changes its status. When
  the payment is pending and at least \<open>FIVE_MINUTES\<close> old, the payment is marked
  \<open>failed\<close> (the spec's rejected) and the call throws "Payment session expired". A
  payment that is not pending is never touched: the call throws "Payment is not in pending
  verification status", whatever its age.
\<close>

theorem confirmPayment_window:
  assumes "find (\<lambda>p. p_id p = pid \<and> p_user_id p = uid) (payments d) = Some p"
  shows "(\<forall>r. snd (confirmPayment now uid pid ref d) = Inr r \<longrightarrow>
            p_status p = pending_verification \<and> now - p_created_at p < FIVE_MINUTES)
       \<and> (p_status p = pending_verification \<and> now - p_created_at p < FIVE_MINUTES \<longrightarrow>
            (\<forall>s. ref = None \<or> ref = Some (JStr s) \<longrightarrow>
               (\<exists>r. snd (confirmPayment now uid pid ref d) = Inr r
                   \<and> cr_transaction_reference r = (if truthy ref then Some s else None))
             \<and> payments (fst (confirmPayment now uid pid ref d)) =
                 map (\<lambda>q. if p_id q = pid
                           then q\<lparr>p_transaction_reference := (if truthy ref then Some s else None),
                                  p_updated_at := now\<rparr>
                           else q) (payments d)
             \<and> map p_status (payments (fst (confirmPayment now uid pid ref d))) = map p_status (payments d)))
       \<and> (p_status p = pending_verification \<and> now - p_created_at p \<ge> FIVE_MINUTES \<longrightarrow>
            confirmPayment now uid pid ref d = (expire now pid d, Inl PaymentSessionExpired)
            \<and> (\<forall>q \<in> set (payments (expire now pid d)). p_id q = pid \<longrightarrow> p_status q = failed))
       \<and> (p_status p \<noteq> pending_verification \<longrightarrow>
            confirmPayment now uid pid ref d = (d, Inl PaymentNotPending))"
proof -
  have A: "\<forall>r. snd (confirmPayment now uid pid ref d) = Inr r \<longrightarrow>
            p_status p = pending_verification \<and> now - p_created_at p < FIVE_MINUTES"
    by (intro allI impI) (rule confirmPayment_only_in_window [OF assms])
  have B: "p_status p = pending_verification \<and> now - p_created_at p < FIVE_MINUTES \<longrightarrow>
            (\<forall>s. ref = None \<or> ref = Some (JStr s) \<longrightarrow>
               (\<exists>r. snd (confirmPayment now uid pid ref d) = Inr r
                   \<and> cr_transaction_reference r = (if truthy ref then Some s else None))
             \<and> payments (fst (confirmPayment now uid pid ref d)) =
                 map (\<lambda>q. if p_id q = pid
                           then q\<lparr>p_transaction_reference := (if truthy ref then Some s else None),
                                  p_updated_at := now\<rparr>
                           else q) (payments d)
             \<and> map p_status (payments (fst (confirmPayment now uid pid ref d))) = map p_status (payments d))"
  proof (intro impI allI)
    fix s
    assume ok: "p_status p = pending_verification \<and> now - p_created_at p < FIVE_MINUTES"
      and ref: "ref = None \<or> ref = Some (JStr s)"
    from ok have ok1: "p_status p = pending_verification" and ok2: "now - p_created_at p < FIVE_MINUTES"
      by simp_all
    note eq = confirmPayment_in_window [OF assms ok1 ok2 ref]
    show "(\<exists>r. snd (confirmPayment now uid pid ref d) = Inr r
                   \<and> cr_transaction_reference r = (if truthy ref then Some s else None))
             \<and> payments (fst (confirmPayment now uid pid ref d)) =
                 map (\<lambda>q. if p_id q = pid
                           then q\<lparr>p_transaction_reference := (if truthy ref then Some s else None),
                                  p_updated_at := now\<rparr>
                           else q) (payments d)
             \<and> map p_status (payments (fst (confirmPayment now uid pid ref d))) = map p_status (payments d)"
      unfolding eq fst_conv snd_conv by (simp add: map_status_reference)
  qed
  have C: "p_status p = pending_verification \<and> now - p_created_at p \<ge> FIVE_MINUTES \<longrightarrow>
            confirmPayment now uid pid ref d = (expire now pid d, Inl PaymentSessionExpired)
            \<and> (\<forall>q \<in> set (payments (expire now pid d)). p_id q = pid \<longrightarrow> p_status q = failed)"
  proof (intro impI conjI)
    assume "p_status p = pending_verification \<and> now - p_created_at p \<ge> FIVE_MINUTES"
    then show "confirmPayment now uid pid ref d = (expire now pid d, Inl PaymentSessionExpired)"
      using confirmPayment_expired [OF assms] by simp
  next
    show "\<forall>q \<in> set (payments (expire now pid d)). p_id q = pid \<longrightarrow> p_status q = failed"
      by (rule expire_status)
  qed
  have D: "p_status p \<noteq> pending_verification \<longrightarrow>
            confirmPayment now uid pid ref d = (d, Inl PaymentNotPending)"
    by (simp add: confirmPayment_found [OF assms])
  show ?thesis by (rule conjI [OF A conjI [OF B conjI [OF C D]]])
qed

theorem confirmPayment_window_witness:
  "find (\<lambda>p. p_id p = ''p1'' \<and> p_user_id p = ''u1'') (payments demo_db) = Some demo_payment
   \<and> (\<exists>r. snd (confirmPayment 2000 ''u1'' ''p1'' (Some (JStr ''UTR9'')) demo_db) = Inr r
          \<and> cr_transaction_reference r = Some ''UTR9'')
   \<and> map p_status (payments (fst (confirmPayment 2000 ''u1'' ''p1'' (Some (JStr ''UTR9'')) demo_db)))
        = [pending_verification]
   \<and> confirmPayment 301000 ''u1'' ''p1'' (Some (JStr ''UTR9'')) demo_db
        = (expire 301000 ''p1'' demo_db, Inl PaymentSessionExpired)"
proof -
  have h: "find (\<lambda>p. p_id p = ''p1'' \<and> p_user_id p = ''u1'') (payments demo_db) = Some demo_payment"
    by (simp add: demo_db_def demo_payment_def)
  have s: "p_status demo_payment = pending_verification" and c: "p_created_at demo_payment = 1000"
    and ps: "map p_status (payments demo_db) = [pending_verification]"
    by (simp_all add: demo_db_def demo_payment_def)
  from confirmPayment_window [OF h, of 2000 "Some (JStr ''UTR9'')"]
       confirmPayment_window [OF h, of 301000 "Some (JStr ''UTR9'')"]
  show ?thesis
    by (simp add: h s c FIVE_MINUTES_def) (simp add: demo_db_def demo_payment_def)
qed

lemma getPaymentStatus_found:
  assumes "find (\<lambda>p. p_id p = pid \<and> p_user_id p = uid) (payments d) = Some p"
    and "find (\<lambda>t. t_id t = p_training_id p) (training_programs d) = Some t"
  shows "getPaymentStatus now uid pid d =
    (if p_status p = pending_verification \<and> now - p_created_at p \<ge> FIVE_MINUTES then
       (expire now pid d,
        Inr \<lparr>sr_id = p_id p, sr_status = failed, sr_amount = p_amount p, sr_training_title = t_title t,
             sr_transaction_reference = p_transaction_reference p, sr_created_at = p_created_at p,
             sr_is_expired = True\<rparr>)
     else
       (d, Inr \<lparr>sr_id = p_id p, sr_status = p_status p, sr_amount = p_amount p, sr_training_title = t_title t,
             sr_transaction_reference = p_transaction_reference p, sr_created_at = p_created_at p,
             sr_is_expired = False\<rparr>))"
proof -
  obtain q where q: "find (\<lambda>p. p_id p = pid) (payments d) = Some q"
    using find_payment_by_id [OF assms(1)] by blast
  note defs = getPaymentStatus_def await_def payment_findFirst_def throw_def resolve_def
        payment_update_def trainingProgram_findFirst_def Let_def expire_def
  show ?thesis
  proof (cases "p_status p = pending_verification")
    case pending: True
    show ?thesis
    proof (cases "now - p_created_at p \<ge> FIVE_MINUTES")
      case True
      with pending q assms show ?thesis by (simp add: defs)
    next
      case False
      with pending q assms show ?thesis by (simp add: defs)
    qed
  next
    case False
    with q assms show ?thesis by (simp add: defs)
  qed
qed

text \<open>
  C7. Reading the status of a pending payment one millisecond after the end of its window
  marks it \<open>failed\<close> in the database before the response is returned, and the response
  carries status \<open>failed\<close> and \<open>is_expired = True\<close>; reading it one millisecond before the
  end of the window changes nothing and reports it pending and not expired.
\<close>

theorem getPaymentStatus_boundary:
  assumes "find (\<lambda>p. p_id p = pid \<and> p_user_id p = uid) (payments d) = Some p"
    and "p_status p = pending_verification"
    and "find (\<lambda>t. t_id t = p_training_id p) (training_programs d) = Some t"
  shows "(\<exists>r. getPaymentStatus (p_created_at p + FIVE_MINUTES + 1) uid pid d
               = (expire (p_created_at p + FIVE_MINUTES + 1) pid d, Inr r)
             \<and> sr_status r = failed \<and> sr_is_expired r = True)
       \<and> (\<forall>q \<in> set (payments (expire (p_created_at p + FIVE_MINUTES + 1) pid d)).
             p_id q = pid \<longrightarrow> p_status q = failed)
       \<and> (\<exists>r. getPaymentStatus (p_created_at p + FIVE_MINUTES - 1) uid pid d = (d, Inr r)
             \<and> sr_status r = pending_verification \<and> sr_is_expired r = False)"
proof (intro conjI)
  show "\<exists>r. getPaymentStatus (p_created_at p + FIVE_MINUTES + 1) uid pid d
               = (expire (p_created_at p + FIVE_MINUTES + 1) pid d, Inr r)
             \<and> sr_status r = failed \<and> sr_is_expired r = True"
    using assms(2) by (simp add: getPaymentStatus_found [OF assms(1,3)])
  show "\<forall>q \<in> set (payments (expire (p_created_at p + FIVE_MINUTES + 1) pid d)).
             p_id q = pid \<longrightarrow> p_status q = failed"
    by (rule expire_status)
  show "\<exists>r. getPaymentStatus (p_created_at p + FIVE_MINUTES - 1) uid pid d = (d, Inr r)
             \<and> sr_status r = pending_verification \<and> sr_is_expired r = False"
    using assms(2) by (simp add: getPaymentStatus_found [OF assms(1,3)])
qed

theorem getPaymentStatus_boundary_witness:
  "find (\<lambda>p. p_id p = ''p1'' \<and> p_user_id p = ''u1'') (payments demo_db) = Some demo_payment
   \<and> p_status demo_payment = pending_verification
   \<and> find (\<lambda>t. t_id t = p_training_id demo_payment) (training_programs demo_db) = Some demo_training
   \<and> (\<exists>r. getPaymentStatus 301001 ''u1'' ''p1'' demo_db = (expire 301001 ''p1'' demo_db, Inr r)
          \<and> sr_status r = failed \<and> sr_is_expired r = True)
   \<and> map p_status (payments (expire 301001 ''p1'' demo_db)) = [failed]
   \<and> (\<exists>r. getPaymentStatus 300999 ''u1'' ''p1'' demo_db = (demo_db, Inr r)
          \<and> sr_status r = pending_verification \<and> sr_is_expired r = False)"
proof -
  have h: "find (\<lambda>p. p_id p = ''p1'' \<and> p_user_id p = ''u1'') (payments demo_db) = Some demo_payment"
    by (simp add: demo_db_def demo_payment_def)
  have s: "p_status demo_payment = pending_verification" and c: "p_created_at demo_payment = 1000"
    by (simp_all add: demo_payment_def)
  have t: "find (\<lambda>t. t_id t = p_training_id demo_payment) (training_programs demo_db) = Some demo_training"
    by (simp add: demo_db_def demo_payment_def demo_training_def)
  have e: "map p_status (payments (expire 301001 ''p1'' demo_db)) = [failed]"
    by (simp add: expire_def demo_db_def demo_payment_def)
  from getPaymentStatus_boundary [OF h s t] show ?thesis
    by (simp add: h s c t e FIVE_MINUTES_def)
qed

text \<open>
  C10. Inside the window, a confirmation of a pending payment whose reference is absent,
  \<^verbatim>\<open>null\<close> or empty (any falsy value) stores \<open>None\<close> as the transaction reference of
  the payment, whatever reference an earlier confirmation had stored.
\<close>

theorem confirmPayment_erases_reference:
  assumes "find (\<lambda>p. p_id p = pid \<and> p_user_id p = uid) (payments d) = Some p"
    and "p_status p = pending_verification" and "now - p_created_at p < FIVE_MINUTES"
    and "\<not> truthy ref"
  shows "(\<exists>r. snd (confirmPayment now uid pid ref d) = Inr r \<and> cr_transaction_reference r = None)
       \<and> payments (fst (confirmPayment now uid pid ref d)) =
            map (\<lambda>q. if p_id q = pid then q\<lparr>p_transaction_reference := None, p_updated_at := now\<rparr> else q)
                (payments d)"
  using assms(2,3,4) by (simp add: confirmPayment_found [OF assms(1)])

theorem confirmPayment_erases_reference_witness:
  "find (\<lambda>p. p_id p = ''p1'' \<and> p_user_id p = ''u1'') (payments demo_db) = Some demo_payment
   \<and> p_status demo_payment = pending_verification
   \<and> 2000 - p_created_at demo_payment < FIVE_MINUTES
   \<and> \<not> truthy (Some (JStr []))
   \<and> map p_transaction_reference (payments demo_db) = [Some ''UTR123'']
   \<and> map p_transaction_reference (payments (fst (confirmPayment 2000 ''u1'' ''p1'' (Some (JStr [])) demo_db)))
        = [None]"
proof -
  have h: "find (\<lambda>p. p_id p = ''p1'' \<and> p_user_id p = ''u1'') (payments demo_db) = Some demo_payment"
    by (simp add: demo_db_def demo_payment_def)
  have s: "p_status demo_payment = pending_verification"
    and c: "2000 - p_created_at demo_payment < FIVE_MINUTES"
    by (simp_all add: demo_payment_def FIVE_MINUTES_def)
  have n: "\<not> truthy (Some (JStr []))" by simp
  have ps: "payments demo_db = [demo_payment]" by (simp add: demo_db_def)
  from confirmPayment_erases_reference [OF h s c n] show ?thesis
    by (simp add: h s c ps) (simp add: demo_payment_def)
qed

section \<open>Operations keep what their steps keep\<close>

lemma preserves_resolve: "reflp R \<Longrightarrow> preserves R (resolve x)"
  by (simp add: preserves_def resolve_def reflpD)

lemma preserves_throw: "reflp R \<Longrightarrow> preserves R (throw e)"
  by (simp add: preserves_def throw_def reflpD)

lemma preserves_lift: "reflp R \<Longrightarrow> preserves R (lift r)"
  by (cases r) (simp_all add: lift_def preserves_throw preserves_resolve)

lemma preserves_read: "reflp R \<Longrightarrow> (\<And>d. fst (m d) = d) \<Longrightarrow> preserves R m"
  by (simp add: preserves_def reflpD)

lemma preserves_await:
  assumes "transp R" and m: "preserves R m" and k: "\<And>x. preserves R (k x)"
  shows "preserves R (await m k)"
  unfolding preserves_def
proof
  fix d
  obtain d' r where md: "m d = (d', r)" by (cases "m d")
  from m have R1: "R d d'" using md by (simp add: preserves_def) (metis fst_conv)
  show "R d (fst (await m k d))"
  proof (cases r)
    case (Inl e)
    with md R1 show ?thesis by (simp add: await_def)
  next
    case (Inr x)
    from k [of x] have "R d' (fst (k x d'))" by (simp add: preserves_def)
    with R1 assms(1) have "R d (fst (k x d'))" by (blast dest: transpD)
    with md Inr show ?thesis by (simp add: await_def)
  qed
qed

lemma preserves_catch:
  assumes "transp R" and m: "preserves R m" and h: "\<And>e. preserves R (h e)"
  shows "preserves R (catch m h)"
  unfolding preserves_def
proof
  fix d
  obtain d' r where md: "m d = (d', r)" by (cases "m d")
  from m have R1: "R d d'" using md by (simp add: preserves_def) (metis fst_conv)
  show "R d (fst (catch m h d))"
  proof (cases r)
    case (Inr x)
    with md R1 show ?thesis by (simp add: catch_def)
  next
    case (Inl e)
    from h [of e] have "R d' (fst (h e d'))" by (simp add: preserves_def)
    with R1 assms(1) have "R d (fst (h e d'))" by (blast dest: transpD)
    with md Inl show ?thesis by (simp add: catch_def)
  qed
qed

lemma preserves_transaction:
  assumes "reflp R" and m: "preserves R m"
  shows "preserves R (transaction m)"
  unfolding preserves_def
proof
  fix d
  obtain d' r where md: "m d = (d', r)" by (cases "m d")
  from m have R1: "R d d'" using md by (simp add: preserves_def) (metis fst_conv)
  show "R d (fst (transaction m d))"
  proof (cases r)
    case (Inr x)
    with md R1 show ?thesis by (simp add: transaction_def)
  next
    case (Inl e)
    with md assms(1) show ?thesis by (simp add: transaction_def reflpD)
  qed
qed

lemma preserves_statement: "reflp R \<Longrightarrow> preserves R m \<Longrightarrow> preserves R (statement fault m)"
  by (cases fault) (simp_all add: statement_def preserves_throw)

lemma preserves_if:
  "(c \<Longrightarrow> preserves R a) \<Longrightarrow> (\<not> c \<Longrightarrow> preserves R b) \<Longrightarrow> preserves R (if c then a else b)"
  by simp

lemma preserves_case_option:
  "(x = None \<Longrightarrow> preserves R a) \<Longrightarrow> (\<And>y. x = Some y \<Longrightarrow> preserves R (b y))
   \<Longrightarrow> preserves R (case x of None \<Rightarrow> a | Some y \<Rightarrow> b y)"
  by (cases x) simp_all

lemma preserves_let: "preserves R (f x) \<Longrightarrow> preserves R (Let x f)"
  by simp

lemma reflp_completed_kept: "reflp completed_kept"
  by (rule reflpI) (simp add: completed_kept_def)

lemma transp_completed_kept: "transp completed_kept"
  by (rule transpI) (simp add: completed_kept_def)

lemma fst_payment_findFirst: "fst (payment_findFirst c d) = d"
  by (simp add: payment_findFirst_def)

lemma fst_enrollment_findFirst: "fst (enrollment_findFirst c d) = d"
  by (simp add: enrollment_findFirst_def)

lemma fst_trainingProgram_findFirst: "fst (trainingProgram_findFirst c d) = d"
  by (simp add: trainingProgram_findFirst_def)

lemma fst_enrollment_findUnique: "fst (enrollment_findUnique u t d) = d"
  by (simp add: enrollment_findUnique_def)

lemma fst_user_findUnique_email: "fst (user_findUnique_email e d) = d"
  by (simp add: user_findUnique_email_def)

lemma fst_generateQRCode: "fst (generateQRCode ev t d) = d"
  by (simp add: generateQRCode_def throw_def resolve_def split: option.splits)

lemma fst_generateToken: "fst (generateToken av now u d) = d"
  by (simp add: generateToken_def throw_def resolve_def split: option.splits)

lemmas fst_reads = fst_payment_findFirst fst_enrollment_findFirst fst_trainingProgram_findFirst
  fst_enrollment_findUnique fst_user_findUnique_email fst_generateQRCode fst_generateToken

lemma enrollments_payment_update: "enrollments (fst (payment_update now pid f d)) = enrollments d"
  by (simp add: payment_update_def split: option.splits)

lemma enrollments_payment_create: "enrollments (fst (payment_create now n u t a m r d)) = enrollments d"
  by (simp add: payment_create_def Let_def)

lemma enrollments_user_update: "enrollments (fst (user_update now uid data d)) = enrollments d"
  by (simp add: user_update_def split: option.splits sum.splits)

lemma enrollments_user_create: "enrollments (fst (user_create now n u d)) = enrollments d"
  by (simp add: user_create_def Let_def)

lemma completed_kept_same: "enrollments d' = enrollments d \<Longrightarrow> completed_kept d d'"
  by (simp add: completed_kept_def)

lemma completed_payment_update: "preserves completed_kept (payment_update now pid f)"
  by (simp add: preserves_def completed_kept_same enrollments_payment_update)

lemma completed_payment_create: "preserves completed_kept (payment_create now n u t a m r)"
  by (simp add: preserves_def completed_kept_same enrollments_payment_create)

lemma completed_user_update: "preserves completed_kept (user_update now uid data)"
  by (simp add: preserves_def completed_kept_same enrollments_user_update)

lemma completed_user_create: "preserves completed_kept (user_create now n u)"
  by (simp add: preserves_def completed_kept_same enrollments_user_create)

lemma completed_enrollment_create: "preserves completed_kept (enrollment_create now n u t)"
  by (simp add: preserves_def completed_kept_def enrollment_create_def Let_def)

lemma completed_enrollment_updateMany:
  assumes "\<And>e. c e \<Longrightarrow> e_status e \<noteq> completed"
  shows "preserves completed_kept (enrollment_updateMany fault now c f)"
  unfolding preserves_def completed_kept_def
proof (intro allI ballI impI)
  fix d :: db and e assume e: "e \<in> set (enrollments d)" and st: "e_status e = completed"
  have nc: "\<not> c e"
  proof
    assume "c e"
    from assms [OF this] st show False by simp
  qed
  have "e \<in> (\<lambda>x. if c x then f (x\<lparr>e_updated_at := now\<rparr>) else x) ` set (enrollments d)"
    by (rule image_eqI [where x = e]) (simp_all add: nc e)
  with e show "e \<in> set (enrollments (fst (enrollment_updateMany fault now c f d)))"
    by (cases fault) (simp_all add: enrollment_updateMany_def)
qed

lemmas completed_rules =
  preserves_await [OF transp_completed_kept] preserves_catch [OF transp_completed_kept]
  preserves_transaction [OF reflp_completed_kept]
  preserves_resolve [OF reflp_completed_kept] preserves_throw [OF reflp_completed_kept]
  preserves_lift [OF reflp_completed_kept]
  preserves_read [OF reflp_completed_kept fst_payment_findFirst]
  preserves_read [OF reflp_completed_kept fst_enrollment_findFirst]
  preserves_read [OF reflp_completed_kept fst_trainingProgram_findFirst]
  preserves_read [OF reflp_completed_kept fst_enrollment_findUnique]
  preserves_read [OF reflp_completed_kept fst_user_findUnique_email]
  preserves_read [OF reflp_completed_kept fst_generateQRCode]
  preserves_read [OF reflp_completed_kept fst_generateToken]
  preserves_if preserves_case_option preserves_let
  completed_payment_update completed_payment_create completed_user_update completed_user_create
  completed_enrollment_create

lemma completed_confirmPayment: "preserves completed_kept (confirmPayment now u p r)"
  unfolding confirmPayment_def
  by (intro completed_rules) (auto split: sum.splits intro!: completed_rules)

lemma completed_getPaymentStatus: "preserves completed_kept (getPaymentStatus now u p)"
  unfolding getPaymentStatus_def by (intro completed_rules)

lemma completed_initiatePayment: "preserves completed_kept (initiatePaymentForEnrollment ev now n u e)"
  unfolding initiatePaymentForEnrollment_def by (intro completed_rules)

lemma completed_createPayment: "preserves completed_kept (createPayment ev now n u b)"
  unfolding createPayment_def by (intro completed_rules)

lemma completed_updateUserProfile: "preserves completed_kept (updateUserProfile now u b)"
  unfolding updateUserProfile_def by (intro completed_rules)

lemma completed_userSignup: "preserves completed_kept (userSignup av now n b)"
  unfolding userSignup_def by (intro completed_rules)

lemma completed_createEnrollment: "preserves completed_kept (createEnrollment now n u t)"
  unfolding createEnrollment_def by (intro completed_rules)

lemma completed_createEnrollmentWithDetails: "preserves completed_kept (createEnrollmentWithDetails now n u t b)"
  unfolding createEnrollmentWithDetails_def by (intro completed_rules)

lemma completed_updatePaymentStatus: "preserves completed_kept (updatePaymentStatus now pf ef p s)"
  unfolding updatePaymentStatus_def updatePaymentStatus_tx_def
  by (intro completed_rules completed_enrollment_updateMany
        preserves_statement [OF reflp_completed_kept]) simp_all

section \<open>Completed enrollments\<close>

lemma completed_handle:
  assumes "\<forall>eid st. r \<noteq> UpdateEnrollmentStatus eid st"
  shows "completed_kept d (handle ev av now r d)"
proof (cases r)
  case (Signup n b)
  with completed_userSignup [of av now n] show ?thesis by (simp add: preserves_def signup_def)
next
  case (UpdateProfile u b)
  with completed_updateUserProfile [of now u] show ?thesis by (simp add: preserves_def updateProfile_def)
next
  case (CreateEnrollment n u t)
  with completed_createEnrollment [of now n u t] show ?thesis by (simp add: preserves_def)
next
  case (CreateEnrollmentWithDetails n u t b)
  with completed_createEnrollmentWithDetails [of now n u t b] show ?thesis by (simp add: preserves_def)
next
  case (InitiatePayment n u e)
  with completed_initiatePayment [of ev now n u e] show ?thesis by (simp add: preserves_def)
next
  case (ConfirmPayment u p x)
  with completed_confirmPayment [of now u p x] show ?thesis by (simp add: preserves_def)
next
  case (GetPaymentStatus u p)
  with completed_getPaymentStatus [of now u p] show ?thesis by (simp add: preserves_def)
next
  case (CreatePayment n u b)
  with completed_createPayment [of ev now n u b] show ?thesis by (simp add: preserves_def)
next
  case (UpdateEnrollmentStatus e s)
  with assms show ?thesis by simp
next
  case (UpdatePaymentStatus pf ef p s)
  with completed_updatePaymentStatus [of now pf ef p s] show ?thesis by (simp add: preserves_def)
qed

lemma EnrollmentStatus_of_includes:
  "EnrollmentStatus_of s = Some st \<Longrightarrow> array_includes [''pending_payment'', ''enrolled'', ''completed''] (Some (JStr s))"
  by (simp add: EnrollmentStatus_of_def split: if_splits)

lemma updateEnrollmentStatus_sets:
  assumes "EnrollmentStatus_of s = Some st"
    and "find (\<lambda>e. e_id e = eid) (enrollments d) = Some e"
  shows "updateEnrollmentStatus now eid (Some (JStr s)) d =
     (d\<lparr>enrollments := map (\<lambda>x. if e_id x = eid then x\<lparr>e_updated_at := now, e_status := st\<rparr> else x)
                             (enrollments d)\<rparr>,
      Inr (e\<lparr>e_updated_at := now, e_status := st\<rparr>))"
  using assms EnrollmentStatus_of_includes [OF assms(1)]
  by (simp add: updateEnrollmentStatus_def await_def lift_def resolve_def enrollment_update_def)

text \<open>
  C8, as the code has it. A request other than the administrator's enrollment-status
  update leaves every \<open>completed\<close> enrollment row in the table as it is: the
  payment-status update only moves \<open>pending_payment\<close> to \<open>enrolled\<close> and \<open>enrolled\<close> to
  \<open>pending_payment\<close>. The administrator's enrollment-status update writes the status it
  is given, one of the three, into the enrollment, whatever status that had.
\<close>

theorem completed_changed_only_by_enrollment_update:
  "((\<forall>eid st. r \<noteq> UpdateEnrollmentStatus eid st) \<longrightarrow> completed_kept d (handle ev av now r d))
   \<and> (\<forall>st e. EnrollmentStatus_of s = Some st \<and> find (\<lambda>e. e_id e = eid) (enrollments d) = Some e \<longrightarrow>
         enrollments (handle ev av now (UpdateEnrollmentStatus eid (Some (JStr s))) d) =
           map (\<lambda>x. if e_id x = eid then x\<lparr>e_updated_at := now, e_status := st\<rparr> else x) (enrollments d))"
proof (intro conjI impI allI)
  assume "\<forall>eid st. r \<noteq> UpdateEnrollmentStatus eid st"
  then show "completed_kept d (handle ev av now r d)" by (rule completed_handle)
next
  fix st e
  assume "EnrollmentStatus_of s = Some st \<and> find (\<lambda>e. e_id e = eid) (enrollments d) = Some e"
  then have a: "EnrollmentStatus_of s = Some st" and b: "find (\<lambda>e. e_id e = eid) (enrollments d) = Some e"
    by simp_all
  show "enrollments (handle ev av now (UpdateEnrollmentStatus eid (Some (JStr s))) d) =
           map (\<lambda>x. if e_id x = eid then x\<lparr>e_updated_at := now, e_status := st\<rparr> else x) (enrollments d)"
    by (simp add: updateEnrollmentStatus_sets [OF a b])
qed

theorem completed_changed_only_by_enrollment_update_witness:
  "(\<forall>eid st. UpdatePaymentStatus None None ''p1'' (Some (JStr ''failed'')) \<noteq> UpdateEnrollmentStatus eid st)
   \<and> enrollments demo_completed_db = [demo_enrollment\<lparr>e_status := completed\<rparr>]
   \<and> demo_enrollment\<lparr>e_status := completed\<rparr>
        \<in> set (enrollments (handle demo_env demo_auth_env 20000
                   (UpdatePaymentStatus None None ''p1'' (Some (JStr ''failed''))) demo_completed_db))
   \<and> EnrollmentStatus_of ''completed'' = Some completed
   \<and> find (\<lambda>e. e_id e = ''enrollment-000001'') (enrollments demo_db) = Some demo_enrollment
   \<and> enrollments (handle demo_env demo_auth_env 20000
         (UpdateEnrollmentStatus ''enrollment-000001'' (Some (JStr ''completed''))) demo_db)
       = [demo_enrollment\<lparr>e_updated_at := 20000, e_status := completed\<rparr>]"
proof -
  have r: "\<forall>eid st. UpdatePaymentStatus None None ''p1'' (Some (JStr ''failed'')) \<noteq> UpdateEnrollmentStatus eid st"
    by simp
  have en: "enrollments demo_completed_db = [demo_enrollment\<lparr>e_status := completed\<rparr>]"
    by (simp add: demo_completed_db_def)
  have st: "e_status (demo_enrollment\<lparr>e_status := completed\<rparr>) = completed" by simp
  have s: "EnrollmentStatus_of ''completed'' = Some completed" by (simp add: EnrollmentStatus_of_def)
  have f: "find (\<lambda>e. e_id e = ''enrollment-000001'') (enrollments demo_db) = Some demo_enrollment"
    by (simp add: demo_db_def demo_enrollment_def)
  have id: "e_id demo_enrollment = ''enrollment-000001''" by (simp add: demo_enrollment_def)
  have en2: "enrollments demo_db = [demo_enrollment]" by (simp add: demo_db_def)
  note thm1 = completed_changed_only_by_enrollment_update
    [of "UpdatePaymentStatus None None ''p1'' (Some (JStr ''failed''))" demo_completed_db demo_env demo_auth_env 20000
        "''completed''" "''enrollment-000001''"]
  note thm2 = completed_changed_only_by_enrollment_update
    [of "UpdatePaymentStatus None None ''p1'' (Some (JStr ''failed''))" demo_db demo_env demo_auth_env 20000
        "''completed''" "''enrollment-000001''"]
  from thm1 r have "completed_kept demo_completed_db (handle demo_env demo_auth_env 20000
                   (UpdatePaymentStatus None None ''p1'' (Some (JStr ''failed''))) demo_completed_db)"
    by blast
  then have A: "demo_enrollment\<lparr>e_status := completed\<rparr>
        \<in> set (enrollments (handle demo_env demo_auth_env 20000
                   (UpdatePaymentStatus None None ''p1'' (Some (JStr ''failed''))) demo_completed_db))"
    unfolding completed_kept_def en using st by simp
  from thm2 s f have B: "enrollments (handle demo_env demo_auth_env 20000
         (UpdateEnrollmentStatus ''enrollment-000001'' (Some (JStr ''completed''))) demo_db)
       = map (\<lambda>x. if e_id x = ''enrollment-000001'' then x\<lparr>e_updated_at := 20000, e_status := completed\<rparr> else x)
           (enrollments demo_db)"
    by blast
  have B': "enrollments (handle demo_env demo_auth_env 20000
         (UpdateEnrollmentStatus ''enrollment-000001'' (Some (JStr ''completed''))) demo_db)
       = [demo_enrollment\<lparr>e_updated_at := 20000, e_status := completed\<rparr>]"
    unfolding B en2 using id by simp
  from r en A s f B' show ?thesis by (intro conjI)
qed

theorem completed_regresses_counterexample:
  "map e_status (enrollments demo_completed_db) = [completed]
   \<and> map e_status (enrollments (fst (updateEnrollmentStatus 20000 ''enrollment-000001''
                                       (Some (JStr ''enrolled'')) demo_completed_db))) = [enrolled]"
  by (simp add: demo_completed_db_def demo_db_def demo_enrollment_def updateEnrollmentStatus_def
      EnrollmentStatus_of_def await_def lift_def resolve_def enrollment_update_def)

section \<open>The administrator sets a payment status\<close>

lemma transaction_throw_restores:
  "snd (transaction m d) = Inl e \<Longrightarrow> fst (transaction m d) = d"
proof -
  assume a: "snd (transaction m d) = Inl e"
  obtain d' r where md: "m d = (d', r)" by (cases "m d")
  show ?thesis
  proof (cases r)
    case (Inl x)
    with md show ?thesis by (simp add: transaction_def)
  next
    case (Inr x)
    with md a show ?thesis by (simp add: transaction_def)
  qed
qed

lemma updatePaymentStatus_throw_restores:
  assumes "snd (updatePaymentStatus now pf ef pid status d) = Inl e"
  shows "fst (updatePaymentStatus now pf ef pid status d) = d"
proof (cases "array_includes [''pending_verification'', ''verified'', ''failed'', ''refunded''] status")
  case False
  then show ?thesis by (simp add: updatePaymentStatus_def throw_def)
next
  case True
  with assms show ?thesis
    by (simp add: updatePaymentStatus_def transaction_throw_restores)
qed

lemma updatePaymentStatus_payment_refused:
  "updatePaymentStatus now (Some e) ef pid (Some (JStr ''verified'')) d = (d, Inl e)"
  by (simp add: updatePaymentStatus_def updatePaymentStatus_tx_def statement_def PaymentStatus_of_def
      transaction_def await_def lift_def resolve_def throw_def)

lemma updatePaymentStatus_verified_missing:
  assumes "find (\<lambda>p. p_id p = pid) (payments d) = None"
  shows "updatePaymentStatus now None ef pid (Some (JStr ''verified'')) d = (d, Inl P2025)"
  using assms
  by (simp add: updatePaymentStatus_def updatePaymentStatus_tx_def statement_def PaymentStatus_of_def
      transaction_def await_def lift_def resolve_def payment_update_def)

lemma updatePaymentStatus_tx_verified:
  assumes "find (\<lambda>p. p_id p = pid) (payments d) = Some p"
  shows "updatePaymentStatus_tx now None None pid (Some (JStr ''verified'')) d =
     (verify now p d, Inr (p\<lparr>p_updated_at := now, p_status := verified\<rparr>))"
proof -
  from assms have "p_id p = pid" by (auto simp: find_Some_iff)
  with assms show ?thesis
    by (simp add: updatePaymentStatus_tx_def statement_def PaymentStatus_of_def await_def lift_def
      resolve_def payment_update_def enrollment_updateMany_def verify_def)
qed

lemma updatePaymentStatus_tx_refused:
  assumes "find (\<lambda>p. p_id p = pid) (payments d) = Some p"
  shows "updatePaymentStatus_tx now None (Some e) pid (Some (JStr ''verified'')) d =
     (d\<lparr>payments := map (\<lambda>q. if p_id q = pid then q\<lparr>p_updated_at := now, p_status := verified\<rparr> else q)
                         (payments d)\<rparr>,
      Inl e)"
  using assms
  by (simp add: updatePaymentStatus_tx_def statement_def PaymentStatus_of_def await_def lift_def
      resolve_def payment_update_def enrollment_updateMany_def)

lemma updatePaymentStatus_verified_found:
  assumes "find (\<lambda>p. p_id p = pid) (payments d) = Some p"
  shows "updatePaymentStatus now None None pid (Some (JStr ''verified'')) d =
     (verify now p d, Inr (p\<lparr>p_updated_at := now, p_status := verified\<rparr>))"
  by (simp add: updatePaymentStatus_def transaction_def updatePaymentStatus_tx_verified [OF assms])

lemma updatePaymentStatus_verified_rolled_back:
  assumes "find (\<lambda>p. p_id p = pid) (payments d) = Some p"
  shows "updatePaymentStatus now None (Some e) pid (Some (JStr ''verified'')) d = (d, Inl e)"
  by (simp add: updatePaymentStatus_def transaction_def updatePaymentStatus_tx_refused [OF assms])

lemma verify_payment_status:
  "\<forall>q \<in> set (payments (verify now p d)). p_id q = p_id p \<longrightarrow> p_status q = verified"
proof (intro ballI impI)
  fix q assume "q \<in> set (payments (verify now p d))" and id: "p_id q = p_id p"
  then have "q \<in> (\<lambda>x. if p_id x = p_id p then x\<lparr>p_updated_at := now, p_status := verified\<rparr> else x)
                    ` set (payments d)"
    by (simp add: verify_def)
  then obtain x where x: "q = (if p_id x = p_id p then x\<lparr>p_updated_at := now, p_status := verified\<rparr> else x)"
    by (rule imageE)
  show "p_status q = verified"
  proof (cases "p_id x = p_id p")
    case True
    with x show ?thesis by simp
  next
    case False
    with x have "q = x" by simp
    with False id show ?thesis by simp
  qed
qed

lemma verify_enrollment_status:
  "\<forall>e \<in> set (enrollments (verify now p d)).
      e_user_id e = p_user_id p \<and> e_training_id e = p_training_id p \<longrightarrow> e_status e \<noteq> pending_payment"
proof (intro ballI impI)
  fix e assume "e \<in> set (enrollments (verify now p d))"
    and pair: "e_user_id e = p_user_id p \<and> e_training_id e = p_training_id p"
  then have "e \<in> (\<lambda>x. if e_user_id x = p_user_id p \<and> e_training_id x = p_training_id p
                              \<and> e_status x = pending_payment
                         then x\<lparr>e_updated_at := now, e_status := enrolled\<rparr> else x) ` set (enrollments d)"
    by (simp add: verify_def)
  then obtain x where x: "e = (if e_user_id x = p_user_id p \<and> e_training_id x = p_training_id p
                              \<and> e_status x = pending_payment
                         then x\<lparr>e_updated_at := now, e_status := enrolled\<rparr> else x)"
    by (rule imageE)
  show "e_status e \<noteq> pending_payment"
  proof (cases "e_user_id x = p_user_id p \<and> e_training_id x = p_training_id p \<and> e_status x = pending_payment")
    case True
    with x show ?thesis by simp
  next
    case False
    with x have "e = x" by simp
    with False pair show ?thesis by simp
  qed
qed

lemma updatePaymentStatus_all_or_nothing:
  "fst (updatePaymentStatus now pf ef pid (Some (JStr ''verified'')) d) = d
   \<or> (\<exists>p. find (\<lambda>p. p_id p = pid) (payments d) = Some p
          \<and> fst (updatePaymentStatus now pf ef pid (Some (JStr ''verified'')) d) = verify now p d)"
proof (cases pf)
  case (Some e)
  then show ?thesis by (simp add: updatePaymentStatus_payment_refused)
next
  case None
  show ?thesis
  proof (cases "find (\<lambda>p. p_id p = pid) (payments d)")
    case missing: None
    with None show ?thesis by (simp add: updatePaymentStatus_verified_missing)
  next
    case (Some p)
    show ?thesis
    proof (cases ef)
      case ok: None
      with None Some show ?thesis by (simp add: updatePaymentStatus_verified_found)
    next
      case refused: (Some e)
      with None Some show ?thesis by (simp add: updatePaymentStatus_verified_rolled_back)
    qed
  qed
qed

text \<open>
  C1. When the administrator sets a payment to \<open>verified\<close> (the spec's confirmed), both
  writes are made or none is.

  \<^item> A call that throws, for any target status and any fault, leaves the database as it
    was. So it does when the payment write is refused, and when the payment does not
    exist (\<open>P2025\<close>).
  \<^item> Whatever the faults, the database after the call is the one before it, or it is
    \<open>verify now p d\<close> for the payment \<open>p\<close> with that identifier.
  \<^item> With the payment found and no fault the call returns the updated payment and leaves
    \<open>verify now p d\<close>: the payment \<open>verified\<close> and every \<open>pending_payment\<close> enrollment of
    the same user and training \<open>enrolled\<close>.
  \<^item> When the database refuses the enrollment write, the callback on its own has already
    written the payment and leaves it \<open>verified\<close> beside the untouched enrollments;
    \<^verbatim>\<open>prisma.$transaction\<close> takes that write back, and the call throws the fault and
    leaves the database as it was.
\<close>

theorem updatePaymentStatus_verified_atomic:
  "(\<forall>status pf ef e. snd (updatePaymentStatus now pf ef pid status d) = Inl e \<longrightarrow>
       fst (updatePaymentStatus now pf ef pid status d) = d)
   \<and> (\<forall>pf ef. fst (updatePaymentStatus now pf ef pid (Some (JStr ''verified'')) d) = d
         \<or> (\<exists>p. find (\<lambda>p. p_id p = pid) (payments d) = Some p
                \<and> fst (updatePaymentStatus now pf ef pid (Some (JStr ''verified'')) d) = verify now p d))
   \<and> (\<forall>e ef. updatePaymentStatus now (Some e) ef pid (Some (JStr ''verified'')) d = (d, Inl e))
   \<and> (find (\<lambda>p. p_id p = pid) (payments d) = None \<longrightarrow>
       (\<forall>ef. updatePaymentStatus now None ef pid (Some (JStr ''verified'')) d = (d, Inl P2025)))
   \<and> (\<forall>p. find (\<lambda>p. p_id p = pid) (payments d) = Some p \<longrightarrow>
       updatePaymentStatus now None None pid (Some (JStr ''verified'')) d =
         (verify now p d, Inr (p\<lparr>p_updated_at := now, p_status := verified\<rparr>))
       \<and> (\<forall>e. updatePaymentStatus_tx now None (Some e) pid (Some (JStr ''verified'')) d =
                (d\<lparr>payments := map (\<lambda>q. if p_id q = pid
                                          then q\<lparr>p_updated_at := now, p_status := verified\<rparr> else q)
                                    (payments d)\<rparr>,
                 Inl e))
       \<and> (\<forall>e. updatePaymentStatus now None (Some e) pid (Some (JStr ''verified'')) d = (d, Inl e))
       \<and> payments (verify now p d) =
           map (\<lambda>q. if p_id q = pid then q\<lparr>p_updated_at := now, p_status := verified\<rparr> else q) (payments d)
       \<and> enrollments (verify now p d) =
           map (\<lambda>e. if e_user_id e = p_user_id p \<and> e_training_id e = p_training_id p
                        \<and> e_status e = pending_payment
                     then e\<lparr>e_updated_at := now, e_status := enrolled\<rparr> else e) (enrollments d)
       \<and> (\<forall>q \<in> set (payments (verify now p d)). p_id q = pid \<longrightarrow> p_status q = verified)
       \<and> (\<forall>e \<in> set (enrollments (verify now p d)).
             e_user_id e = p_user_id p \<and> e_training_id e = p_training_id p \<longrightarrow>
             e_status e \<noteq> pending_payment))"
proof (intro conjI allI impI)
  fix status pf ef e assume "snd (updatePaymentStatus now pf ef pid status d) = Inl e"
  then show "fst (updatePaymentStatus now pf ef pid status d) = d"
    by (rule updatePaymentStatus_throw_restores)
next
  fix pf ef
  show "fst (updatePaymentStatus now pf ef pid (Some (JStr ''verified'')) d) = d
         \<or> (\<exists>p. find (\<lambda>p. p_id p = pid) (payments d) = Some p
                \<and> fst (updatePaymentStatus now pf ef pid (Some (JStr ''verified'')) d) = verify now p d)"
    by (rule updatePaymentStatus_all_or_nothing)
next
  fix e ef
  show "updatePaymentStatus now (Some e) ef pid (Some (JStr ''verified'')) d = (d, Inl e)"
    by (rule updatePaymentStatus_payment_refused)
next
  fix ef assume "find (\<lambda>p. p_id p = pid) (payments d) = None"
  then show "updatePaymentStatus now None ef pid (Some (JStr ''verified'')) d = (d, Inl P2025)"
    by (rule updatePaymentStatus_verified_missing)
next
  fix p assume f: "find (\<lambda>p. p_id p = pid) (payments d) = Some p"
  then have id: "p_id p = pid" by (auto simp: find_Some_iff)
  from f show "updatePaymentStatus now None None pid (Some (JStr ''verified'')) d =
         (verify now p d, Inr (p\<lparr>p_updated_at := now, p_status := verified\<rparr>))"
    by (rule updatePaymentStatus_verified_found)
  show "payments (verify now p d) =
           map (\<lambda>q. if p_id q = pid then q\<lparr>p_updated_at := now, p_status := verified\<rparr> else q) (payments d)"
    by (simp add: verify_def id)
  show "enrollments (verify now p d) =
           map (\<lambda>e. if e_user_id e = p_user_id p \<and> e_training_id e = p_training_id p
                        \<and> e_status e = pending_payment
                     then e\<lparr>e_updated_at := now, e_status := enrolled\<rparr> else e) (enrollments d)"
    by (simp add: verify_def)
  show "\<forall>q \<in> set (payments (verify now p d)). p_id q = pid \<longrightarrow> p_status q = verified"
    using verify_payment_status [of now p d] by (simp only: id)
  show "\<forall>e \<in> set (enrollments (verify now p d)).
             e_user_id e = p_user_id p \<and> e_training_id e = p_training_id p \<longrightarrow>
             e_status e \<noteq> pending_payment"
    by (rule verify_enrollment_status)
next
  fix p e assume f: "find (\<lambda>p. p_id p = pid) (payments d) = Some p"
  then show "updatePaymentStatus_tx now None (Some e) pid (Some (JStr ''verified'')) d =
                (d\<lparr>payments := map (\<lambda>q. if p_id q = pid
                                          then q\<lparr>p_updated_at := now, p_status := verified\<rparr> else q)
                                    (payments d)\<rparr>,
                 Inl e)"
    by (rule updatePaymentStatus_tx_refused)
next
  fix p e assume f: "find (\<lambda>p. p_id p = pid) (payments d) = Some p"
  then show "updatePaymentStatus now None (Some e) pid (Some (JStr ''verified'')) d = (d, Inl e)"
    by (rule updatePaymentStatus_verified_rolled_back)
qed

theorem updatePaymentStatus_verified_atomic_witness:
  "find (\<lambda>p. p_id p = ''p1'') (payments demo_db) = Some demo_payment
   \<and> map p_status (payments demo_db) = [pending_verification]
   \<and> map e_status (enrollments demo_db) = [pending_payment]
   \<and> result_of (updatePaymentStatus 20000 None None ''p1'' (Some (JStr ''verified'')) demo_db)
       = Some (demo_payment\<lparr>p_updated_at := 20000, p_status := verified\<rparr>)
   \<and> map p_status (payments (fst (updatePaymentStatus 20000 None None ''p1'' (Some (JStr ''verified'')) demo_db)))
       = [verified]
   \<and> map e_status (enrollments (fst (updatePaymentStatus 20000 None None ''p1'' (Some (JStr ''verified'')) demo_db)))
       = [enrolled]
   \<and> snd (updatePaymentStatus_tx 20000 None (Some P1017) ''p1'' (Some (JStr ''verified'')) demo_db) = Inl P1017
   \<and> map p_status (payments (fst (updatePaymentStatus_tx 20000 None (Some P1017) ''p1''
                                     (Some (JStr ''verified'')) demo_db)))
       = [verified]
   \<and> map e_status (enrollments (fst (updatePaymentStatus_tx 20000 None (Some P1017) ''p1''
                                        (Some (JStr ''verified'')) demo_db)))
       = [pending_payment]
   \<and> updatePaymentStatus 20000 None (Some P1017) ''p1'' (Some (JStr ''verified'')) demo_db
       = (demo_db, Inl P1017)
   \<and> find (\<lambda>p. p_id p = ''p9'') (payments demo_db) = None
   \<and> updatePaymentStatus 20000 None None ''p9'' (Some (JStr ''verified'')) demo_db = (demo_db, Inl P2025)"
proof -
  have f: "find (\<lambda>p. p_id p = ''p1'') (payments demo_db) = Some demo_payment"
    by (simp add: demo_db_def demo_payment_def)
  have n: "find (\<lambda>p. p_id p = ''p9'') (payments demo_db) = None"
    by (simp add: demo_db_def demo_payment_def)
  have s: "map p_status (payments demo_db) = [pending_verification]"
    by (simp add: demo_db_def demo_payment_def)
  have e: "map e_status (enrollments demo_db) = [pending_payment]"
    by (simp add: demo_db_def demo_enrollment_def)
  note t1 = updatePaymentStatus_verified_atomic [of 20000 "''p1''" demo_db]
  note t9 = updatePaymentStatus_verified_atomic [of 20000 "''p9''" demo_db]
  note found = t1 [THEN conjunct2, THEN conjunct2, THEN conjunct2, THEN conjunct2, THEN spec, THEN mp, OF f]
  note missing = t9 [THEN conjunct2, THEN conjunct2, THEN conjunct2, THEN conjunct1, THEN mp, OF n]
  from found have eq: "updatePaymentStatus 20000 None None ''p1'' (Some (JStr ''verified'')) demo_db =
         (verify 20000 demo_payment demo_db, Inr (demo_payment\<lparr>p_updated_at := 20000, p_status := verified\<rparr>))"
    by (rule conjunct1)
  from found [THEN conjunct2, THEN conjunct1]
  have tx: "updatePaymentStatus_tx 20000 None (Some P1017) ''p1'' (Some (JStr ''verified'')) demo_db =
                (demo_db\<lparr>payments := map (\<lambda>q. if p_id q = ''p1''
                                          then q\<lparr>p_updated_at := 20000, p_status := verified\<rparr> else q)
                                    (payments demo_db)\<rparr>,
                 Inl P1017)"
    by (rule spec)
  from found [THEN conjunct2, THEN conjunct2, THEN conjunct1]
  have rolled: "updatePaymentStatus 20000 None (Some P1017) ''p1'' (Some (JStr ''verified'')) demo_db
       = (demo_db, Inl P1017)"
    by (rule spec)
  from missing
  have eq9: "updatePaymentStatus 20000 None None ''p9'' (Some (JStr ''verified'')) demo_db = (demo_db, Inl P2025)"
    by (rule spec)
  have v1: "map p_status (payments (verify 20000 demo_payment demo_db)) = [verified]"
    by (simp add: verify_def demo_db_def demo_payment_def)
  have v2: "map e_status (enrollments (verify 20000 demo_payment demo_db)) = [enrolled]"
    by (simp add: verify_def demo_db_def demo_payment_def demo_enrollment_def)
  have r: "result_of (updatePaymentStatus 20000 None None ''p1'' (Some (JStr ''verified'')) demo_db)
       = Some (demo_payment\<lparr>p_updated_at := 20000, p_status := verified\<rparr>)"
    by (simp only: eq result_of_def snd_conv sum.case)
  have x0: "snd (updatePaymentStatus_tx 20000 None (Some P1017) ''p1'' (Some (JStr ''verified'')) demo_db)
       = Inl P1017"
    by (simp only: tx snd_conv)
  have x1: "map p_status (payments (fst (updatePaymentStatus_tx 20000 None (Some P1017) ''p1''
                                     (Some (JStr ''verified'')) demo_db))) = [verified]"
    unfolding tx by (simp add: demo_db_def demo_payment_def)
  have x2: "map e_status (enrollments (fst (updatePaymentStatus_tx 20000 None (Some P1017) ''p1''
                                        (Some (JStr ''verified'')) demo_db))) = [pending_payment]"
    unfolding tx by (simp add: demo_db_def demo_enrollment_def)
  from f s e r v1 v2 x0 x1 x2 rolled n eq9 show ?thesis by (simp only: eq fst_conv)
qed

lemma updatePaymentStatus_invalid:
  assumes "\<not> array_includes [''pending_verification'', ''verified'', ''failed'', ''refunded''] status"
  shows "updatePaymentStatus now pf ef pid status d = (d, Inl InvalidPaymentStatus)"
  using assms by (simp add: updatePaymentStatus_def throw_def)

text \<open>
  C9, as the code has it. The administrator's payment-status update accepts four targets:
  \<open>pending_verification\<close>, \<open>verified\<close>, \<open>failed\<close> and \<open>refunded\<close>. For every other
  value, of any JSON type or absent, it throws "Invalid payment status" and the database is
  what it was.
\<close>

theorem updatePaymentStatus_invalid_status:
  "\<not> array_includes [''pending_verification'', ''verified'', ''failed'', ''refunded''] status \<Longrightarrow>
   updatePaymentStatus now pf ef pid status d = (d, Inl InvalidPaymentStatus)"
  by (rule updatePaymentStatus_invalid)

theorem updatePaymentStatus_invalid_status_witness:
  "\<not> array_includes [''pending_verification'', ''verified'', ''failed'', ''refunded''] (Some (JStr ''cancelled''))
   \<and> updatePaymentStatus 20000 None None ''p1'' (Some (JStr ''cancelled'')) demo_db
       = (demo_db, Inl InvalidPaymentStatus)"
proof -
  have h: "\<not> array_includes [''pending_verification'', ''verified'', ''failed'', ''refunded'']
              (Some (JStr ''cancelled''))"
    by simp
  from h updatePaymentStatus_invalid_status [OF h, of 20000 None None "''p1''" demo_db] show ?thesis
    by (intro conjI)
qed

theorem updatePaymentStatus_pending_accepted_counterexample:
  "map p_status (payments demo_completed_db) = [verified]
   \<and> result_of (updatePaymentStatus 20000 None None ''p1'' (Some (JStr ''pending_verification'')) demo_completed_db)
       = Some (demo_payment\<lparr>p_updated_at := 20000, p_status := pending_verification\<rparr>)
   \<and> map p_status (payments (fst (updatePaymentStatus 20000 None None ''p1'' (Some (JStr ''pending_verification''))
                                     demo_completed_db))) = [pending_verification]"
  by (simp add: demo_completed_db_def demo_db_def demo_payment_def result_of_def
      updatePaymentStatus_def updatePaymentStatus_tx_def statement_def PaymentStatus_of_def
      transaction_def await_def lift_def resolve_def payment_update_def)

section \<open>One enrollment for a user and a training\<close>

lemma reflp_keeps_unique: "reflp keeps_unique"
  by (rule reflpI) (simp add: keeps_unique_def)

lemma transp_keeps_unique: "transp keeps_unique"
  by (rule transpI) (simp add: keeps_unique_def)

lemma keeps_unique_same_keys:
  "map (\<lambda>e. (e_user_id e, e_training_id e)) (enrollments d')
     = map (\<lambda>e. (e_user_id e, e_training_id e)) (enrollments d) \<Longrightarrow> keeps_unique d d'"
  by (simp add: keeps_unique_def unique_enrollments_def)

lemma keeps_unique_same: "enrollments d' = enrollments d \<Longrightarrow> keeps_unique d d'"
  by (simp add: keeps_unique_same_keys)

lemma unique_payment_update: "preserves keeps_unique (payment_update now pid f)"
  by (simp add: preserves_def keeps_unique_same enrollments_payment_update)

lemma unique_payment_create: "preserves keeps_unique (payment_create now n u t a m r)"
  by (simp add: preserves_def keeps_unique_same enrollments_payment_create)

lemma unique_user_update: "preserves keeps_unique (user_update now uid data)"
  by (simp add: preserves_def keeps_unique_same enrollments_user_update)

lemma unique_user_create: "preserves keeps_unique (user_create now n u)"
  by (simp add: preserves_def keeps_unique_same enrollments_user_create)

lemma unique_enrollment_create: "preserves keeps_unique (enrollment_create now n u t)"
  unfolding preserves_def
proof
  fix d :: db
  show "keeps_unique d (fst (enrollment_create now n u t d))"
  proof (cases "n \<in> e_id ` set (enrollments d)
         \<or> (u, t) \<in> (\<lambda>e. (e_user_id e, e_training_id e)) ` set (enrollments d)")
    case True
    then show ?thesis by (simp add: enrollment_create_def keeps_unique_def)
  next
    case False
    then have fresh: "(u, t) \<notin> set (map (\<lambda>e. (e_user_id e, e_training_id e)) (enrollments d))"
      by simp
    show ?thesis
    proof (cases "u \<notin> u_id ` set (users d) \<or> t \<notin> t_id ` set (training_programs d)")
      case True
      with False show ?thesis by (simp add: enrollment_create_def keeps_unique_def)
    next
      case ok: False
      with False have "enrollments (fst (enrollment_create now n u t d)) =
          enrollments d @ [\<lparr>e_id = n, e_user_id = u, e_training_id = t, e_status = pending_payment,
                             e_created_at = now, e_updated_at = now\<rparr>]"
        by (simp add: enrollment_create_def Let_def)
      with fresh show ?thesis by (simp add: keeps_unique_def unique_enrollments_def)
    qed
  qed
qed

lemma map_keys_update:
  assumes "\<And>e. e_user_id (f e) = e_user_id e" and "\<And>e. e_training_id (f e) = e_training_id e"
  shows "map (\<lambda>e. (e_user_id e, e_training_id e)) (map (\<lambda>x. if c x then f (x\<lparr>e_updated_at := now\<rparr>) else x) xs)
         = map (\<lambda>e. (e_user_id e, e_training_id e)) xs"
  by (induction xs) (simp_all add: assms)

lemma unique_enrollment_updateMany:
  assumes "\<And>e. e_user_id (f e) = e_user_id e" and "\<And>e. e_training_id (f e) = e_training_id e"
  shows "preserves keeps_unique (enrollment_updateMany fault now c f)"
  unfolding preserves_def
proof
  fix d :: db
  show "keeps_unique d (fst (enrollment_updateMany fault now c f d))"
  proof (cases fault)
    case (Some e)
    then have "fst (enrollment_updateMany fault now c f d) = d" by (simp add: enrollment_updateMany_def)
    then show ?thesis by (simp add: keeps_unique_def)
  next
    case None
    then have "enrollments (fst (enrollment_updateMany fault now c f d))
            = map (\<lambda>x. if c x then f (x\<lparr>e_updated_at := now\<rparr>) else x) (enrollments d)"
      by (simp add: enrollment_updateMany_def)
    then have "map (\<lambda>e. (e_user_id e, e_training_id e)) (enrollments (fst (enrollment_updateMany fault now c f d)))
            = map (\<lambda>e. (e_user_id e, e_training_id e)) (enrollments d)"
      by (simp only: map_keys_update [of f, OF assms])
    then show ?thesis by (rule keeps_unique_same_keys)
  qed
qed

lemma unique_enrollment_update:
  assumes "\<And>e. e_user_id (f e) = e_user_id e" and "\<And>e. e_training_id (f e) = e_training_id e"
  shows "preserves keeps_unique (enrollment_update now eid f)"
  unfolding preserves_def
proof
  fix d :: db
  show "keeps_unique d (fst (enrollment_update now eid f d))"
  proof (cases "find (\<lambda>e. e_id e = eid) (enrollments d)")
    case None
    then show ?thesis by (simp add: enrollment_update_def keeps_unique_def)
  next
    case (Some e)
    then have "enrollments (fst (enrollment_update now eid f d))
          = map (\<lambda>x. if e_id x = eid then f (x\<lparr>e_updated_at := now\<rparr>) else x) (enrollments d)"
      by (simp add: enrollment_update_def)
    then have "map (\<lambda>e. (e_user_id e, e_training_id e)) (enrollments (fst (enrollment_update now eid f d)))
          = map (\<lambda>e. (e_user_id e, e_training_id e)) (enrollments d)"
      by (simp only: map_keys_update [of f, OF assms])
    then show ?thesis by (rule keeps_unique_same_keys)
  qed
qed

lemmas unique_rules =
  preserves_await [OF transp_keeps_unique] preserves_catch [OF transp_keeps_unique]
  preserves_transaction [OF reflp_keeps_unique]
  preserves_resolve [OF reflp_keeps_unique] preserves_throw [OF reflp_keeps_unique]
  preserves_lift [OF reflp_keeps_unique]
  preserves_read [OF reflp_keeps_unique fst_payment_findFirst]
  preserves_read [OF reflp_keeps_unique fst_enrollment_findFirst]
  preserves_read [OF reflp_keeps_unique fst_trainingProgram_findFirst]
  preserves_read [OF reflp_keeps_unique fst_enrollment_findUnique]
  preserves_read [OF reflp_keeps_unique fst_user_findUnique_email]
  preserves_read [OF reflp_keeps_unique fst_generateQRCode]
  preserves_read [OF reflp_keeps_unique fst_generateToken]
  preserves_if preserves_case_option preserves_let
  unique_payment_update unique_payment_create unique_user_update unique_user_create
  unique_enrollment_create

lemma unique_confirmPayment: "preserves keeps_unique (confirmPayment now u p r)"
  unfolding confirmPayment_def
  by (intro unique_rules) (auto split: sum.splits intro!: unique_rules)

lemma unique_getPaymentStatus: "preserves keeps_unique (getPaymentStatus now u p)"
  unfolding getPaymentStatus_def by (intro unique_rules)

lemma unique_initiatePayment: "preserves keeps_unique (initiatePaymentForEnrollment ev now n u e)"
  unfolding initiatePaymentForEnrollment_def by (intro unique_rules)

lemma unique_createPayment: "preserves keeps_unique (createPayment ev now n u b)"
  unfolding createPayment_def by (intro unique_rules)

lemma unique_updateUserProfile: "preserves keeps_unique (updateUserProfile now u b)"
  unfolding updateUserProfile_def by (intro unique_rules)

lemma unique_userSignup: "preserves keeps_unique (userSignup av now n b)"
  unfolding userSignup_def by (intro unique_rules)

lemma unique_createEnrollment: "preserves keeps_unique (createEnrollment now n u t)"
  unfolding createEnrollment_def by (intro unique_rules)

lemma unique_createEnrollmentWithDetails: "preserves keeps_unique (createEnrollmentWithDetails now n u t b)"
  unfolding createEnrollmentWithDetails_def by (intro unique_rules)

lemma unique_updatePaymentStatus: "preserves keeps_unique (updatePaymentStatus now pf ef p s)"
  unfolding updatePaymentStatus_def updatePaymentStatus_tx_def
  by (intro unique_rules unique_enrollment_updateMany
        preserves_statement [OF reflp_keeps_unique]) simp_all

lemma unique_updateEnrollmentStatus: "preserves keeps_unique (updateEnrollmentStatus now e s)"
  unfolding updateEnrollmentStatus_def
  by (intro unique_rules unique_enrollment_update) simp_all

lemma unique_handle: "keeps_unique d (handle ev av now r d)"
proof (cases r)
  case (Signup n b)
  with unique_userSignup [of av now n] show ?thesis by (simp add: preserves_def signup_def)
next
  case (UpdateProfile u b)
  with unique_updateUserProfile [of now u] show ?thesis by (simp add: preserves_def updateProfile_def)
next
  case (CreateEnrollment n u t)
  with unique_createEnrollment [of now n u t] show ?thesis by (simp add: preserves_def)
next
  case (CreateEnrollmentWithDetails n u t b)
  with unique_createEnrollmentWithDetails [of now n u t b] show ?thesis by (simp add: preserves_def)
next
  case (InitiatePayment n u e)
  with unique_initiatePayment [of ev now n u e] show ?thesis by (simp add: preserves_def)
next
  case (ConfirmPayment u p x)
  with unique_confirmPayment [of now u p x] show ?thesis by (simp add: preserves_def)
next
  case (GetPaymentStatus u p)
  with unique_getPaymentStatus [of now u p] show ?thesis by (simp add: preserves_def)
next
  case (CreatePayment n u b)
  with unique_createPayment [of ev now n u b] show ?thesis by (simp add: preserves_def)
next
  case (UpdateEnrollmentStatus e s)
  with unique_updateEnrollmentStatus [of now e s] show ?thesis by (simp add: preserves_def)
next
  case (UpdatePaymentStatus pf ef p s)
  with unique_updatePaymentStatus [of now pf ef p s] show ?thesis by (simp add: preserves_def)
qed

lemma createEnrollment_duplicate:
  assumes "tid \<noteq> []"
    and "find (\<lambda>t. t_id t = tid \<and> t_is_active t) (training_programs d) = Some t"
    and "find (\<lambda>e. e_user_id e = uid \<and> e_training_id e = tid) (enrollments d) = Some e"
  shows "createEnrollment now n uid (Some (JStr tid)) d = (d, Inl AlreadyEnrolled)"
  using assms
  by (simp add: createEnrollment_def catch_def await_def lift_def throw_def resolve_def
      trainingProgram_findFirst_def enrollment_findUnique_def)

lemma createEnrollmentWithDetails_duplicate_settled:
  assumes "tid \<noteq> []"
    and "find (\<lambda>t. t_id t = tid \<and> t_is_active t) (training_programs d) = Some t"
    and "find (\<lambda>e. e_user_id e = uid \<and> e_training_id e = tid) (enrollments d) = Some e"
    and "e_status e \<noteq> pending_payment"
  shows "createEnrollmentWithDetails now n uid (Some (JStr tid)) pd d = (d, Inl AlreadyEnrolled)"
  using assms
  by (simp add: createEnrollmentWithDetails_def catch_def await_def lift_def throw_def resolve_def
      trainingProgram_findFirst_def enrollment_findUnique_def)

lemma user_set_error: "user_set k v = Inl e \<Longrightarrow> e = PrismaValidation"
  by (cases v) (auto simp: user_set_def Profession_of_def split: if_splits sum.splits)

lemma user_data_error: "user_data kvs = Inl e \<Longrightarrow> e = PrismaValidation"
proof (induction kvs)
  case Nil
  then show ?case by simp
next
  case (Cons kv kvs)
  obtain k v where kv: "kv = (k, v)" by (cases kv)
  from Cons show ?case
    by (auto simp: kv split: sum.splits dest: user_set_error)
qed

lemma user_update_error:
  "snd (user_update now uid data d) = Inl e \<Longrightarrow> e = PrismaValidation \<or> e = P2025"
  by (auto simp: user_update_def split: sum.splits option.splits if_splits dest: user_data_error)

lemma createEnrollmentWithDetails_duplicate_pending:
  assumes "tid \<noteq> []"
    and "find (\<lambda>t. t_id t = tid \<and> t_is_active t) (training_programs d) = Some t"
    and "find (\<lambda>e. e_user_id e = uid \<and> e_training_id e = tid) (enrollments d) = Some e"
    and "e_status e = pending_payment"
  shows "createEnrollmentWithDetails now n uid (Some (JStr tid)) pd d =
     (fst (user_update now uid (data_field ''full_name'' (pd ''full_name'') @ data_field ''phone'' (pd ''phone'')) d),
      map_sum (\<lambda>x. x) (\<lambda>_. e)
        (snd (user_update now uid (data_field ''full_name'' (pd ''full_name'') @ data_field ''phone'' (pd ''phone'')) d)))"
proof -
  let ?u = "user_update now uid (data_field ''full_name'' (pd ''full_name'') @ data_field ''phone'' (pd ''phone'')) d"
  obtain d' r where u: "?u = (d', r)" by (cases ?u)
  show ?thesis
  proof (cases r)
    case (Inl er)
    with u have "snd ?u = Inl er" by simp
    then have "er \<noteq> P2002" using user_update_error by fastforce
    with assms u Inl show ?thesis
      by (simp add: createEnrollmentWithDetails_def catch_def await_def lift_def throw_def resolve_def
        trainingProgram_findFirst_def enrollment_findUnique_def)
  next
    case (Inr x)
    with assms u show ?thesis
      by (simp add: createEnrollmentWithDetails_def catch_def await_def lift_def throw_def resolve_def
        trainingProgram_findFirst_def enrollment_findUnique_def)
  qed
qed

text \<open>
  C4, as the code has it. No request breaks the unique index on \<open>(user_id, training_id)\<close>:
  if no two enrollments share a pair before a request, none do after it. For a pair that
  already has an enrollment, and an active training, \<open>createEnrollment\<close> throws "Already
  enrolled in this training program" and changes nothing. \<open>createEnrollmentWithDetails\<close>
  does the same when the existing enrollment is no longer \<open>pending_payment\<close>; while it is
  \<open>pending_payment\<close> it creates no enrollment, updates the member's name and phone and
  returns the existing enrollment (it throws only if that update of the profile throws).
\<close>

theorem one_enrollment_per_pair:
  "(unique_enrollments d \<longrightarrow> unique_enrollments (handle ev av now r d))
   \<and> (\<forall>t e. tid \<noteq> []
          \<and> find (\<lambda>t. t_id t = tid \<and> t_is_active t) (training_programs d) = Some t
          \<and> find (\<lambda>e. e_user_id e = uid \<and> e_training_id e = tid) (enrollments d) = Some e \<longrightarrow>
        createEnrollment now n uid (Some (JStr tid)) d = (d, Inl AlreadyEnrolled)
        \<and> (e_status e \<noteq> pending_payment \<longrightarrow>
             createEnrollmentWithDetails now n uid (Some (JStr tid)) pd d = (d, Inl AlreadyEnrolled))
        \<and> (e_status e = pending_payment \<longrightarrow>
             enrollments (fst (createEnrollmentWithDetails now n uid (Some (JStr tid)) pd d)) = enrollments d
             \<and> snd (createEnrollmentWithDetails now n uid (Some (JStr tid)) pd d) =
                 map_sum (\<lambda>x. x) (\<lambda>_. e)
                   (snd (user_update now uid
                           (data_field ''full_name'' (pd ''full_name'') @ data_field ''phone'' (pd ''phone'')) d))))"
proof (intro conjI allI impI)
  assume "unique_enrollments d"
  with unique_handle [of d ev av now r] show "unique_enrollments (handle ev av now r d)"
    by (simp add: keeps_unique_def)
next
  fix t e
  assume h: "tid \<noteq> []
          \<and> find (\<lambda>t. t_id t = tid \<and> t_is_active t) (training_programs d) = Some t
          \<and> find (\<lambda>e. e_user_id e = uid \<and> e_training_id e = tid) (enrollments d) = Some e"
  then have h1: "tid \<noteq> []"
    and h2: "find (\<lambda>t. t_id t = tid \<and> t_is_active t) (training_programs d) = Some t"
    and h3: "find (\<lambda>e. e_user_id e = uid \<and> e_training_id e = tid) (enrollments d) = Some e"
    by simp_all
  show "createEnrollment now n uid (Some (JStr tid)) d = (d, Inl AlreadyEnrolled)"
    by (rule createEnrollment_duplicate [OF h1 h2 h3])
  {
    assume "e_status e \<noteq> pending_payment"
    then show "createEnrollmentWithDetails now n uid (Some (JStr tid)) pd d = (d, Inl AlreadyEnrolled)"
      by (rule createEnrollmentWithDetails_duplicate_settled [OF h1 h2 h3])
  }
  {
    assume p: "e_status e = pending_payment"
    note eq = createEnrollmentWithDetails_duplicate_pending [OF h1 h2 h3 p, of now n pd]
    show "enrollments (fst (createEnrollmentWithDetails now n uid (Some (JStr tid)) pd d)) = enrollments d"
      by (simp only: eq fst_conv enrollments_user_update)
    show "snd (createEnrollmentWithDetails now n uid (Some (JStr tid)) pd d) =
                 map_sum (\<lambda>x. x) (\<lambda>_. e)
                   (snd (user_update now uid
                           (data_field ''full_name'' (pd ''full_name'') @ data_field ''phone'' (pd ''phone'')) d))"
      by (simp only: eq snd_conv)
  }
qed

lemma demo_user_update:
  "user_update 20000 ''u1''
      (data_field ''full_name'' (demo_details ''full_name'') @ data_field ''phone'' (demo_details ''phone'')) d0
   = (case find (\<lambda>u. u_id u = ''u1'') (users d0) of
        None \<Rightarrow> (d0, Inl P2025)
      | Some u \<Rightarrow>
          (d0\<lparr>users := map (\<lambda>x. if u_id x = ''u1''
                                 then x\<lparr>u_updated_at := 20000, u_full_name := ''Asha Rao'',
                                        u_phone := Some ''9876543210''\<rparr>
                                 else x) (users d0)\<rparr>,
           Inr (u\<lparr>u_updated_at := 20000, u_full_name := ''Asha Rao'', u_phone := Some ''9876543210''\<rparr>)))"
  by (simp add: demo_details_def data_field_def user_update_def user_set_def split: option.splits)

theorem one_enrollment_per_pair_witness:
  "unique_enrollments demo_db
   \<and> unique_enrollments (handle demo_env demo_auth_env 20000
        (CreateEnrollmentWithDetails ''e2'' ''u1'' (Some (JStr ''t1'')) demo_details) demo_db)
   \<and> find (\<lambda>t. t_id t = ''t1'' \<and> t_is_active t) (training_programs demo_db) = Some demo_training
   \<and> find (\<lambda>e. e_user_id e = ''u1'' \<and> e_training_id e = ''t1'') (enrollments demo_db) = Some demo_enrollment
   \<and> e_status demo_enrollment = pending_payment
   \<and> createEnrollment 20000 ''e2'' ''u1'' (Some (JStr ''t1'')) demo_db = (demo_db, Inl AlreadyEnrolled)
   \<and> enrollments (fst (createEnrollmentWithDetails 20000 ''e2'' ''u1'' (Some (JStr ''t1'')) demo_details demo_db))
       = [demo_enrollment]
   \<and> snd (createEnrollmentWithDetails 20000 ''e2'' ''u1'' (Some (JStr ''t1'')) demo_details demo_db)
       = Inr demo_enrollment
   \<and> find (\<lambda>e. e_user_id e = ''u1'' \<and> e_training_id e = ''t1'') (enrollments demo_completed_db)
       = Some (demo_enrollment\<lparr>e_status := completed\<rparr>)
   \<and> createEnrollmentWithDetails 20000 ''e2'' ''u1'' (Some (JStr ''t1'')) demo_details demo_completed_db
       = (demo_completed_db, Inl AlreadyEnrolled)"
proof -
  have u: "unique_enrollments demo_db" by (simp add: unique_enrollments_def demo_db_def)
  have t: "find (\<lambda>t. t_id t = ''t1'' \<and> t_is_active t) (training_programs demo_db) = Some demo_training"
    by (simp add: demo_db_def demo_training_def)
  have e: "find (\<lambda>e. e_user_id e = ''u1'' \<and> e_training_id e = ''t1'') (enrollments demo_db) = Some demo_enrollment"
    by (simp add: demo_db_def demo_enrollment_def)
  have st: "e_status demo_enrollment = pending_payment" by (simp add: demo_enrollment_def)
  have tc: "find (\<lambda>t. t_id t = ''t1'' \<and> t_is_active t) (training_programs demo_completed_db) = Some demo_training"
    by (simp add: demo_completed_db_def demo_db_def demo_training_def)
  have ec: "find (\<lambda>e. e_user_id e = ''u1'' \<and> e_training_id e = ''t1'') (enrollments demo_completed_db)
       = Some (demo_enrollment\<lparr>e_status := completed\<rparr>)"
    by (simp add: demo_completed_db_def demo_db_def demo_enrollment_def)
  have stc: "e_status (demo_enrollment\<lparr>e_status := completed\<rparr>) \<noteq> pending_payment" by simp
  have ne: "''t1'' \<noteq> ([] :: string)" by simp
  have en: "enrollments demo_db = [demo_enrollment]" by (simp add: demo_db_def)
  have up: "snd (user_update 20000 ''u1''
      (data_field ''full_name'' (demo_details ''full_name'') @ data_field ''phone'' (demo_details ''phone'')) demo_db)
      = Inr (demo_user\<lparr>u_updated_at := 20000, u_full_name := ''Asha Rao'', u_phone := Some ''9876543210''\<rparr>)"
    by (simp add: demo_user_update) (simp add: demo_db_def demo_user_def)
  note a = one_enrollment_per_pair
    [of demo_db demo_env demo_auth_env 20000
        "CreateEnrollmentWithDetails ''e2'' ''u1'' (Some (JStr ''t1'')) demo_details"
        "''t1''" "''u1''" "''e2''" demo_details]
  note b = one_enrollment_per_pair
    [of demo_completed_db demo_env demo_auth_env 20000
        "CreateEnrollmentWithDetails ''e2'' ''u1'' (Some (JStr ''t1'')) demo_details"
        "''t1''" "''u1''" "''e2''" demo_details]
  from a u have A1: "unique_enrollments (handle demo_env demo_auth_env 20000
        (CreateEnrollmentWithDetails ''e2'' ''u1'' (Some (JStr ''t1'')) demo_details) demo_db)"
    by blast
  from a ne t e have A2: "createEnrollment 20000 ''e2'' ''u1'' (Some (JStr ''t1'')) demo_db = (demo_db, Inl AlreadyEnrolled)"
    by blast
  from a ne t e st have A3:
    "enrollments (fst (createEnrollmentWithDetails 20000 ''e2'' ''u1'' (Some (JStr ''t1'')) demo_details demo_db))
       = enrollments demo_db"
    by blast
  from a ne t e st have A4:
    "snd (createEnrollmentWithDetails 20000 ''e2'' ''u1'' (Some (JStr ''t1'')) demo_details demo_db) =
       map_sum (\<lambda>x. x) (\<lambda>_. demo_enrollment)
         (snd (user_update 20000 ''u1''
            (data_field ''full_name'' (demo_details ''full_name'') @ data_field ''phone'' (demo_details ''phone''))
            demo_db))"
    by blast
  from b ne tc ec stc have B1:
    "createEnrollmentWithDetails 20000 ''e2'' ''u1'' (Some (JStr ''t1'')) demo_details demo_completed_db
       = (demo_completed_db, Inl AlreadyEnrolled)"
    by blast
  have A4': "snd (createEnrollmentWithDetails 20000 ''e2'' ''u1'' (Some (JStr ''t1'')) demo_details demo_db)
       = Inr demo_enrollment"
    by (simp only: A4 up map_sum.simps)
  from u A1 t e st A2 A3 [unfolded en] A4' ec B1 show ?thesis by (intro conjI)
qed

theorem createEnrollmentWithDetails_retry_counterexample:
  "enrollments demo_db = [demo_enrollment]
   \<and> result_of (createEnrollmentWithDetails 20000 ''e2'' ''u1'' (Some (JStr ''t1'')) demo_details demo_db)
       = Some demo_enrollment"
  by (simp add: result_of_def createEnrollmentWithDetails_def catch_def await_def lift_def throw_def
      resolve_def trainingProgram_findFirst_def enrollment_findUnique_def demo_user_update
      demo_db_def demo_training_def demo_enrollment_def demo_user_def)

section \<open>Role and administrator flag\<close>

lemma user_set_allowed:
  "user_set ''full_name'' v =
     (case required_text (Some v) of Inl e \<Rightarrow> Inl e | Inr s \<Rightarrow> Inr (\<lambda>u. u\<lparr>u_full_name := s\<rparr>))"
  "user_set ''phone'' v =
     (case nullable_text v of Inl e \<Rightarrow> Inl e | Inr s \<Rightarrow> Inr (\<lambda>u. u\<lparr>u_phone := s\<rparr>))"
  "user_set ''profession'' v =
     (case Profession_of v of Inl e \<Rightarrow> Inl e | Inr s \<Rightarrow> Inr (\<lambda>u. u\<lparr>u_profession := s\<rparr>))"
  "user_set ''college'' v =
     (case nullable_text v of Inl e \<Rightarrow> Inl e | Inr s \<Rightarrow> Inr (\<lambda>u. u\<lparr>u_college := s\<rparr>))"
  "user_set ''company'' v =
     (case nullable_text v of Inl e \<Rightarrow> Inl e | Inr s \<Rightarrow> Inr (\<lambda>u. u\<lparr>u_company := s\<rparr>))"
  by (simp_all add: user_set_def)

lemma allowedFields_cases:
  assumes "k \<in> set allowedFields"
  shows "k = ''full_name'' \<or> k = ''phone'' \<or> k = ''profession'' \<or> k = ''college'' \<or> k = ''company''"
  using assms by (simp add: allowedFields_def)

lemma user_set_protected:
  assumes "k \<in> set allowedFields" and "user_set k v = Inr f"
  shows "protected (u_id u) u (f u)"
proof -
  from allowedFields_cases [OF assms(1)]
  consider "k = ''full_name''" | "k = ''phone''" | "k = ''profession''"
    | "k = ''college''" | "k = ''company''"
    by (elim disjE)
  then show ?thesis
  proof cases
    case 1
    with assms(2) have "user_set ''full_name'' v = Inr f" by (simp only:)
    then have "(case required_text (Some v) of Inl e \<Rightarrow> Inl e | Inr s \<Rightarrow> Inr (\<lambda>u. u\<lparr>u_full_name := s\<rparr>)) = Inr f"
      by (simp only: user_set_allowed)
    then obtain s where "f = (\<lambda>u. u\<lparr>u_full_name := s\<rparr>)"
      by (cases "required_text (Some v)") (simp_all, blast)
    then show ?thesis by (simp add: protected_def)
  next
    case 2
    with assms(2) have "user_set ''phone'' v = Inr f" by (simp only:)
    then have "(case nullable_text v of Inl e \<Rightarrow> Inl e | Inr s \<Rightarrow> Inr (\<lambda>u. u\<lparr>u_phone := s\<rparr>)) = Inr f"
      by (simp only: user_set_allowed)
    then obtain s where "f = (\<lambda>u. u\<lparr>u_phone := s\<rparr>)"
      by (cases "nullable_text v") (simp_all, blast)
    then show ?thesis by (simp add: protected_def)
  next
    case 3
    with assms(2) have "user_set ''profession'' v = Inr f" by (simp only:)
    then have "(case Profession_of v of Inl e \<Rightarrow> Inl e | Inr s \<Rightarrow> Inr (\<lambda>u. u\<lparr>u_profession := s\<rparr>)) = Inr f"
      by (simp only: user_set_allowed)
    then obtain s where "f = (\<lambda>u. u\<lparr>u_profession := s\<rparr>)"
      by (cases "Profession_of v") (simp_all, blast)
    then show ?thesis by (simp add: protected_def)
  next
    case 4
    with assms(2) have "user_set ''college'' v = Inr f" by (simp only:)
    then have "(case nullable_text v of Inl e \<Rightarrow> Inl e | Inr s \<Rightarrow> Inr (\<lambda>u. u\<lparr>u_college := s\<rparr>)) = Inr f"
      by (simp only: user_set_allowed)
    then obtain s where "f = (\<lambda>u. u\<lparr>u_college := s\<rparr>)"
      by (cases "nullable_text v") (simp_all, blast)
    then show ?thesis by (simp add: protected_def)
  next
    case 5
    with assms(2) have "user_set ''company'' v = Inr f" by (simp only:)
    then have "(case nullable_text v of Inl e \<Rightarrow> Inl e | Inr s \<Rightarrow> Inr (\<lambda>u. u\<lparr>u_company := s\<rparr>)) = Inr f"
      by (simp only: user_set_allowed)
    then obtain s where "f = (\<lambda>u. u\<lparr>u_company := s\<rparr>)"
      by (cases "nullable_text v") (simp_all, blast)
    then show ?thesis by (simp add: protected_def)
  qed
qed

lemma protected_trans: "protected uid a b \<Longrightarrow> protected uid b c \<Longrightarrow> protected uid a c"
  by (simp add: protected_def)

lemma protected_refl: "protected uid a a"
  by (simp add: protected_def)

lemma user_data_protected:
  "fst ` set kvs \<subseteq> set allowedFields \<Longrightarrow> user_data kvs = Inr f \<Longrightarrow> protected (u_id u) u (f u)"
proof (induction kvs arbitrary: f u)
  case Nil
  then have "f = (\<lambda>u. u)" by simp
  then show ?case by (simp add: protected_refl)
next
  case (Cons kv kvs)
  obtain k v where kv: "kv = (k, v)" by (cases kv)
  from Cons.prems(1) kv have k: "k \<in> set allowedFields" and rest: "fst ` set kvs \<subseteq> set allowedFields"
    by simp_all
  from Cons.prems(2) kv obtain g h where g: "user_set k v = Inr g" and h: "user_data kvs = Inr h"
    and f: "f = (\<lambda>u. h (g u))"
    by (auto split: sum.splits)
  have 1: "protected (u_id u) u (g u)" by (rule user_set_protected [OF k g])
  then have id: "u_id (g u) = u_id u" by (simp add: protected_def)
  have "protected (u_id (g u)) (g u) (h (g u))" by (rule Cons.IH [OF rest h])
  with id have 2: "protected (u_id u) (g u) (h (g u))" by simp
  from protected_trans [OF 1 2] f show ?case by simp
qed

lemma protected_stamp:
  "u_id x = uid \<Longrightarrow> protected (u_id x) (x\<lparr>u_updated_at := now\<rparr>) y \<Longrightarrow> protected uid x y"
  by (simp add: protected_def)

lemma user_update_protected:
  assumes "fst ` set data \<subseteq> set allowedFields"
  shows "accounts_protected uid d (fst (user_update now uid data d))"
proof (cases "user_data data")
  case (Inl e)
  then show ?thesis
    by (simp add: user_update_def accounts_protected_def list_all2_same protected_refl)
next
  case (Inr f)
  show ?thesis
  proof (cases "find (\<lambda>u. u_id u = uid) (users d)")
    case None
    with Inr show ?thesis
      by (simp add: user_update_def accounts_protected_def list_all2_same protected_refl)
  next
    case (Some u)
    show ?thesis
    proof (cases "data = []")
      case True
      with Inr Some show ?thesis
        by (simp add: user_update_def accounts_protected_def list_all2_same protected_refl)
    next
      case nonempty: False
    have each: "protected uid x (if u_id x = uid then f (x\<lparr>u_updated_at := now\<rparr>) else x)" for x
    proof (cases "u_id x = uid")
      case True
      have "protected (u_id (x\<lparr>u_updated_at := now\<rparr>)) (x\<lparr>u_updated_at := now\<rparr>) (f (x\<lparr>u_updated_at := now\<rparr>))"
        by (rule user_data_protected [OF assms Inr])
      then have "protected (u_id x) (x\<lparr>u_updated_at := now\<rparr>) (f (x\<lparr>u_updated_at := now\<rparr>))" by simp
      then have "protected uid x (f (x\<lparr>u_updated_at := now\<rparr>))" by (rule protected_stamp [OF True])
      with True show ?thesis by simp
    next
      case False
      then show ?thesis by (simp add: protected_refl)
    qed
    have "users (fst (user_update now uid data d))
          = map (\<lambda>x. if u_id x = uid then f (x\<lparr>u_updated_at := now\<rparr>) else x) (users d)"
      using Inr Some nonempty by (simp add: user_update_def)
    then show ?thesis
      by (simp only: accounts_protected_def list_all2_map2 list_all2_same) (simp add: each)
    qed
  qed
qed

lemma updateFields_allowed:
  "fst ` set (data_field ''full_name'' a @ data_field ''phone'' b @ data_field ''profession'' c
              @ data_field ''college'' e @ data_field ''company'' g) \<subseteq> set allowedFields"
  by (auto simp: data_field_def allowedFields_def split: option.splits)

lemma updateUserProfile_protected:
  "accounts_protected uid d (fst (updateUserProfile now uid updateData d))"
proof (cases "truthy (updateData ''profession'')
              \<and> \<not> array_includes [''student'', ''professional''] (updateData ''profession'')")
  case True
  then show ?thesis
    by (simp add: updateUserProfile_def Let_def throw_def accounts_protected_def list_all2_same protected_refl)
next
  case False
  then have "updateUserProfile now uid updateData d =
     user_update now uid
       (data_field ''full_name'' (updateData ''full_name'')
        @ data_field ''phone'' (if updateData ''phone'' = None then None
             else Some (if truthy (updateData ''phone'') then JStr (toString (the (updateData ''phone''))) else JNull))
        @ data_field ''profession'' (updateData ''profession'')
        @ data_field ''college'' (updateData ''college'')
        @ data_field ''company'' (updateData ''company'')) d"
    by (simp only: updateUserProfile_def Let_def if_not_P [OF False] if_False)
  then show ?thesis
    by (simp only: user_update_protected [OF updateFields_allowed])
qed

lemma protected_roles:
  assumes "accounts_protected uid d d'"
  shows "map u_role (users d') = map u_role (users d) \<and> map u_is_admin (users d') = map u_is_admin (users d)"
proof -
  have "list_all2 (protected uid) xs ys \<Longrightarrow>
        map u_role ys = map u_role xs \<and> map u_is_admin ys = map u_is_admin xs" for xs ys
    by (induction rule: list_all2_induct) (simp_all add: protected_def)
  with assms show ?thesis by (simp add: accounts_protected_def)
qed

text \<open>
  C2. Whatever the body of a self-service profile update contains, the role and the
  administrator flag of every account are afterwards what they were. This holds for the
  controller, which hands only the allowed fields on, and for the service called with any
  data. Of the caller's row only \<open>full_name\<close>, \<open>phone\<close>, \<open>profession\<close>, \<open>college\<close>,
  \<open>company\<close> and the \<open>updated_at\<close> stamp can differ; every other row is unchanged.
\<close>

theorem profile_update_keeps_role:
  "map u_role (users (fst (updateProfile now userId req_body d))) = map u_role (users d)
   \<and> map u_is_admin (users (fst (updateProfile now userId req_body d))) = map u_is_admin (users d)
   \<and> accounts_protected userId d (fst (updateProfile now userId req_body d))
   \<and> map u_role (users (fst (updateUserProfile now userId updateData d))) = map u_role (users d)
   \<and> map u_is_admin (users (fst (updateUserProfile now userId updateData d))) = map u_is_admin (users d)
   \<and> accounts_protected userId d (fst (updateUserProfile now userId updateData d))"
proof -
  have c: "accounts_protected userId d (fst (updateProfile now userId req_body d))"
    by (simp only: updateProfile_def updateUserProfile_protected)
  have s: "accounts_protected userId d (fst (updateUserProfile now userId updateData d))"
    by (rule updateUserProfile_protected)
  from protected_roles [OF c] protected_roles [OF s] c s show ?thesis by (intro conjI) simp_all
qed

theorem profile_update_keeps_role_witness:
  "demo_profile_body ''role'' = Some (JStr ''admin'')
   \<and> map u_role (users demo_db) = [Role_user]
   \<and> map u_role (users (fst (updateProfile 20000 ''u1'' demo_profile_body demo_db))) = [Role_user]
   \<and> map u_is_admin (users (fst (updateProfile 20000 ''u1'' demo_profile_body demo_db))) = [False]
   \<and> map u_role (users (fst (updateUserProfile 20000 ''u1'' demo_profile_body demo_db))) = [Role_user]
   \<and> map u_is_admin (users (fst (updateUserProfile 20000 ''u1'' demo_profile_body demo_db))) = [False]
   \<and> users (fst (updateProfile 20000 ''u1'' demo_profile_body demo_db))
       = [demo_user\<lparr>u_updated_at := 20000, u_full_name := ''Asha R''\<rparr>]"
proof -
  have b: "demo_profile_body ''role'' = Some (JStr ''admin'')" by (simp add: demo_profile_body_def)
  have r: "map u_role (users demo_db) = [Role_user]" and a: "map u_is_admin (users demo_db) = [False]"
    by (simp_all add: demo_db_def demo_user_def)
  have e: "users (fst (updateProfile 20000 ''u1'' demo_profile_body demo_db))
       = [demo_user\<lparr>u_updated_at := 20000, u_full_name := ''Asha R''\<rparr>]"
    by (simp add: updateProfile_def updateUserProfile_def Let_def restrict_map_def allowedFields_def
        demo_profile_body_def data_field_def user_update_def user_set_def demo_db_def demo_user_def)
  from profile_update_keeps_role [of 20000 "''u1''" demo_profile_body demo_db demo_profile_body] b r a e
  show ?thesis by (simp only: r a)
qed

lemma reflp_members_added: "reflp members_added"
  by (rule reflpI) (simp add: members_added_def)

lemma transp_members_added: "transp members_added"
proof (rule transpI)
  fix a b c :: db
  assume "members_added a b" and "members_added b c"
  then obtain n1 n2 where 1: "users b = users a @ n1"
      and m1: "list_all (\<lambda>u. u_role u = Role_user \<and> u_is_admin u = False) n1"
      and 2: "users c = users b @ n2"
      and m2: "list_all (\<lambda>u. u_role u = Role_user \<and> u_is_admin u = False) n2"
    by (auto simp: members_added_def)
  from 1 2 have "users c = users a @ (n1 @ n2)" by simp
  moreover from m1 m2 have "list_all (\<lambda>u. u_role u = Role_user \<and> u_is_admin u = False) (n1 @ n2)"
    by simp
  ultimately show "members_added a c" unfolding members_added_def by blast
qed

lemma members_user_create:
  assumes "u_role data = Role_user" and "u_is_admin data = False"
  shows "preserves members_added (user_create now n data)"
  unfolding preserves_def
proof
  fix d :: db
  show "members_added d (fst (user_create now n data d))"
  proof (cases "n \<in> u_id ` set (users d) \<or> u_email data \<in> u_email ` set (users d)")
    case True
    then show ?thesis by (simp add: user_create_def members_added_def)
  next
    case False
    then have "users (fst (user_create now n data d))
        = users d @ [data\<lparr>u_id := n, u_created_at := now, u_updated_at := now\<rparr>]"
      by (simp add: user_create_def Let_def)
    moreover have "list_all (\<lambda>u. u_role u = Role_user \<and> u_is_admin u = False)
        [data\<lparr>u_id := n, u_created_at := now, u_updated_at := now\<rparr>]"
      using assms by simp
    ultimately show ?thesis unfolding members_added_def by blast
  qed
qed

lemmas members_rules =
  preserves_await [OF transp_members_added] preserves_catch [OF transp_members_added]
  preserves_resolve [OF reflp_members_added] preserves_throw [OF reflp_members_added]
  preserves_lift [OF reflp_members_added]
  preserves_read [OF reflp_members_added fst_user_findUnique_email]
  preserves_read [OF reflp_members_added fst_generateToken]
  preserves_if preserves_case_option preserves_let

lemma members_userSignup: "preserves members_added (userSignup av now n b)"
  unfolding userSignup_def
  by (intro members_rules members_user_create) simp_all

lemma userSignup_result:
  assumes "userSignup av now n b d = (d', Inr (user, token))"
  shows "u_role user = Role_user \<and> u_is_admin user = False \<and> users d' = users d @ [user]"
  using assms
  unfolding userSignup_def Let_def catch_def await_def lift_def throw_def resolve_def
    user_findUnique_email_def user_create_def generateToken_def
  by (simp split: if_splits option.splits sum.splits json.splits prod.splits) auto

lemma userSignup_returned:
  assumes "snd (userSignup av now n b d) = Inr (user, token)"
  shows "u_role user = Role_user \<and> u_is_admin user = False
         \<and> users (fst (userSignup av now n b d)) = users d @ [user]"
proof -
  from assms have "userSignup av now n b d = (fst (userSignup av now n b d), Inr (user, token))"
    by (simp add: prod_eq_iff)
  then show ?thesis by (rule userSignup_result)
qed

text \<open>
  C3. Whatever a signup request carries, a \<open>role\<close> or an \<open>is_admin\<close> field included, all
  that the signup leaves in the users table is the old rows followed by new rows whose
  role is \<open>user\<close> (the spec's member) and whose administrator flag is false; when the
  signup succeeds there is one new row, the account it returns, with that role and flag.
  The same holds for the service called with any data.
\<close>

theorem signup_creates_member:
  "members_added d (fst (signup av now new_id req_body d))
   \<and> members_added d (fst (userSignup av now new_id userData d))
   \<and> (\<forall>user token. snd (signup av now new_id req_body d) = Inr (user, token) \<longrightarrow>
         u_role user = Role_user \<and> u_is_admin user = False
         \<and> users (fst (signup av now new_id req_body d)) = users d @ [user])"
proof (intro conjI allI impI)
  show "members_added d (fst (signup av now new_id req_body d))"
    using members_userSignup [of av now new_id] by (simp add: preserves_def signup_def)
  show "members_added d (fst (userSignup av now new_id userData d))"
    using members_userSignup [of av now new_id] by (simp add: preserves_def)
next
  fix user token
  assume "snd (signup av now new_id req_body d) = Inr (user, token)"
  then have r: "snd (userSignup av now new_id (req_body |` set signupFields) d) = Inr (user, token)"
    by (simp only: signup_def)
  note userSignup_returned [OF r]
  then show "u_role user = Role_user" and "u_is_admin user = False"
    and "users (fst (signup av now new_id req_body d)) = users d @ [user]"
    by (simp_all only: signup_def)
qed

lemma email_ok: "emailRegex_test ''m@example.org''"
  by (simp add: emailRegex_test_def is_space_def Let_def)

theorem signup_creates_member_witness:
  "demo_signup_body ''role'' = Some (JStr ''admin'')
   \<and> demo_signup_body ''is_admin'' = Some (JBool True)
   \<and> members_added demo_db (fst (signup demo_auth_env 20000 ''u2'' demo_signup_body demo_db))
   \<and> result_of (signup demo_auth_env 20000 ''u2'' demo_signup_body demo_db)
       = Some (\<lparr>u_id = ''u2'', u_full_name = ''Mallory'', u_email = ''m@example.org'',
                u_password = ''bcrypt:Secret123'', u_phone = None, u_profession = None, u_college = None,
                u_company = None, u_role = Role_user, u_is_admin = False,
                u_created_at = 20000, u_updated_at = 20000\<rparr>, ''jwt:u2'')
   \<and> map u_id (users (fst (signup demo_auth_env 20000 ''u2'' demo_signup_body demo_db))) = [''u1'', ''u2'']
   \<and> map u_role (users (fst (signup demo_auth_env 20000 ''u2'' demo_signup_body demo_db)))
       = [Role_user, Role_user]
   \<and> map u_is_admin (users (fst (signup demo_auth_env 20000 ''u2'' demo_signup_body demo_db)))
       = [False, False]"
proof -
  have b: "demo_signup_body ''role'' = Some (JStr ''admin'')"
    and c: "demo_signup_body ''is_admin'' = Some (JBool True)"
    by (simp_all add: demo_signup_body_def)
  have m: "members_added demo_db (fst (signup demo_auth_env 20000 ''u2'' demo_signup_body demo_db))"
    using signup_creates_member [of demo_db demo_auth_env 20000 "''u2''" demo_signup_body demo_signup_body]
    by simp
  have e: "users (fst (signup demo_auth_env 20000 ''u2'' demo_signup_body demo_db))
     = [demo_user,
        \<lparr>u_id = ''u2'', u_full_name = ''Mallory'', u_email = ''m@example.org'',
         u_password = ''bcrypt:Secret123'', u_phone = None, u_profession = None, u_college = None,
         u_company = None, u_role = Role_user, u_is_admin = False,
         u_created_at = 20000, u_updated_at = 20000\<rparr>]"
    by (simp add: signup_def userSignup_def Let_def restrict_map_def signupFields_def
        demo_signup_body_def email_ok catch_def await_def lift_def throw_def resolve_def
        user_findUnique_email_def user_create_def generateToken_def Profession_of_def
        demo_auth_env_def demo_db_def demo_user_def)
  have res: "result_of (signup demo_auth_env 20000 ''u2'' demo_signup_body demo_db)
       = Some (\<lparr>u_id = ''u2'', u_full_name = ''Mallory'', u_email = ''m@example.org'',
                u_password = ''bcrypt:Secret123'', u_phone = None, u_profession = None, u_college = None,
                u_company = None, u_role = Role_user, u_is_admin = False,
                u_created_at = 20000, u_updated_at = 20000\<rparr>, ''jwt:u2'')"
    by (simp add: result_of_def signup_def userSignup_def Let_def restrict_map_def signupFields_def
        demo_signup_body_def email_ok catch_def await_def lift_def throw_def resolve_def
        user_findUnique_email_def user_create_def generateToken_def Profession_of_def
        demo_auth_env_def demo_db_def demo_user_def)
  from b c m res show ?thesis by (simp add: e demo_user_def)
qed

section \<open>Asking twice for a payment session\<close>

lemma digit_char_inject: "a < 10 \<Longrightarrow> b < 10 \<Longrightarrow> digit_char a = digit_char b \<Longrightarrow> a = b"
  by (simp add: digit_char_def char_of_eq_iff take_bit_nat_eq_self)

lemma of_char_digit_char: "k < 10 \<Longrightarrow> (of_char (digit_char k) :: nat) = 48 + k"
  by (simp add: digit_char_def)

lemma digit_char_not_minus: "k < 10 \<Longrightarrow> digit_char k \<noteq> CHR ''-''"
proof
  assume k: "k < 10" and "digit_char k = CHR ''-''"
  then have "(of_char (digit_char k) :: nat) = of_char CHR ''-''" by simp
  with k show False by (simp only: of_char_digit_char) simp
qed

lemma string_of_nat_nonempty: "string_of_nat n \<noteq> []"
  by (subst string_of_nat.simps) simp

lemma string_of_nat_inject: "string_of_nat n = string_of_nat m \<Longrightarrow> n = m"
proof (induction n arbitrary: m rule: string_of_nat.induct)
  case (1 n)
  show ?case
  proof (cases "n < 10")
    case small: True
    then have n: "string_of_nat n = [digit_char n]" by (subst string_of_nat.simps) simp
    show ?thesis
    proof (cases "m < 10")
      case True
      then have "string_of_nat m = [digit_char m]" by (subst string_of_nat.simps) simp
      with n 1(2) have "digit_char n = digit_char m" by simp
      with small True show ?thesis by (rule digit_char_inject)
    next
      case False
      then have "string_of_nat m = string_of_nat (m div 10) @ [digit_char (m mod 10)]"
        by (subst string_of_nat.simps) simp
      with n 1(2) have "string_of_nat (m div 10) = []" by simp
      with string_of_nat_nonempty show ?thesis by blast
    qed
  next
    case big: False
    then have n: "string_of_nat n = string_of_nat (n div 10) @ [digit_char (n mod 10)]"
      by (subst string_of_nat.simps) simp
    show ?thesis
    proof (cases "m < 10")
      case True
      then have "string_of_nat m = [digit_char m]" by (subst string_of_nat.simps) simp
      with n 1(2) have "string_of_nat (n div 10) = []" by simp
      with string_of_nat_nonempty show ?thesis by blast
    next
      case False
      then have "string_of_nat m = string_of_nat (m div 10) @ [digit_char (m mod 10)]"
        by (subst string_of_nat.simps) simp
      with n 1(2) have a: "string_of_nat (n div 10) = string_of_nat (m div 10)"
        and b: "digit_char (n mod 10) = digit_char (m mod 10)" by simp_all
      from 1(1) [OF big a] have q: "n div 10 = m div 10" .
      have "n mod 10 < 10" "m mod 10 < 10" by simp_all
      then have r: "n mod 10 = m mod 10" using b by (rule digit_char_inject)
      from q r show ?thesis by (metis div_mult_mod_eq)
    qed
  qed
qed

lemma string_of_nat_hd: "hd (string_of_nat n) \<noteq> CHR ''-''"
proof (induction n rule: string_of_nat.induct)
  case (1 n)
  show ?case
  proof (cases "n < 10")
    case True
    then have "string_of_nat n = [digit_char n]" by (subst string_of_nat.simps) simp
    with True show ?thesis by (simp add: digit_char_not_minus)
  next
    case False
    then have "string_of_nat n = string_of_nat (n div 10) @ [digit_char (n mod 10)]"
      by (subst string_of_nat.simps) simp
    with 1 [OF False] show ?thesis by (simp add: string_of_nat_nonempty)
  qed
qed

lemma string_of_int_inject: "string_of_int a = string_of_int b \<Longrightarrow> a = b"
proof -
  assume eq: "string_of_int a = string_of_int b"
  have neg: "False" if "x < 0" "\<not> y < 0" "string_of_int x = string_of_int y" for x y
  proof -
    from that have "CHR ''-'' # string_of_nat (nat (- x)) = string_of_nat (nat y)"
      by (simp add: string_of_int_def)
    then have "hd (string_of_nat (nat y)) = CHR ''-''" by (metis list.sel(1))
    with string_of_nat_hd show False by blast
  qed
  show ?thesis
  proof (cases "a < 0")
    case an: True
    show ?thesis
    proof (cases "b < 0")
      case True
      with an eq have "string_of_nat (nat (- a)) = string_of_nat (nat (- b))"
        by (simp add: string_of_int_def)
      then have "nat (- a) = nat (- b)" by (rule string_of_nat_inject)
      with an True show ?thesis by simp
    next
      case False
      with an eq neg show ?thesis by blast
    qed
  next
    case ap: False
    show ?thesis
    proof (cases "b < 0")
      case True
      with ap eq neg [of b a] show ?thesis by simp
    next
      case False
      with ap eq have "string_of_nat (nat a) = string_of_nat (nat b)"
        by (simp add: string_of_int_def)
      then have "nat a = nat b" by (rule string_of_nat_inject)
      with ap False show ?thesis by simp
    qed
  qed
qed

lemma txn_reference_inject: "txn_reference a eid = txn_reference b eid \<longleftrightarrow> a = b"
proof
  assume "txn_reference a eid = txn_reference b eid"
  then have "string_of_int a @ (''-'' @ slice_last6 eid) = string_of_int b @ (''-'' @ slice_last6 eid)"
    by (simp add: txn_reference_def)
  then have "string_of_int a = string_of_int b" by (simp only: append_same_eq)
  then show "a = b" by (rule string_of_int_inject)
next
  assume "a = b" then show "txn_reference a eid = txn_reference b eid" by simp
qed


lemma initiatePayment_create:
  assumes e: "find (\<lambda>e. e_id e = eid \<and> e_user_id e = uid) (enrollments d) = Some e"
    and st: "e_status e = pending_payment"
    and t: "find (\<lambda>t. t_id t = e_training_id e) (training_programs d) = Some t"
    and p: "find (\<lambda>p. p_user_id p = uid \<and> p_training_id p = e_training_id e
                       \<and> p_status p = pending_verification) (payments d) = None"
    and fresh: "n \<notin> p_id ` set (payments d)"
    and user: "uid \<in> u_id ` set (users d)"
    and qr: "QRCode_toDataURL ev (ps_upi_link (session_for ev now eid t x [])) = Some q"
  shows "initiatePaymentForEnrollment ev now n uid eid d =
     (d\<lparr>payments := payments d @ [upi_payment now n uid (e_training_id e) (t_price t)]\<rparr>,
      Inr ((session_for ev now eid t x q)
             \<lparr>ps_payment_id := n, ps_expires_at := now + 5 * 60 * 1000, ps_timer_duration := 300\<rparr>))"
proof -
  note qr' = qr [unfolded session_for_def, simplified]
  from t have tin: "e_training_id e \<in> t_id ` set (training_programs d)"
    by (auto simp: find_Some_iff) (metis imageI nth_mem)
  show ?thesis
    by (simp add: initiatePaymentForEnrollment_def await_def enrollment_findFirst_def
        trainingProgram_findFirst_def payment_findFirst_def e st t p qr' generateQRCode_def
        resolve_def session_for_def Let_def payment_create_def fresh user tin upi_payment_def)
qed

lemma find_by_id:
  "find c xs = Some p \<Longrightarrow> \<exists>q. find (\<lambda>x. p_id x = p_id p) xs = Some q"
  by (induction xs) (auto split: if_splits)

lemma payment_update_expire:
  assumes "find (\<lambda>x. p_id x = pid) (payments d) = Some q"
  shows "payment_update now pid (\<lambda>q. q\<lparr>p_status := failed\<rparr>) d =
           (expire now pid d, Inr (q\<lparr>p_updated_at := now, p_status := failed\<rparr>))"
  using assms by (simp add: payment_update_def expire_def)

lemma expire_ids: "p_id ` set (payments (expire now pid d)) = p_id ` set (payments d)"
proof -
  have "map p_id (payments (expire now pid d)) = map p_id (payments d)"
    by (simp add: expire_def if_distrib [of p_id])
  then have "set (map p_id (payments (expire now pid d))) = set (map p_id (payments d))" by simp
  then show ?thesis by (simp only: set_map)
qed

lemma expire_others:
  "users (expire now pid d) = users d"
  "training_programs (expire now pid d) = training_programs d"
  "enrollments (expire now pid d) = enrollments d"
  by (simp_all add: expire_def)

lemma initiatePayment_expire_create:
  assumes e: "find (\<lambda>e. e_id e = eid \<and> e_user_id e = uid) (enrollments d) = Some e"
    and st: "e_status e = pending_payment"
    and t: "find (\<lambda>t. t_id t = e_training_id e) (training_programs d) = Some t"
    and p: "find (\<lambda>p. p_user_id p = uid \<and> p_training_id p = e_training_id e
                       \<and> p_status p = pending_verification) (payments d) = Some p"
    and stale: "FIVE_MINUTES \<le> now - p_created_at p"
    and fresh: "n \<notin> p_id ` set (payments d)"
    and user: "uid \<in> u_id ` set (users d)"
    and qr: "QRCode_toDataURL ev (ps_upi_link (session_for ev now eid t x [])) = Some q"
  shows "initiatePaymentForEnrollment ev now n uid eid d =
     ((expire now (p_id p) d)
        \<lparr>payments := payments (expire now (p_id p) d) @ [upi_payment now n uid (e_training_id e) (t_price t)]\<rparr>,
      Inr ((session_for ev now eid t x q)
             \<lparr>ps_payment_id := n, ps_expires_at := now + 5 * 60 * 1000, ps_timer_duration := 300\<rparr>))"
proof -
  note qr' = qr [unfolded session_for_def, simplified]
  from t have tin: "e_training_id e \<in> t_id ` set (training_programs d)"
    by (auto simp: find_Some_iff) (metis imageI nth_mem)
  from find_by_id [OF p] obtain p' where p': "find (\<lambda>x. p_id x = p_id p) (payments d) = Some p'" ..
  note up = payment_update_expire [OF p', of now]
  have cr: "payment_create now n uid (e_training_id e) (Some (or_zero (t_price t))) ''UPI'' None
              (expire now (p_id p) d) =
            ((expire now (p_id p) d)
               \<lparr>payments := payments (expire now (p_id p) d) @ [upi_payment now n uid (e_training_id e) (t_price t)]\<rparr>,
             Inr (upi_payment now n uid (e_training_id e) (t_price t)))"
    by (simp add: payment_create_def Let_def expire_ids expire_others fresh user tin upi_payment_def)
  have id: "p_id (upi_payment now n uid (e_training_id e) (t_price t)) = n" by (simp add: upi_payment_def)
  show ?thesis
    by (simp add: initiatePaymentForEnrollment_def await_def enrollment_findFirst_def
        trainingProgram_findFirst_def payment_findFirst_def e st t p stale qr' generateQRCode_def
        resolve_def session_for_def Let_def up cr id)
qed


lemma initiatePayment_reuse:
  assumes e: "find (\<lambda>e. e_id e = eid \<and> e_user_id e = uid) (enrollments d) = Some e"
    and st: "e_status e = pending_payment"
    and t: "find (\<lambda>t. t_id t = e_training_id e) (training_programs d) = Some t"
    and p: "find (\<lambda>p. p_user_id p = uid \<and> p_training_id p = e_training_id e
                       \<and> p_status p = pending_verification) (payments d) = Some p"
    and w: "now - p_created_at p < FIVE_MINUTES"
    and qr: "QRCode_toDataURL ev (ps_upi_link (session_for ev now eid t p [])) = Some q"
  shows "initiatePaymentForEnrollment ev now n uid eid d = (d, Inr (session_for ev now eid t p q))"
proof -
  note qr' = qr [unfolded session_for_def, simplified]
  from w have nw: "\<not> FIVE_MINUTES \<le> now - p_created_at p" by simp
  show ?thesis
    by (simp add: initiatePaymentForEnrollment_def await_def enrollment_findFirst_def
        trainingProgram_findFirst_def payment_findFirst_def e st t p nw qr' generateQRCode_def
        resolve_def session_for_def Let_def)
qed

lemma find_append_new:
  "find c xs = None \<Longrightarrow> c x \<Longrightarrow> find c (xs @ [x]) = Some x"
  by (induction xs) (auto split: if_splits)

text \<open>The retry after a call that has created the payment \<open>new\<close>.\<close>

lemma initiatePayment_retry_created:
  assumes e: "find (\<lambda>e. e_id e = eid \<and> e_user_id e = uid) (enrollments d) = Some e"
    and st: "e_status e = pending_payment"
    and t: "find (\<lambda>t. t_id t = e_training_id e) (training_programs d) = Some t"
    and none: "find (\<lambda>p. p_user_id p = uid \<and> p_training_id p = e_training_id e
                       \<and> p_status p = pending_verification) (payments d) = None"
    and w: "now_b - now_a < FIVE_MINUTES"
    and qr: "QRCode_toDataURL ev (ps_upi_link (session_for ev now_b eid t
               (upi_payment now_a n_a uid (e_training_id e) (t_price t)) [])) = Some q"
  shows "initiatePaymentForEnrollment ev now_b n_b uid eid
           (d\<lparr>payments := payments d @ [upi_payment now_a n_a uid (e_training_id e) (t_price t)]\<rparr>) =
         (d\<lparr>payments := payments d @ [upi_payment now_a n_a uid (e_training_id e) (t_price t)]\<rparr>,
          Inr (session_for ev now_b eid t (upi_payment now_a n_a uid (e_training_id e) (t_price t)) q))"
proof -
  let ?new = "upi_payment now_a n_a uid (e_training_id e) (t_price t)"
  let ?d1 = "d\<lparr>payments := payments d @ [?new]\<rparr>"
  have e1: "find (\<lambda>e. e_id e = eid \<and> e_user_id e = uid) (enrollments ?d1) = Some e"
    using e by simp
  have t1: "find (\<lambda>t. t_id t = e_training_id e) (training_programs ?d1) = Some t"
    using t by simp
  have c: "p_user_id ?new = uid \<and> p_training_id ?new = e_training_id e \<and> p_status ?new = pending_verification"
    by (simp add: upi_payment_def)
  have p1: "find (\<lambda>p. p_user_id p = uid \<and> p_training_id p = e_training_id e
                        \<and> p_status p = pending_verification) (payments ?d1) = Some ?new"
    using find_append_new [OF none, of ?new] c by simp
  have w1: "now_b - p_created_at ?new < FIVE_MINUTES" using w by (simp add: upi_payment_def)
  show ?thesis by (rule initiatePayment_reuse [OF e1 st t1 p1 w1 qr])
qed

text \<open>
  C5, as the code has it. For an enrollment that waits for its payment, with its training
  program in place and a QR library that does not fail, a call looks up the first pending
  payment of the user and training and then

  \<^item> if that payment is inside its window at both calls, both calls return its identifier
    and write nothing, so no payment row is created;
  \<^item> if there is no pending payment, the first call creates one under a fresh identifier,
    and a second call less than \<open>FIVE_MINUTES\<close> later returns that identifier and writes
    nothing;
  \<^item> if that payment is past its window, the call marks it \<open>failed\<close> and creates a new
    payment under a fresh identifier, whatever other pending payments there are; when no
    other pending payment of the user and training is left, a second call less than
    \<open>FIVE_MINUTES\<close> later returns the new identifier and writes nothing.

  The payment reference is not stored: each call builds it from the clock it reads, as
  \<open>txn_reference now enrollmentId\<close>, so two calls give the same reference exactly when
  they read the same clock value.
\<close>

theorem initiatePayment_retry:
  assumes "find (\<lambda>e. e_id e = eid \<and> e_user_id e = uid) (enrollments d) = Some e"
    and "e_status e = pending_payment"
    and "find (\<lambda>t. t_id t = e_training_id e) (training_programs d) = Some t"
    and "\<forall>s. QRCode_toDataURL ev s \<noteq> None"
  shows "(\<forall>p. find (\<lambda>p. p_user_id p = uid \<and> p_training_id p = e_training_id e
                        \<and> p_status p = pending_verification) (payments d) = Some p
             \<and> now_a - p_created_at p < FIVE_MINUTES \<and> now_b - p_created_at p < FIVE_MINUTES \<longrightarrow>
          (\<exists>r1 r2. initiatePaymentForEnrollment ev now_a n_a uid eid d = (d, Inr r1)
                 \<and> initiatePaymentForEnrollment ev now_b n_b uid eid d = (d, Inr r2)
                 \<and> ps_payment_id r1 = p_id p \<and> ps_payment_id r2 = p_id p
                 \<and> ps_payment_reference r1 = txn_reference now_a eid
                 \<and> ps_payment_reference r2 = txn_reference now_b eid))
       \<and> (find (\<lambda>p. p_user_id p = uid \<and> p_training_id p = e_training_id e
                        \<and> p_status p = pending_verification) (payments d) = None
             \<and> n_a \<notin> p_id ` set (payments d) \<and> uid \<in> u_id ` set (users d)
             \<and> now_b - now_a < FIVE_MINUTES \<longrightarrow>
          (\<exists>r1 r2. initiatePaymentForEnrollment ev now_a n_a uid eid d =
                      (d\<lparr>payments := payments d @ [upi_payment now_a n_a uid (e_training_id e) (t_price t)]\<rparr>,
                       Inr r1)
                 \<and> initiatePaymentForEnrollment ev now_b n_b uid eid
                      (d\<lparr>payments := payments d @ [upi_payment now_a n_a uid (e_training_id e) (t_price t)]\<rparr>) =
                      (d\<lparr>payments := payments d @ [upi_payment now_a n_a uid (e_training_id e) (t_price t)]\<rparr>,
                       Inr r2)
                 \<and> ps_payment_id r1 = n_a \<and> ps_payment_id r2 = n_a
                 \<and> ps_payment_reference r1 = txn_reference now_a eid
                 \<and> ps_payment_reference r2 = txn_reference now_b eid))
       \<and> (\<forall>p. find (\<lambda>p. p_user_id p = uid \<and> p_training_id p = e_training_id e
                        \<and> p_status p = pending_verification) (payments d) = Some p
             \<and> FIVE_MINUTES \<le> now_a - p_created_at p
             \<and> n_a \<notin> p_id ` set (payments d) \<and> uid \<in> u_id ` set (users d) \<longrightarrow>
          (\<exists>r1. initiatePaymentForEnrollment ev now_a n_a uid eid d =
                      ((expire now_a (p_id p) d)
                         \<lparr>payments := payments (expire now_a (p_id p) d)
                                        @ [upi_payment now_a n_a uid (e_training_id e) (t_price t)]\<rparr>,
                       Inr r1)
                 \<and> ps_payment_id r1 = n_a
                 \<and> ps_payment_reference r1 = txn_reference now_a eid)
          \<and> (find (\<lambda>p. p_user_id p = uid \<and> p_training_id p = e_training_id e
                        \<and> p_status p = pending_verification) (payments (expire now_a (p_id p) d)) = None
               \<and> now_b - now_a < FIVE_MINUTES \<longrightarrow>
              (\<exists>r2. initiatePaymentForEnrollment ev now_b n_b uid eid
                      ((expire now_a (p_id p) d)
                         \<lparr>payments := payments (expire now_a (p_id p) d)
                                        @ [upi_payment now_a n_a uid (e_training_id e) (t_price t)]\<rparr>) =
                      ((expire now_a (p_id p) d)
                         \<lparr>payments := payments (expire now_a (p_id p) d)
                                        @ [upi_payment now_a n_a uid (e_training_id e) (t_price t)]\<rparr>,
                       Inr r2)
                 \<and> ps_payment_id r2 = n_a
                 \<and> ps_payment_reference r2 = txn_reference now_b eid)))
       \<and> (txn_reference now_a eid = txn_reference now_b eid \<longleftrightarrow> now_a = now_b)"
proof -
  let ?new = "upi_payment now_a n_a uid (e_training_id e) (t_price t)"
  have id: "p_id ?new = n_a" by (simp add: upi_payment_def)
  have qr: "\<exists>q. QRCode_toDataURL ev s = Some q" for s
    using assms(4) by (meson option.exhaust)
  have A: "\<exists>r1 r2. initiatePaymentForEnrollment ev now_a n_a uid eid d = (d, Inr r1)
                 \<and> initiatePaymentForEnrollment ev now_b n_b uid eid d = (d, Inr r2)
                 \<and> ps_payment_id r1 = p_id p \<and> ps_payment_id r2 = p_id p
                 \<and> ps_payment_reference r1 = txn_reference now_a eid
                 \<and> ps_payment_reference r2 = txn_reference now_b eid"
    if h: "find (\<lambda>p. p_user_id p = uid \<and> p_training_id p = e_training_id e
                        \<and> p_status p = pending_verification) (payments d) = Some p
             \<and> now_a - p_created_at p < FIVE_MINUTES \<and> now_b - p_created_at p < FIVE_MINUTES" for p
  proof -
    from h have p: "find (\<lambda>p. p_user_id p = uid \<and> p_training_id p = e_training_id e
                        \<and> p_status p = pending_verification) (payments d) = Some p"
      and w1: "now_a - p_created_at p < FIVE_MINUTES" and w2: "now_b - p_created_at p < FIVE_MINUTES"
      by simp_all
    from qr obtain q1 where q1: "QRCode_toDataURL ev (ps_upi_link (session_for ev now_a eid t p [])) = Some q1"
      by blast
    from qr obtain q2 where q2: "QRCode_toDataURL ev (ps_upi_link (session_for ev now_b eid t p [])) = Some q2"
      by blast
    note c1 = initiatePayment_reuse [OF assms(1,2,3) p w1 q1, of n_a]
    note c2 = initiatePayment_reuse [OF assms(1,2,3) p w2 q2, of n_b]
    show ?thesis
      by (intro exI [of _ "session_for ev now_a eid t p q1"] exI [of _ "session_for ev now_b eid t p q2"])
         (simp add: c1 c2 session_for_def)
  qed
  have B: "\<exists>r1 r2. initiatePaymentForEnrollment ev now_a n_a uid eid d =
                      (d\<lparr>payments := payments d @ [?new]\<rparr>, Inr r1)
                 \<and> initiatePaymentForEnrollment ev now_b n_b uid eid (d\<lparr>payments := payments d @ [?new]\<rparr>) =
                      (d\<lparr>payments := payments d @ [?new]\<rparr>, Inr r2)
                 \<and> ps_payment_id r1 = n_a \<and> ps_payment_id r2 = n_a
                 \<and> ps_payment_reference r1 = txn_reference now_a eid
                 \<and> ps_payment_reference r2 = txn_reference now_b eid"
    if h: "find (\<lambda>p. p_user_id p = uid \<and> p_training_id p = e_training_id e
                        \<and> p_status p = pending_verification) (payments d) = None
             \<and> n_a \<notin> p_id ` set (payments d) \<and> uid \<in> u_id ` set (users d)
             \<and> now_b - now_a < FIVE_MINUTES"
  proof -
    from h have none: "find (\<lambda>p. p_user_id p = uid \<and> p_training_id p = e_training_id e
                        \<and> p_status p = pending_verification) (payments d) = None"
      and fresh: "n_a \<notin> p_id ` set (payments d)" and user: "uid \<in> u_id ` set (users d)"
      and w: "now_b - now_a < FIVE_MINUTES"
      by simp_all
    from qr obtain q1 where q1: "QRCode_toDataURL ev (ps_upi_link (session_for ev now_a eid t ?new [])) = Some q1"
      by blast
    from qr obtain q2 where q2: "QRCode_toDataURL ev (ps_upi_link (session_for ev now_b eid t ?new [])) = Some q2"
      by blast
    note c1 = initiatePayment_create [OF assms(1,2,3) none fresh user q1]
    note c2 = initiatePayment_retry_created [OF assms(1,2,3) none w q2, of n_b]
    show ?thesis
      by (intro exI [of _ "(session_for ev now_a eid t ?new q1)
             \<lparr>ps_payment_id := n_a, ps_expires_at := now_a + 5 * 60 * 1000, ps_timer_duration := 300\<rparr>"]
          exI [of _ "session_for ev now_b eid t ?new q2"])
         (simp add: c1 c2 id session_for_def)
  qed
  have C1: "\<exists>r1. initiatePaymentForEnrollment ev now_a n_a uid eid d =
                      ((expire now_a (p_id p) d)
                         \<lparr>payments := payments (expire now_a (p_id p) d) @ [?new]\<rparr>, Inr r1)
                 \<and> ps_payment_id r1 = n_a
                 \<and> ps_payment_reference r1 = txn_reference now_a eid"
    if h: "find (\<lambda>p. p_user_id p = uid \<and> p_training_id p = e_training_id e
                        \<and> p_status p = pending_verification) (payments d) = Some p
             \<and> FIVE_MINUTES \<le> now_a - p_created_at p
             \<and> n_a \<notin> p_id ` set (payments d) \<and> uid \<in> u_id ` set (users d)" for p
  proof -
    from h have p: "find (\<lambda>p. p_user_id p = uid \<and> p_training_id p = e_training_id e
                        \<and> p_status p = pending_verification) (payments d) = Some p"
      and stale: "FIVE_MINUTES \<le> now_a - p_created_at p"
      and fresh: "n_a \<notin> p_id ` set (payments d)" and user: "uid \<in> u_id ` set (users d)"
      by simp_all
    from qr obtain q1 where q1: "QRCode_toDataURL ev (ps_upi_link (session_for ev now_a eid t ?new [])) = Some q1"
      by blast
    note c1 = initiatePayment_expire_create [OF assms(1,2,3) p stale fresh user q1]
    show ?thesis
      by (intro exI [of _ "(session_for ev now_a eid t ?new q1)
             \<lparr>ps_payment_id := n_a, ps_expires_at := now_a + 5 * 60 * 1000, ps_timer_duration := 300\<rparr>"])
         (simp add: c1 session_for_def)
  qed
  have C2: "\<exists>r2. initiatePaymentForEnrollment ev now_b n_b uid eid
                      ((expire now_a (p_id p) d)
                         \<lparr>payments := payments (expire now_a (p_id p) d) @ [?new]\<rparr>) =
                      ((expire now_a (p_id p) d)
                         \<lparr>payments := payments (expire now_a (p_id p) d) @ [?new]\<rparr>, Inr r2)
                 \<and> ps_payment_id r2 = n_a
                 \<and> ps_payment_reference r2 = txn_reference now_b eid"
    if h: "find (\<lambda>p. p_user_id p = uid \<and> p_training_id p = e_training_id e
                        \<and> p_status p = pending_verification) (payments (expire now_a (p_id p) d)) = None
               \<and> now_b - now_a < FIVE_MINUTES" for p
  proof -
    from h have none: "find (\<lambda>p. p_user_id p = uid \<and> p_training_id p = e_training_id e
                        \<and> p_status p = pending_verification) (payments (expire now_a (p_id p) d)) = None"
      and w: "now_b - now_a < FIVE_MINUTES"
      by simp_all
    have e1: "find (\<lambda>e. e_id e = eid \<and> e_user_id e = uid) (enrollments (expire now_a (p_id p) d)) = Some e"
      using assms(1) by (simp add: expire_others)
    have t1: "find (\<lambda>t. t_id t = e_training_id e) (training_programs (expire now_a (p_id p) d)) = Some t"
      using assms(3) by (simp add: expire_others)
    from qr obtain q2 where q2: "QRCode_toDataURL ev (ps_upi_link (session_for ev now_b eid t ?new [])) = Some q2"
      by blast
    note c2 = initiatePayment_retry_created [OF e1 assms(2) t1 none w q2, of n_b]
    show ?thesis
      by (intro exI [of _ "session_for ev now_b eid t ?new q2"]) (simp add: c2 id session_for_def)
  qed
  have D: "txn_reference now_a eid = txn_reference now_b eid \<longleftrightarrow> now_a = now_b"
    by (rule txn_reference_inject)
  from A B C1 C2 D show ?thesis by (intro conjI allI impI)
qed


lemma digit_chars:
  "digit_char 0 = CHR ''0''" "digit_char (Suc 0) = CHR ''1''" "digit_char 2 = CHR ''2''"
  "digit_char 3 = CHR ''3''" "digit_char 4 = CHR ''4''" "digit_char 5 = CHR ''5''"
  "digit_char 6 = CHR ''6''" "digit_char 7 = CHR ''7''" "digit_char 8 = CHR ''8''"
  "digit_char 9 = CHR ''9''"
  by code_simp+

lemma demo_references:
  "txn_reference 2000 ''enrollment-000001'' = ''TXN-2000-000001''"
  "txn_reference 3000 ''enrollment-000001'' = ''TXN-3000-000001''"
  "txn_reference 400000 ''enrollment-000001'' = ''TXN-400000-000001''"
  "txn_reference 401000 ''enrollment-000001'' = ''TXN-401000-000001''"
  by (simp_all add: txn_reference_def string_of_int_def slice_last6_def string_of_nat.simps digit_chars)

lemma demo_rows:
  "find (\<lambda>e. e_id e = ''enrollment-000001'' \<and> e_user_id e = ''u1'') (enrollments demo_db) = Some demo_enrollment"
  "e_status demo_enrollment = pending_payment"
  "find (\<lambda>t. t_id t = e_training_id demo_enrollment) (training_programs demo_db) = Some demo_training"
  "\<forall>s. QRCode_toDataURL demo_env s \<noteq> None"
  by (simp_all add: demo_db_def demo_enrollment_def demo_training_def demo_env_def)

theorem initiatePayment_retry_witness:
  "find (\<lambda>e. e_id e = ''enrollment-000001'' \<and> e_user_id e = ''u1'') (enrollments demo_db) = Some demo_enrollment
   \<and> e_status demo_enrollment = pending_payment
   \<and> find (\<lambda>t. t_id t = e_training_id demo_enrollment) (training_programs demo_db) = Some demo_training
   \<and> (\<forall>s. QRCode_toDataURL demo_env s \<noteq> None)
   \<and> find (\<lambda>p. p_user_id p = ''u1'' \<and> p_training_id p = e_training_id demo_enrollment
                 \<and> p_status p = pending_verification) (payments demo_db) = Some demo_payment
   \<and> 2000 - p_created_at demo_payment < FIVE_MINUTES \<and> 3000 - p_created_at demo_payment < FIVE_MINUTES
   \<and> (\<exists>r1 r2. initiatePaymentForEnrollment demo_env 2000 ''p2'' ''u1'' ''enrollment-000001'' demo_db
                  = (demo_db, Inr r1)
            \<and> initiatePaymentForEnrollment demo_env 3000 ''p3'' ''u1'' ''enrollment-000001'' demo_db
                  = (demo_db, Inr r2)
            \<and> ps_payment_id r1 = ''p1'' \<and> ps_payment_id r2 = ''p1'')
   \<and> find (\<lambda>p. p_user_id p = ''u1'' \<and> p_training_id p = e_training_id demo_enrollment
                 \<and> p_status p = pending_verification) (payments (demo_db\<lparr>payments := []\<rparr>)) = None
   \<and> ''p2'' \<notin> p_id ` set (payments (demo_db\<lparr>payments := []\<rparr>))
   \<and> ''u1'' \<in> u_id ` set (users (demo_db\<lparr>payments := []\<rparr>))
   \<and> (2000 :: int) \<noteq> 3000
   \<and> (\<exists>r1 r2. initiatePaymentForEnrollment demo_env 2000 ''p2'' ''u1'' ''enrollment-000001''
                     (demo_db\<lparr>payments := []\<rparr>)
                  = (demo_db\<lparr>payments := [upi_payment 2000 ''p2'' ''u1'' ''t1'' 499]\<rparr>, Inr r1)
            \<and> initiatePaymentForEnrollment demo_env 3000 ''p3'' ''u1'' ''enrollment-000001''
                     (demo_db\<lparr>payments := [upi_payment 2000 ''p2'' ''u1'' ''t1'' 499]\<rparr>)
                  = (demo_db\<lparr>payments := [upi_payment 2000 ''p2'' ''u1'' ''t1'' 499]\<rparr>, Inr r2)
            \<and> ps_payment_id r1 = ''p2'' \<and> ps_payment_id r2 = ''p2'')
   \<and> txn_reference 2000 ''enrollment-000001'' \<noteq> txn_reference 3000 ''enrollment-000001''
   \<and> FIVE_MINUTES \<le> 400000 - p_created_at demo_payment
   \<and> ''p2'' \<notin> p_id ` set (payments demo_db) \<and> ''u1'' \<in> u_id ` set (users demo_db)
   \<and> find (\<lambda>p. p_user_id p = ''u1'' \<and> p_training_id p = e_training_id demo_enrollment
                 \<and> p_status p = pending_verification)
        (payments (expire 400000 (p_id demo_payment) demo_db)) = None
   \<and> (401000 :: int) - 400000 < FIVE_MINUTES
   \<and> (\<exists>r1 r2. initiatePaymentForEnrollment demo_env 400000 ''p2'' ''u1'' ''enrollment-000001'' demo_db
                  = (demo_db\<lparr>payments := [demo_payment\<lparr>p_updated_at := 400000, p_status := failed\<rparr>,
                                            upi_payment 400000 ''p2'' ''u1'' ''t1'' 499]\<rparr>, Inr r1)
            \<and> initiatePaymentForEnrollment demo_env 401000 ''p3'' ''u1'' ''enrollment-000001''
                  (demo_db\<lparr>payments := [demo_payment\<lparr>p_updated_at := 400000, p_status := failed\<rparr>,
                                         upi_payment 400000 ''p2'' ''u1'' ''t1'' 499]\<rparr>)
                  = (demo_db\<lparr>payments := [demo_payment\<lparr>p_updated_at := 400000, p_status := failed\<rparr>,
                                            upi_payment 400000 ''p2'' ''u1'' ''t1'' 499]\<rparr>, Inr r2)
            \<and> ps_payment_id r1 = ''p2'' \<and> ps_payment_id r2 = ''p2'')"
proof -
  note e = demo_rows(1) and st = demo_rows(2) and t = demo_rows(3) and qr = demo_rows(4)
  have p: "find (\<lambda>p. p_user_id p = ''u1'' \<and> p_training_id p = e_training_id demo_enrollment
                       \<and> p_status p = pending_verification) (payments demo_db) = Some demo_payment"
    by (simp add: demo_db_def demo_enrollment_def demo_payment_def)
  have w: "2000 - p_created_at demo_payment < FIVE_MINUTES" "3000 - p_created_at demo_payment < FIVE_MINUTES"
    by (simp_all add: demo_payment_def FIVE_MINUTES_def)
  have pid: "p_id demo_payment = ''p1''" by (simp add: demo_payment_def)
  have tid: "e_training_id demo_enrollment = ''t1''" by (simp add: demo_enrollment_def)
  have price: "t_price demo_training = 499" by (simp add: demo_training_def)
  have e0: "find (\<lambda>e. e_id e = ''enrollment-000001'' \<and> e_user_id e = ''u1'')
               (enrollments (demo_db\<lparr>payments := []\<rparr>)) = Some demo_enrollment"
    using e by simp
  have t0: "find (\<lambda>t. t_id t = e_training_id demo_enrollment)
               (training_programs (demo_db\<lparr>payments := []\<rparr>)) = Some demo_training"
    using t by simp
  have p0: "find (\<lambda>p. p_user_id p = ''u1'' \<and> p_training_id p = e_training_id demo_enrollment
                 \<and> p_status p = pending_verification) (payments (demo_db\<lparr>payments := []\<rparr>)) = None"
    by simp
  have f0: "''p2'' \<notin> p_id ` set (payments (demo_db\<lparr>payments := []\<rparr>))" by simp
  have u0: "''u1'' \<in> u_id ` set (users (demo_db\<lparr>payments := []\<rparr>))"
    by (simp add: demo_db_def demo_user_def)
  have w0: "(3000::int) - 2000 < FIVE_MINUTES" by (simp add: FIVE_MINUTES_def)
  have ne: "(2000 :: int) \<noteq> 3000" by simp
  have stale: "FIVE_MINUTES \<le> 400000 - p_created_at demo_payment"
    by (simp add: demo_payment_def FIVE_MINUTES_def)
  have f1: "''p2'' \<notin> p_id ` set (payments demo_db)" by (simp add: demo_db_def demo_payment_def)
  have u1: "''u1'' \<in> u_id ` set (users demo_db)" by (simp add: demo_db_def demo_user_def)
  have ex: "expire 400000 (p_id demo_payment) demo_db
              = demo_db\<lparr>payments := [demo_payment\<lparr>p_updated_at := 400000, p_status := failed\<rparr>]\<rparr>"
    by (simp add: expire_def demo_db_def)
  have p1: "find (\<lambda>p. p_user_id p = ''u1'' \<and> p_training_id p = e_training_id demo_enrollment
                 \<and> p_status p = pending_verification)
        (payments (expire 400000 (p_id demo_payment) demo_db)) = None"
    by (simp add: ex)
  have w1: "(401000 :: int) - 400000 < FIVE_MINUTES" by (simp add: FIVE_MINUTES_def)
  note T = initiatePayment_retry [OF e st t qr,
      where now_a = 2000 and now_b = 3000 and n_a = "''p2''" and n_b = "''p3''"]
  note U = initiatePayment_retry [OF e0 st t0 qr,
      where now_a = 2000 and now_b = 3000 and n_a = "''p2''" and n_b = "''p3''"]
  note V = initiatePayment_retry [OF e st t qr,
      where now_a = 400000 and now_b = 401000 and n_a = "''p2''" and n_b = "''p3''"]
  from T [THEN conjunct1, THEN spec, THEN mp, OF conjI [OF p conjI [OF w(1) w(2)]]]
  obtain r1 r2 where
      "initiatePaymentForEnrollment demo_env 2000 ''p2'' ''u1'' ''enrollment-000001'' demo_db = (demo_db, Inr r1)"
      "initiatePaymentForEnrollment demo_env 3000 ''p3'' ''u1'' ''enrollment-000001'' demo_db = (demo_db, Inr r2)"
      "ps_payment_id r1 = p_id demo_payment" "ps_payment_id r2 = p_id demo_payment"
    by (elim exE conjE)
  then have A: "\<exists>r1 r2. initiatePaymentForEnrollment demo_env 2000 ''p2'' ''u1'' ''enrollment-000001'' demo_db
                  = (demo_db, Inr r1)
            \<and> initiatePaymentForEnrollment demo_env 3000 ''p3'' ''u1'' ''enrollment-000001'' demo_db
                  = (demo_db, Inr r2)
            \<and> ps_payment_id r1 = ''p1'' \<and> ps_payment_id r2 = ''p1''"
    by (intro exI [of _ r1] exI [of _ r2]) (simp add: pid)
  from U [THEN conjunct2, THEN conjunct1, THEN mp, OF conjI [OF p0 conjI [OF f0 conjI [OF u0 w0]]]]
  obtain s1 s2 where
      "initiatePaymentForEnrollment demo_env 2000 ''p2'' ''u1'' ''enrollment-000001''
                     (demo_db\<lparr>payments := []\<rparr>)
         = (demo_db\<lparr>payments := []\<rparr>\<lparr>payments := payments (demo_db\<lparr>payments := []\<rparr>)
               @ [upi_payment 2000 ''p2'' ''u1'' (e_training_id demo_enrollment) (t_price demo_training)]\<rparr>, Inr s1)"
      "initiatePaymentForEnrollment demo_env 3000 ''p3'' ''u1'' ''enrollment-000001''
                     (demo_db\<lparr>payments := []\<rparr>\<lparr>payments := payments (demo_db\<lparr>payments := []\<rparr>)
               @ [upi_payment 2000 ''p2'' ''u1'' (e_training_id demo_enrollment) (t_price demo_training)]\<rparr>)
         = (demo_db\<lparr>payments := []\<rparr>\<lparr>payments := payments (demo_db\<lparr>payments := []\<rparr>)
               @ [upi_payment 2000 ''p2'' ''u1'' (e_training_id demo_enrollment) (t_price demo_training)]\<rparr>, Inr s2)"
      "ps_payment_id s1 = ''p2''" "ps_payment_id s2 = ''p2''"
    by (elim exE conjE)
  then have B: "\<exists>r1 r2. initiatePaymentForEnrollment demo_env 2000 ''p2'' ''u1'' ''enrollment-000001''
                     (demo_db\<lparr>payments := []\<rparr>)
                  = (demo_db\<lparr>payments := [upi_payment 2000 ''p2'' ''u1'' ''t1'' 499]\<rparr>, Inr r1)
            \<and> initiatePaymentForEnrollment demo_env 3000 ''p3'' ''u1'' ''enrollment-000001''
                     (demo_db\<lparr>payments := [upi_payment 2000 ''p2'' ''u1'' ''t1'' 499]\<rparr>)
                  = (demo_db\<lparr>payments := [upi_payment 2000 ''p2'' ''u1'' ''t1'' 499]\<rparr>, Inr r2)
            \<and> ps_payment_id r1 = ''p2'' \<and> ps_payment_id r2 = ''p2''"
    by (intro exI [of _ s1] exI [of _ s2]) (simp add: tid price)
  from T [THEN conjunct2, THEN conjunct2, THEN conjunct2] ne
  have D: "txn_reference 2000 ''enrollment-000001'' \<noteq> txn_reference 3000 ''enrollment-000001''"
    by simp
  note V3 = V [THEN conjunct2, THEN conjunct2, THEN conjunct1, THEN spec, THEN mp,
               OF conjI [OF p conjI [OF stale conjI [OF f1 u1]]]]
  from V3 [THEN conjunct1]
  obtain v1 where
      "initiatePaymentForEnrollment demo_env 400000 ''p2'' ''u1'' ''enrollment-000001'' demo_db
         = ((expire 400000 (p_id demo_payment) demo_db)
              \<lparr>payments := payments (expire 400000 (p_id demo_payment) demo_db)
                 @ [upi_payment 400000 ''p2'' ''u1'' (e_training_id demo_enrollment) (t_price demo_training)]\<rparr>,
            Inr v1)"
      "ps_payment_id v1 = ''p2''"
    by (elim exE conjE)
  moreover from V3 [THEN conjunct2, THEN mp, OF conjI [OF p1 w1]]
  obtain v2 where
      "initiatePaymentForEnrollment demo_env 401000 ''p3'' ''u1'' ''enrollment-000001''
          ((expire 400000 (p_id demo_payment) demo_db)
              \<lparr>payments := payments (expire 400000 (p_id demo_payment) demo_db)
                 @ [upi_payment 400000 ''p2'' ''u1'' (e_training_id demo_enrollment) (t_price demo_training)]\<rparr>)
         = ((expire 400000 (p_id demo_payment) demo_db)
              \<lparr>payments := payments (expire 400000 (p_id demo_payment) demo_db)
                 @ [upi_payment 400000 ''p2'' ''u1'' (e_training_id demo_enrollment) (t_price demo_training)]\<rparr>,
            Inr v2)"
      "ps_payment_id v2 = ''p2''"
    by (elim exE conjE)
  ultimately have C: "\<exists>r1 r2. initiatePaymentForEnrollment demo_env 400000 ''p2'' ''u1'' ''enrollment-000001'' demo_db
                  = (demo_db\<lparr>payments := [demo_payment\<lparr>p_updated_at := 400000, p_status := failed\<rparr>,
                                            upi_payment 400000 ''p2'' ''u1'' ''t1'' 499]\<rparr>, Inr r1)
            \<and> initiatePaymentForEnrollment demo_env 401000 ''p3'' ''u1'' ''enrollment-000001''
                  (demo_db\<lparr>payments := [demo_payment\<lparr>p_updated_at := 400000, p_status := failed\<rparr>,
                                         upi_payment 400000 ''p2'' ''u1'' ''t1'' 499]\<rparr>)
                  = (demo_db\<lparr>payments := [demo_payment\<lparr>p_updated_at := 400000, p_status := failed\<rparr>,
                                            upi_payment 400000 ''p2'' ''u1'' ''t1'' 499]\<rparr>, Inr r2)
            \<and> ps_payment_id r1 = ''p2'' \<and> ps_payment_id r2 = ''p2''"
    by (intro exI [of _ v1] exI [of _ v2]) (simp add: ex tid price)
  from e st t qr p w A p0 f0 u0 ne B D stale f1 u1 p1 w1 C show ?thesis by (intro conjI)
qed

lemma demo_backlog_rows:
  "find (\<lambda>e. e_id e = ''enrollment-000001'' \<and> e_user_id e = ''u1'') (enrollments demo_backlog_db)
     = Some demo_enrollment"
  "find (\<lambda>t. t_id t = e_training_id demo_enrollment) (training_programs demo_backlog_db) = Some demo_training"
  "''u1'' \<in> u_id ` set (users demo_backlog_db)"
  by (simp_all add: demo_backlog_db_def demo_db_def demo_enrollment_def demo_training_def demo_user_def)


lemma demo_initiate:
  assumes "now - 1000 < FIVE_MINUTES"
  shows "initiatePaymentForEnrollment demo_env now n ''u1'' ''enrollment-000001'' demo_db =
     (demo_db, Inr (session_for demo_env now ''enrollment-000001'' demo_training demo_payment
        (''data:image/png;base64,'' @
          ps_upi_link (session_for demo_env now ''enrollment-000001'' demo_training demo_payment []))))"
proof -
  have p: "find (\<lambda>p. p_user_id p = ''u1'' \<and> p_training_id p = e_training_id demo_enrollment
                       \<and> p_status p = pending_verification) (payments demo_db) = Some demo_payment"
    by (simp add: demo_db_def demo_enrollment_def demo_payment_def)
  have w: "now - p_created_at demo_payment < FIVE_MINUTES" using assms by (simp add: demo_payment_def)
  have qr: "QRCode_toDataURL demo_env
              (ps_upi_link (session_for demo_env now ''enrollment-000001'' demo_training demo_payment []))
            = Some (''data:image/png;base64,'' @
                ps_upi_link (session_for demo_env now ''enrollment-000001'' demo_training demo_payment []))"
    by (simp add: demo_env_def)
  show ?thesis by (rule initiatePayment_reuse [OF demo_rows(1,2,3) p w qr])
qed

lemma demo_backlog_first:
  "fst (initiatePaymentForEnrollment demo_env 400000 ''p4'' ''u1'' ''enrollment-000001'' demo_backlog_db)
     = demo_db\<lparr>payments :=
          [demo_payment\<lparr>p_updated_at := 400000, p_status := failed\<rparr>,
           demo_payment\<lparr>p_id := ''p2'', p_created_at := 2000, p_updated_at := 2000\<rparr>,
           demo_payment\<lparr>p_id := ''p3'', p_created_at := 390000, p_updated_at := 390000\<rparr>,
           upi_payment 400000 ''p4'' ''u1'' ''t1'' 499]\<rparr>"
  "map_option ps_payment_id
     (result_of (initiatePaymentForEnrollment demo_env 400000 ''p4'' ''u1'' ''enrollment-000001'' demo_backlog_db))
     = Some ''p4''"
proof -
  let ?new = "upi_payment 400000 ''p4'' ''u1'' (e_training_id demo_enrollment) (t_price demo_training)"
  have p: "find (\<lambda>p. p_user_id p = ''u1'' \<and> p_training_id p = e_training_id demo_enrollment
                       \<and> p_status p = pending_verification) (payments demo_backlog_db) = Some demo_payment"
    by (simp add: demo_backlog_db_def demo_enrollment_def demo_payment_def)
  have stale: "FIVE_MINUTES \<le> 400000 - p_created_at demo_payment"
    by (simp add: demo_payment_def FIVE_MINUTES_def)
  have fresh: "''p4'' \<notin> p_id ` set (payments demo_backlog_db)"
    by (simp add: demo_backlog_db_def demo_payment_def)
  have qr: "QRCode_toDataURL demo_env
              (ps_upi_link (session_for demo_env 400000 ''enrollment-000001'' demo_training ?new []))
            = Some (''data:image/png;base64,'' @
                ps_upi_link (session_for demo_env 400000 ''enrollment-000001'' demo_training ?new []))"
    by (simp add: demo_env_def)
  note c = initiatePayment_expire_create [OF demo_backlog_rows(1) demo_rows(2) demo_backlog_rows(2) p stale fresh
      demo_backlog_rows(3) qr]
  show "fst (initiatePaymentForEnrollment demo_env 400000 ''p4'' ''u1'' ''enrollment-000001'' demo_backlog_db)
     = demo_db\<lparr>payments :=
          [demo_payment\<lparr>p_updated_at := 400000, p_status := failed\<rparr>,
           demo_payment\<lparr>p_id := ''p2'', p_created_at := 2000, p_updated_at := 2000\<rparr>,
           demo_payment\<lparr>p_id := ''p3'', p_created_at := 390000, p_updated_at := 390000\<rparr>,
           upi_payment 400000 ''p4'' ''u1'' ''t1'' 499]\<rparr>"
    unfolding c fst_conv
    by (simp add: expire_def demo_backlog_db_def demo_payment_def demo_enrollment_def demo_training_def)
  show "map_option ps_payment_id
     (result_of (initiatePaymentForEnrollment demo_env 400000 ''p4'' ''u1'' ''enrollment-000001'' demo_backlog_db))
     = Some ''p4''"
    unfolding c by (simp add: result_of_def)
qed

lemma demo_backlog_second:
  "fst (initiatePaymentForEnrollment demo_env 401000 ''p5'' ''u1'' ''enrollment-000001''
          (demo_db\<lparr>payments :=
            [demo_payment\<lparr>p_updated_at := 400000, p_status := failed\<rparr>,
             demo_payment\<lparr>p_id := ''p2'', p_created_at := 2000, p_updated_at := 2000\<rparr>,
             demo_payment\<lparr>p_id := ''p3'', p_created_at := 390000, p_updated_at := 390000\<rparr>,
             upi_payment 400000 ''p4'' ''u1'' ''t1'' 499]\<rparr>))
     = demo_db\<lparr>payments :=
          [demo_payment\<lparr>p_updated_at := 400000, p_status := failed\<rparr>,
           demo_payment\<lparr>p_id := ''p2'', p_created_at := 2000, p_updated_at := 401000, p_status := failed\<rparr>,
           demo_payment\<lparr>p_id := ''p3'', p_created_at := 390000, p_updated_at := 390000\<rparr>,
           upi_payment 400000 ''p4'' ''u1'' ''t1'' 499,
           upi_payment 401000 ''p5'' ''u1'' ''t1'' 499]\<rparr>"
  "map_option ps_payment_id
     (result_of (initiatePaymentForEnrollment demo_env 401000 ''p5'' ''u1'' ''enrollment-000001''
          (demo_db\<lparr>payments :=
            [demo_payment\<lparr>p_updated_at := 400000, p_status := failed\<rparr>,
             demo_payment\<lparr>p_id := ''p2'', p_created_at := 2000, p_updated_at := 2000\<rparr>,
             demo_payment\<lparr>p_id := ''p3'', p_created_at := 390000, p_updated_at := 390000\<rparr>,
             upi_payment 400000 ''p4'' ''u1'' ''t1'' 499]\<rparr>)))
     = Some ''p5''"
proof -
  let ?d1 = "demo_db\<lparr>payments :=
            [demo_payment\<lparr>p_updated_at := 400000, p_status := failed\<rparr>,
             demo_payment\<lparr>p_id := ''p2'', p_created_at := 2000, p_updated_at := 2000\<rparr>,
             demo_payment\<lparr>p_id := ''p3'', p_created_at := 390000, p_updated_at := 390000\<rparr>,
             upi_payment 400000 ''p4'' ''u1'' ''t1'' 499]\<rparr>"
  let ?p2 = "demo_payment\<lparr>p_id := ''p2'', p_created_at := 2000, p_updated_at := 2000\<rparr>"
  let ?new = "upi_payment 401000 ''p5'' ''u1'' (e_training_id demo_enrollment) (t_price demo_training)"
  have e: "find (\<lambda>e. e_id e = ''enrollment-000001'' \<and> e_user_id e = ''u1'') (enrollments ?d1)
             = Some demo_enrollment"
    using demo_rows(1) by simp
  have t: "find (\<lambda>t. t_id t = e_training_id demo_enrollment) (training_programs ?d1) = Some demo_training"
    using demo_rows(3) by simp
  have u: "''u1'' \<in> u_id ` set (users ?d1)" by (simp add: demo_db_def demo_user_def)
  have p: "find (\<lambda>p. p_user_id p = ''u1'' \<and> p_training_id p = e_training_id demo_enrollment
                       \<and> p_status p = pending_verification) (payments ?d1) = Some ?p2"
    by (simp add: demo_enrollment_def demo_payment_def)
  have stale: "FIVE_MINUTES \<le> 401000 - p_created_at ?p2"
    by (simp add: FIVE_MINUTES_def)
  have fresh: "''p5'' \<notin> p_id ` set (payments ?d1)"
    by (simp add: demo_payment_def upi_payment_def)
  have qr: "QRCode_toDataURL demo_env
              (ps_upi_link (session_for demo_env 401000 ''enrollment-000001'' demo_training ?new []))
            = Some (''data:image/png;base64,'' @
                ps_upi_link (session_for demo_env 401000 ''enrollment-000001'' demo_training ?new []))"
    by (simp add: demo_env_def)
  note c = initiatePayment_expire_create [OF e demo_rows(2) t p stale fresh u qr]
  show "fst (initiatePaymentForEnrollment demo_env 401000 ''p5'' ''u1'' ''enrollment-000001'' ?d1)
     = demo_db\<lparr>payments :=
          [demo_payment\<lparr>p_updated_at := 400000, p_status := failed\<rparr>,
           demo_payment\<lparr>p_id := ''p2'', p_created_at := 2000, p_updated_at := 401000, p_status := failed\<rparr>,
           demo_payment\<lparr>p_id := ''p3'', p_created_at := 390000, p_updated_at := 390000\<rparr>,
           upi_payment 400000 ''p4'' ''u1'' ''t1'' 499,
           upi_payment 401000 ''p5'' ''u1'' ''t1'' 499]\<rparr>"
    unfolding c fst_conv
    by (simp add: expire_def demo_payment_def demo_enrollment_def demo_training_def upi_payment_def)
  show "map_option ps_payment_id
     (result_of (initiatePaymentForEnrollment demo_env 401000 ''p5'' ''u1'' ''enrollment-000001'' ?d1))
     = Some ''p5''"
    unfolding c by (simp add: result_of_def)
qed

text \<open>
  Two calls one second apart return the same payment with two references. And with an
  expired pending payment ahead of the one that is still inside its window, the first
  call returns a new payment \<open>p4\<close> and the retry another new payment \<open>p5\<close>: each call
  expires the oldest pending payment and creates a row.
\<close>

theorem initiatePayment_retry_counterexample:
  "fst (initiatePaymentForEnrollment demo_env 2000 ''p2'' ''u1'' ''enrollment-000001'' demo_db) = demo_db
   \<and> map_option ps_payment_id
        (result_of (initiatePaymentForEnrollment demo_env 2000 ''p2'' ''u1'' ''enrollment-000001'' demo_db))
       = Some ''p1''
   \<and> map_option ps_payment_reference
        (result_of (initiatePaymentForEnrollment demo_env 2000 ''p2'' ''u1'' ''enrollment-000001'' demo_db))
       = Some ''TXN-2000-000001''
   \<and> map_option ps_payment_id
        (result_of (initiatePaymentForEnrollment demo_env 3000 ''p3'' ''u1'' ''enrollment-000001'' demo_db))
       = Some ''p1''
   \<and> map_option ps_payment_reference
        (result_of (initiatePaymentForEnrollment demo_env 3000 ''p3'' ''u1'' ''enrollment-000001'' demo_db))
       = Some ''TXN-3000-000001''
   \<and> map e_status (enrollments demo_backlog_db) = [pending_payment]
   \<and> map p_id (payments demo_backlog_db) = [''p1'', ''p2'', ''p3'']
   \<and> map p_status (payments demo_backlog_db) = [pending_verification, pending_verification, pending_verification]
   \<and> map p_created_at (payments demo_backlog_db) = [1000, 2000, 390000]
   \<and> map_option ps_payment_id
        (result_of (initiatePaymentForEnrollment demo_env 400000 ''p4'' ''u1'' ''enrollment-000001''
                      demo_backlog_db))
       = Some ''p4''
   \<and> map p_id (payments
        (fst (initiatePaymentForEnrollment demo_env 400000 ''p4'' ''u1'' ''enrollment-000001'' demo_backlog_db)))
       = [''p1'', ''p2'', ''p3'', ''p4'']
   \<and> map p_status (payments
        (fst (initiatePaymentForEnrollment demo_env 400000 ''p4'' ''u1'' ''enrollment-000001'' demo_backlog_db)))
       = [failed, pending_verification, pending_verification, pending_verification]
   \<and> map_option ps_payment_id
        (result_of (initiatePaymentForEnrollment demo_env 401000 ''p5'' ''u1'' ''enrollment-000001''
           (fst (initiatePaymentForEnrollment demo_env 400000 ''p4'' ''u1'' ''enrollment-000001''
                   demo_backlog_db))))
       = Some ''p5''
   \<and> map p_id (payments
        (fst (initiatePaymentForEnrollment demo_env 401000 ''p5'' ''u1'' ''enrollment-000001''
           (fst (initiatePaymentForEnrollment demo_env 400000 ''p4'' ''u1'' ''enrollment-000001''
                   demo_backlog_db)))))
       = [''p1'', ''p2'', ''p3'', ''p4'', ''p5'']
   \<and> map p_status (payments
        (fst (initiatePaymentForEnrollment demo_env 401000 ''p5'' ''u1'' ''enrollment-000001''
           (fst (initiatePaymentForEnrollment demo_env 400000 ''p4'' ''u1'' ''enrollment-000001''
                   demo_backlog_db)))))
       = [failed, failed, pending_verification, pending_verification, pending_verification]"
proof -
  have w: "(2000::int) - 1000 < FIVE_MINUTES" "(3000::int) - 1000 < FIVE_MINUTES"
    by (simp_all add: FIVE_MINUTES_def)
  have pid: "p_id demo_payment = ''p1''" by (simp add: demo_payment_def)
  have A: "fst (initiatePaymentForEnrollment demo_env 2000 ''p2'' ''u1'' ''enrollment-000001'' demo_db) = demo_db
   \<and> map_option ps_payment_id
        (result_of (initiatePaymentForEnrollment demo_env 2000 ''p2'' ''u1'' ''enrollment-000001'' demo_db))
       = Some ''p1''
   \<and> map_option ps_payment_reference
        (result_of (initiatePaymentForEnrollment demo_env 2000 ''p2'' ''u1'' ''enrollment-000001'' demo_db))
       = Some ''TXN-2000-000001''
   \<and> map_option ps_payment_id
        (result_of (initiatePaymentForEnrollment demo_env 3000 ''p3'' ''u1'' ''enrollment-000001'' demo_db))
       = Some ''p1''
   \<and> map_option ps_payment_reference
        (result_of (initiatePaymentForEnrollment demo_env 3000 ''p3'' ''u1'' ''enrollment-000001'' demo_db))
       = Some ''TXN-3000-000001''"
    by (simp add: demo_initiate [OF w(1)] demo_initiate [OF w(2)] result_of_def session_for_def
        demo_references pid)
  have B: "map e_status (enrollments demo_backlog_db) = [pending_payment]
   \<and> map p_id (payments demo_backlog_db) = [''p1'', ''p2'', ''p3'']
   \<and> map p_status (payments demo_backlog_db) = [pending_verification, pending_verification, pending_verification]
   \<and> map p_created_at (payments demo_backlog_db) = [1000, 2000, 390000]"
    by (simp add: demo_backlog_db_def demo_db_def demo_enrollment_def demo_payment_def)
  have C: "map_option ps_payment_id
        (result_of (initiatePaymentForEnrollment demo_env 400000 ''p4'' ''u1'' ''enrollment-000001''
                      demo_backlog_db))
       = Some ''p4''
   \<and> map p_id (payments
        (fst (initiatePaymentForEnrollment demo_env 400000 ''p4'' ''u1'' ''enrollment-000001'' demo_backlog_db)))
       = [''p1'', ''p2'', ''p3'', ''p4'']
   \<and> map p_status (payments
        (fst (initiatePaymentForEnrollment demo_env 400000 ''p4'' ''u1'' ''enrollment-000001'' demo_backlog_db)))
       = [failed, pending_verification, pending_verification, pending_verification]"
    unfolding demo_backlog_first by (simp add: demo_payment_def upi_payment_def)
  have D: "map_option ps_payment_id
        (result_of (initiatePaymentForEnrollment demo_env 401000 ''p5'' ''u1'' ''enrollment-000001''
           (fst (initiatePaymentForEnrollment demo_env 400000 ''p4'' ''u1'' ''enrollment-000001''
                   demo_backlog_db))))
       = Some ''p5''
   \<and> map p_id (payments
        (fst (initiatePaymentForEnrollment demo_env 401000 ''p5'' ''u1'' ''enrollment-000001''
           (fst (initiatePaymentForEnrollment demo_env 400000 ''p4'' ''u1'' ''enrollment-000001''
                   demo_backlog_db)))))
       = [''p1'', ''p2'', ''p3'', ''p4'', ''p5'']
   \<and> map p_status (payments
        (fst (initiatePaymentForEnrollment demo_env 401000 ''p5'' ''u1'' ''enrollment-000001''
           (fst (initiatePaymentForEnrollment demo_env 400000 ''p4'' ''u1'' ''enrollment-000001''
                   demo_backlog_db)))))
       = [failed, failed, pending_verification, pending_verification, pending_verification]"
    unfolding demo_backlog_first demo_backlog_second by (simp add: demo_payment_def upi_payment_def)
  from A B C D show ?thesis by (simp only: simp_thms)
qed

end
